(* ===== verification/Prelude.thy ===== *)
theory Prelude
  imports Main "HOL-Library.AList"
begin

text \<open>
  Shared vocabulary of the development: the Python exceptions both jobs raise, the
  Python string operations they call (\<open>str.lower\<close>, \<open>str.upper\<close>, \<open>str.title\<close>,
  \<open>str(int)\<close>, \<open>", ".join\<close>, the truthiness test \<open>if s:\<close>), and the lemmas on them
  that the component theories share.  Python \<open>str\<close> values are modelled as
  \<^typ>\<open>string\<close>, one \<^typ>\<open>char\<close> per code point; the case mappings are exact on
  ASCII, which is the alphabet of every layer name, jurisdiction code and version
  string of the jobs, and leave the other code points unchanged.
\<close>

named_theorems py_simps "evaluation rules of the Python string helpers"

type_synonym path = "string list"

section \<open>Exceptions\<close>

text \<open>
  The exceptions that the two scripts raise or let propagate.  \<open>DbError\<close> stands for
  the \<open>psycopg2.Error\<close> family (connection errors, query errors,
  \<open>InFailedSqlTransaction\<close>); \<open>HttpError\<close> is the bare \<open>Exception\<close> that
  \<open>register_tileset\<close> raises on a failed catalog write; \<open>ConnectionError\<close> is the
  \<open>requests\<close> exception for a request that gets no response; \<open>OSError\<close> covers the
  file-system errors of \<open>pathlib\<close> and \<open>open\<close>.
\<close>

datatype exc =
    ValueError string
  | KeyError string
  | IndexError
  | OSError string
  | DbError string
  | HttpError string
  | OverflowError string
  | ConnectionError string

fun exc_message :: "exc \<Rightarrow> string" where
  "exc_message (ValueError m) = m"
| "exc_message (KeyError k) = CHR 0x27 # k @ [CHR 0x27]"
| "exc_message IndexError = ''list index out of range''"
| "exc_message (OSError m) = m"
| "exc_message (DbError m) = m"
| "exc_message (HttpError m) = m"
| "exc_message (OverflowError m) = m"
| "exc_message (ConnectionError m) = m"

section \<open>Characters and case mapping\<close>

definition is_upper :: "char \<Rightarrow> bool" where
  "is_upper c \<longleftrightarrow> 65 \<le> (of_char c :: nat) \<and> (of_char c :: nat) \<le> 90"

definition is_lower :: "char \<Rightarrow> bool" where
  "is_lower c \<longleftrightarrow> 97 \<le> (of_char c :: nat) \<and> (of_char c :: nat) \<le> 122"

definition is_cased :: "char \<Rightarrow> bool" where
  "is_cased c \<longleftrightarrow> is_upper c \<or> is_lower c"

text \<open>ASCII letters differ from their other case in bit 5 only.\<close>

fun lower_char :: "char \<Rightarrow> char" where
  "lower_char (Char b0 b1 b2 b3 b4 b5 b6 b7) =
     (if is_upper (Char b0 b1 b2 b3 b4 b5 b6 b7) then Char b0 b1 b2 b3 b4 True b6 b7
      else Char b0 b1 b2 b3 b4 b5 b6 b7)"

fun upper_char :: "char \<Rightarrow> char" where
  "upper_char (Char b0 b1 b2 b3 b4 b5 b6 b7) =
     (if is_lower (Char b0 b1 b2 b3 b4 b5 b6 b7) then Char b0 b1 b2 b3 b4 False b6 b7
      else Char b0 b1 b2 b3 b4 b5 b6 b7)"

definition py_lower :: "string \<Rightarrow> string" where
  "py_lower s = map lower_char s"

definition py_upper :: "string \<Rightarrow> string" where
  "py_upper s = map upper_char s"

text \<open>
  \<open>str.title\<close>: a cased character is upper-cased when the character before it is not
  cased, and lower-cased otherwise (CPython's \<open>do_title\<close>).
\<close>

fun title_from :: "bool \<Rightarrow> string \<Rightarrow> string" where
  "title_from prev_cased [] = []"
| "title_from prev_cased (c # cs) =
     (if prev_cased then lower_char c else upper_char c) # title_from (is_cased c) cs"

definition py_title :: "string \<Rightarrow> string" where
  "py_title s = title_from False s"

declare is_upper_def [py_simps] is_lower_def [py_simps] is_cased_def [py_simps]
  py_lower_def [py_simps] py_upper_def [py_simps] py_title_def [py_simps]

section \<open>Numbers as text\<close>

definition digit_char :: "nat \<Rightarrow> char" where
  "digit_char d = ''0123456789'' ! d"

definition decimal_digits :: "char set" where
  "decimal_digits = set ''0123456789''"

text \<open>\<open>str(n)\<close> for a natural number: its decimal digits, no leading zeros.\<close>

fun dec :: "nat \<Rightarrow> string" where
  "dec n = (if n < 10 then [digit_char n] else dec (n div 10) @ [digit_char (n mod 10)])"

declare dec.simps [simp del]

definition int_str :: "int \<Rightarrow> string" where
  "int_str i = (if i < 0 then CHR ''-'' # dec (nat (- i)) else dec (nat i))"

text \<open>Zero padding to a minimum width, as \<open>%02d\<close> and \<open>%06d\<close> do.\<close>

definition zpad :: "nat \<Rightarrow> string \<Rightarrow> string" where
  "zpad w s = replicate (w - length s) (CHR ''0'') @ s"

section \<open>Joining strings\<close>

text \<open>\<open>sep.join(xs)\<close>.\<close>

fun py_join :: "string \<Rightarrow> string list \<Rightarrow> string" where
  "py_join sep [] = []"
| "py_join sep [x] = x"
| "py_join sep (x # y # ys) = x @ sep @ py_join sep (y # ys)"

text \<open>\<open>s.split(c)\<close> for a one-character separator.\<close>

fun py_split :: "char \<Rightarrow> string \<Rightarrow> string list" where
  "py_split c [] = [[]]"
| "py_split c (x # xs) =
     (if x = c then [] # py_split c xs
      else (case py_split c xs of w # ws \<Rightarrow> (x # w) # ws | [] \<Rightarrow> [[x]]))"

text \<open>Python truthiness of an optional string: \<open>None\<close> and \<open>''\<close> are false.\<close>

fun truthy :: "string option \<Rightarrow> bool" where
  "truthy None = False"
| "truthy (Some s) = (s \<noteq> [])"

section \<open>Lemmas\<close>

lemma lower_char_idem [simp]: "lower_char (lower_char c) = lower_char c"
  by (cases c) (simp add: is_upper_def)

lemma lower_upper_char [simp]: "lower_char (upper_char c) = lower_char c"
  by (cases c) (simp add: is_upper_def is_lower_def)

lemma py_lower_idem [simp]: "py_lower (py_lower s) = py_lower s"
  by (simp add: py_lower_def)

lemma length_py_lower [simp]: "length (py_lower s) = length s"
  by (simp add: py_lower_def)

lemma py_lower_py_upper [simp]: "py_lower (py_upper s) = py_lower s"
  by (simp add: py_lower_def py_upper_def)

lemma digit_char_digit: "d < 10 \<Longrightarrow> digit_char d \<in> decimal_digits"
  unfolding digit_char_def decimal_digits_def by (rule nth_mem) simp

lemma dec_digits: "set (dec n) \<subseteq> decimal_digits"
proof (induction n rule: dec.induct)
  case (1 n)
  show ?case
  proof (cases "n < 10")
    case True
    then show ?thesis by (subst dec.simps) (simp add: digit_char_digit)
  next
    case False
    with "1.IH" show ?thesis by (subst dec.simps) (simp add: digit_char_digit)
  qed
qed

lemma dec_nonempty [simp]: "dec n \<noteq> []"
  by (subst dec.simps) simp

lemma dec_no_char: "c \<notin> decimal_digits \<Longrightarrow> c \<notin> set (dec n)"
  using dec_digits by blast

lemma length_zpad: "length (zpad w s) = max w (length s)"
  by (simp add: zpad_def)

text \<open>
  The separator lemma behind every injectivity result on composed names: a string
  joined at a separator character that occurs in neither left part splits back
  uniquely.
\<close>

lemma append_sep_inject:
  assumes "xs @ c # ys = xs' @ c # ys'" and "c \<notin> set xs" and "c \<notin> set xs'"
  shows "xs = xs' \<and> ys = ys'"
  using assms
proof (induction xs arbitrary: xs')
  case Nil
  then show ?case by (cases xs') auto
next
  case (Cons x xs)
  then show ?case by (cases xs') auto
qed

lemma py_split_nonempty [simp]: "py_split c s \<noteq> []"
  by (induction s) (auto split: list.split)

lemma py_split_no_sep: "c \<notin> set s \<Longrightarrow> py_split c s = [s]"
  by (induction s) auto

lemma py_split_append_sep:
  "c \<notin> set x \<Longrightarrow> py_split c (x @ c # rest) = x # py_split c rest"
proof (induction x)
  case Nil
  then show ?case by simp
next
  case (Cons a x)
  then show ?case by (auto split: list.split)
qed

text \<open>
  Building a dictionary by a loop of assignments \<open>d[k] = f(k)\<close> (an
  \<open>AList.update\<close> per key): the key is present iff it was assigned or was there before.
\<close>

lemma map_of_fold_update:
  "map_of (fold (\<lambda>k acc. AList.update k (f k) acc) ks acc) x =
     (if x \<in> set ks then Some (f x) else map_of acc x)"
  by (induction ks arbitrary: acc) (auto simp: update_conv')

lemma truthy_iff: "truthy j \<longleftrightarrow> (\<exists>s. j = Some s \<and> s \<noteq> [])"
  by (cases j) auto

lemma name_suffix_inject:
  assumes "CHR ''_'' \<notin> set n1" "CHR ''_'' \<notin> set n2"
    and "s1 = [] \<or> (\<exists>x. s1 = CHR ''_'' # x)" "s2 = [] \<or> (\<exists>x. s2 = CHR ''_'' # x)"
    and eq: "n1 @ s1 = n2 @ s2"
  shows "n1 = n2 \<and> s1 = s2"
proof (cases "s1 = []")
  case True
  show ?thesis
  proof (cases "s2 = []")
    case True
    with \<open>s1 = []\<close> eq show ?thesis by simp
  next
    case False
    with assms(4) obtain x where "s2 = CHR ''_'' # x" by blast
    with \<open>s1 = []\<close> eq have "CHR ''_'' \<in> set n1" by auto
    with assms(1) show ?thesis by simp
  qed
next
  case False
  with assms(3) obtain x where x: "s1 = CHR ''_'' # x" by blast
  show ?thesis
  proof (cases "s2 = []")
    case True
    with x eq have "CHR ''_'' \<in> set n2" by (metis Un_iff append_Nil2 list.set_intros(1) set_append)
    with assms(2) show ?thesis by simp
  next
    case False
    with assms(4) obtain y where y: "s2 = CHR ''_'' # y" by blast
    from eq x y have "n1 @ CHR ''_'' # x = n2 @ CHR ''_'' # y" by simp
    from append_sep_inject [OF this assms(1,2)] x y show ?thesis by simp
  qed
qed

end
