(* ===== verification/Layers.thy ===== *)
theory Layers
  imports Prelude
begin

text \<open>
  The Layer Registry: \<open>LAYER_CONFIG\<close> of \<open>src/etl/jobs/export_canonical.py\<close>, a
  fixed dictionary from layer name to its canonical table, geometry column, ordered
  list of exported properties and jurisdiction column.  The dictionary is an
  association list, so its iteration order (the order \<open>export_all_layers\<close> follows)
  is the order of the source.
\<close>

record layer_config =
  table :: string
  geometry_column :: string
  properties :: "string list"
  jurisdiction_column :: string

definition LAYER_CONFIG :: "(string \<times> layer_config) list" where
  "LAYER_CONFIG = [
    (''parcels'', \<lparr>table = ''canonical_parcels'', geometry_column = ''geom'',
       properties = [''source_parcel_id'', ''apn'', ''situs_address'', ''owner_name'', ''acreage'',
         ''land_use_code'', ''land_use_desc'', ''jurisdiction'', ''city'', ''state'', ''zip''],
       jurisdiction_column = ''jurisdiction''\<rparr>),
    (''zoning'', \<lparr>table = ''zoning_canonical'', geometry_column = ''geom'',
       properties = [''district_code'', ''district_name'', ''jurisdiction'', ''base_district'',
         ''overlay_code'', ''max_height_ft'', ''max_far'', ''lot_coverage_pct''],
       jurisdiction_column = ''jurisdiction''\<rparr>),
    (''utilities'', \<lparr>table = ''utilities_canonical'', geometry_column = ''geom'',
       properties = [''utility_type'', ''utility_subtype'', ''provider_name'', ''pipe_diameter_in'',
         ''pipe_material'', ''install_year'', ''status''],
       jurisdiction_column = ''jurisdiction''\<rparr>),
    (''transportation'', \<lparr>table = ''transportation_canonical'', geometry_column = ''geom'',
       properties = [''road_name'', ''road_class'', ''aadt'', ''aadt_year'', ''lanes'',
         ''speed_limit'', ''truck_pct''],
       jurisdiction_column = ''county''\<rparr>),
    (''flood'', \<lparr>table = ''flood_canonical'', geometry_column = ''geom'',
       properties = [''fld_zone'', ''zone_subty'', ''static_bfe'', ''sfha_tf'', ''firm_pan''],
       jurisdiction_column = ''jurisdiction''\<rparr>),
    (''wetlands'', \<lparr>table = ''wetlands_canonical'', geometry_column = ''geom'',
       properties = [''attribute_code'', ''wetland_type'', ''acres''],
       jurisdiction_column = ''jurisdiction''\<rparr>)]"

definition layer_names :: "string list" where
  "layer_names = map fst LAYER_CONFIG"

definition lookup_layer :: "string \<Rightarrow> layer_config option" where
  "lookup_layer n = map_of LAYER_CONFIG n"

section \<open>Well-formedness of a registry\<close>

text \<open>
  The invariant the specification states (unique names, non-empty attribute lists),
  strengthened by what the exporter relies on: no property is called
  \<open>geometry\<close> (the alias of the reprojected geometry in the result row) and no layer
  name contains \<open>_\<close> (so that export file names split back into their parts).
\<close>

definition layer_wf :: "string \<times> layer_config \<Rightarrow> bool" where
  "layer_wf e \<longleftrightarrow>
     properties (snd e) \<noteq> [] \<and> ''geometry'' \<notin> set (properties (snd e)) \<and>
     fst e \<noteq> [] \<and> CHR ''_'' \<notin> set (fst e)"

definition registry_wf :: "(string \<times> layer_config) list \<Rightarrow> bool" where
  "registry_wf reg \<longleftrightarrow> distinct (map fst reg) \<and> list_all layer_wf reg"

section \<open>Lemmas\<close>

lemma registry_wf_LAYER_CONFIG: "registry_wf LAYER_CONFIG"
  by (simp add: registry_wf_def LAYER_CONFIG_def layer_wf_def)

lemma lookup_layer_wf: "lookup_layer n = Some cfg \<Longrightarrow> layer_wf (n, cfg)"
  using registry_wf_LAYER_CONFIG
  by (auto simp: lookup_layer_def registry_wf_def list_all_iff dest: map_of_SomeD)

lemma lookup_layer_names: "n \<in> set layer_names \<Longrightarrow> lookup_layer n \<noteq> None"
  by (simp add: lookup_layer_def layer_names_def map_of_eq_None_iff)

lemma layer_name_no_underscore: "n \<in> set layer_names \<Longrightarrow> CHR ''_'' \<notin> set n"
  using lookup_layer_names [of n] lookup_layer_wf [of n]
  by (auto simp: layer_wf_def)

end
