(* ===== verification/Json.thy ===== *)
theory Json
  imports Prelude
begin

text \<open>
  The Python values that the two jobs build and serialise (the GeoJSON document, the
  export result dictionaries, the catalog payloads, the \<open>vector_layers\<close> field), and
  \<open>json.dumps\<close> / \<open>json.dump\<close> with the default settings the jobs use:
  \<open>ensure_ascii=True\<close>, separators \<open>", "\<close> and \<open>": "\<close>, no indentation.  A
  Python \<open>dict\<close> is an association list in insertion order.  Floats do not occur in
  the model: coordinates and statistics are integers.
\<close>

datatype pyval =
    PNone
  | PBool bool
  | PInt int
  | PStr string
  | PList "pyval list"
  | PDict "(string \<times> pyval) list"

section \<open>String escaping\<close>

definition hex_digit :: "nat \<Rightarrow> char" where
  "hex_digit d = ''0123456789abcdef'' ! d"

definition hex4 :: "nat \<Rightarrow> string" where
  "hex4 n = map hex_digit [n div 4096 mod 16, n div 256 mod 16, n div 16 mod 16, n mod 16]"

abbreviation backslash :: char where
  "backslash \<equiv> CHR 0x5C"

abbreviation dquote :: char where
  "dquote \<equiv> CHR 0x22"

text \<open>
  \<open>py_encode_basestring_ascii\<close>: quote and backslash escaped, the five short control
  escapes, every other character outside \<open>' '..'~'\<close> as \<open>\uXXXX\<close> in lower-case
  hexadecimal.
\<close>

definition json_esc :: "char \<Rightarrow> string" where
  "json_esc c =
     (if c = dquote then [backslash, dquote]
      else if c = backslash then [backslash, backslash]
      else if c = CHR 0x08 then [backslash, CHR ''b'']
      else if c = CHR 0x0C then [backslash, CHR ''f'']
      else if c = CHR 0x0A then [backslash, CHR ''n'']
      else if c = CHR 0x0D then [backslash, CHR ''r'']
      else if c = CHR 0x09 then [backslash, CHR ''t'']
      else if 32 \<le> (of_char c :: nat) \<and> (of_char c :: nat) \<le> 126 then [c]
      else backslash # CHR ''u'' # hex4 (of_char c))"

definition json_str :: "string \<Rightarrow> string" where
  "json_str s = dquote # concat (map json_esc s) @ [dquote]"

fun json_dumps :: "pyval \<Rightarrow> string" where
  "json_dumps PNone = ''null''"
| "json_dumps (PBool b) = (if b then ''true'' else ''false'')"
| "json_dumps (PInt i) = int_str i"
| "json_dumps (PStr s) = json_str s"
| "json_dumps (PList xs) = ''['' @ py_join '', '' (map json_dumps xs) @ '']''"
| "json_dumps (PDict kvs) =
     ''{'' @ py_join '', '' (map (\<lambda>(k, v). json_str k @ '': '' @ json_dumps v) kvs) @ ''}''"

text \<open>
  \<open>json.dump(obj, f, indent=2)\<close>: every element of a non-empty list or dictionary on a
  line of its own, indented by two spaces per level; the item separator is \<open>","\<close>
  (no trailing blank once an indent is given) and the key separator \<open>": "\<close>.
\<close>

abbreviation newline :: char where
  "newline \<equiv> CHR 0x0A"

fun json_indent :: "nat \<Rightarrow> pyval \<Rightarrow> string" where
  "json_indent l (PList []) = ''[]''"
| "json_indent l (PList xs) =
     ''['' @ py_join '','' (map (\<lambda>x. newline # replicate (2 * Suc l) CHR '' '' @ json_indent (Suc l) x) xs) @
     newline # replicate (2 * l) CHR '' '' @ '']''"
| "json_indent l (PDict []) = ''{}''"
| "json_indent l (PDict kvs) =
     ''{'' @ py_join '','' (map (\<lambda>(k, v). newline # replicate (2 * Suc l) CHR '' '' @ json_str k @ '': '' @
                                         json_indent (Suc l) v) kvs) @
     newline # replicate (2 * l) CHR '' '' @ ''}''"
| "json_indent l v = json_dumps v"

section \<open>The output is ASCII\<close>

text \<open>
  With \<open>ensure_ascii\<close> every character written is below 128, so the file the
  exporter writes has one byte per character whatever the locale's encoding:
  \<open>stat().st_size\<close> is the length of the serialised text.
\<close>

definition ascii :: "string \<Rightarrow> bool" where
  "ascii s \<longleftrightarrow> (\<forall>c\<in>set s. (of_char c :: nat) < 128)"

lemma ascii_append [simp]: "ascii (xs @ ys) \<longleftrightarrow> ascii xs \<and> ascii ys"
  by (auto simp: ascii_def)

lemma ascii_Cons [simp]: "ascii (c # s) \<longleftrightarrow> (of_char c :: nat) < 128 \<and> ascii s"
  by (simp add: ascii_def)

lemma ascii_Nil [simp]: "ascii []"
  by (simp add: ascii_def)

lemma ascii_concat: "(\<And>x. x \<in> set xs \<Longrightarrow> ascii x) \<Longrightarrow> ascii (concat xs)"
  by (auto simp: ascii_def)

lemma ascii_py_join:
  "ascii sep \<Longrightarrow> (\<And>x. x \<in> set xs \<Longrightarrow> ascii x) \<Longrightarrow> ascii (py_join sep xs)"
  by (induction sep xs rule: py_join.induct) auto

lemma ascii_set_literal:
  assumes "c \<in> set ''0123456789abcdef''"
  shows "(of_char c :: nat) < 128"
  using assms by auto

lemma ascii_hex4 [simp]: "ascii (hex4 n)"
proof -
  have "\<And>d. d < 16 \<Longrightarrow> (of_char (hex_digit d) :: nat) < 128"
    unfolding hex_digit_def by (rule ascii_set_literal, rule nth_mem) simp
  then show ?thesis by (simp add: hex4_def)
qed

lemma ascii_json_esc [simp]: "ascii (json_esc c)"
  by (simp add: json_esc_def)

lemma ascii_json_str [simp]: "ascii (json_str s)"
  unfolding json_str_def by (auto intro!: ascii_concat)

lemma ascii_dec [simp]: "ascii (dec n)"
proof -
  have "\<And>c. c \<in> decimal_digits \<Longrightarrow> (of_char c :: nat) < 128"
    by (auto simp: decimal_digits_def)
  with dec_digits show ?thesis by (auto simp: ascii_def)
qed

lemma ascii_int_str [simp]: "ascii (int_str i)"
  by (simp add: int_str_def)

lemma ascii_json_dumps: "ascii (json_dumps v)"
proof (induction v rule: json_dumps.induct)
  case (5 xs)
  then show ?case by (auto intro!: ascii_py_join)
next
  case (6 kvs)
  then show ?case by (auto intro!: ascii_py_join)
qed simp_all

end
