(* ===== verification/Database.thy ===== *)
theory Database
  imports Json
begin

text \<open>
  The canonical PostGIS database as the exporter sees it through \<open>psycopg2\<close>: an
  external collaborator, modelled from the behaviour the exporter relies on.
  \<^item> A database is a list of relations (a schema with column types, and rows) and two
    server-side functions: \<open>ST_Transform\<close> of a point between two SRIDs, and the text \<open>psycopg2\<close> returns for a raw geometry value.
  \<^item> The exporter's query is kept as its structure (table, geometry column and target
    SRID, selected columns, the conditions of its \<open>WHERE\<close> clause);
    \<open>run_select\<close> is its meaning: an unknown relation or column is an error, rows
    that fail a condition are dropped, \<open>ST_Transform\<close> of a geometry with SRID 0 aborts
    the statement.
  \<^item> A connection follows \<open>psycopg2\<close>'s default (non-autocommit) mode: the first
    statement opens a transaction; a failed statement leaves the transaction aborted,
    and every later statement on the connection fails with \<open>InFailedSqlTransaction\<close>
    until a rollback, which the exporter never issues.
\<close>

record geom =
  srid :: nat
  gtype :: string
  coords :: "(int \<times> int) list"

datatype cell = CNull | CText string | CInt int | CGeom geom

datatype coltype = TText | TInt | TGeom

type_synonym row = "(string \<times> cell) list"

record table =
  schema :: "(string \<times> coltype) list"
  rows :: "row list"

record db =
  relations :: "(string \<times> table) list"
  transform :: "nat \<Rightarrow> nat \<Rightarrow> int \<times> int \<Rightarrow> int \<times> int"
  geom_text :: "geom \<Rightarrow> string"

definition row_get :: "row \<Rightarrow> string \<Rightarrow> cell" where
  "row_get r c = (case map_of r c of Some v \<Rightarrow> v | None \<Rightarrow> CNull)"

section \<open>The export query\<close>

text \<open>
  The conditions of a \<open>WHERE\<close> clause over one row: \<open>LOWER("col") = LOWER(%s)\<close>
  and \<open>"col" = %s\<close> with their parameter, and \<open>col IS NOT NULL\<close>.
\<close>

datatype cond = LowerEq string string | Eq string string | IsNotNull string

text \<open>
  \<open>SELECT ST_AsGeoJSON(ST_Transform(geom, srid))::json AS geometry, "p1", ... FROM table
  WHERE c1 AND c2 ...\<close>
\<close>

record select_query =
  sq_geom :: string
  sq_srid :: nat
  sq_props :: "string list"
  sq_table :: string
  sq_where :: "cond list"

text \<open>\<open>LOWER(x)\<close> of the server; on ASCII it agrees with Python's \<open>str.lower\<close>.\<close>

definition sql_lower :: "string \<Rightarrow> string" where
  "sql_lower s = py_lower s"

text \<open>A condition on a NULL or a non-text value is not true, and the row is dropped.\<close>

fun eval_cond :: "row \<Rightarrow> cond \<Rightarrow> bool" where
  "eval_cond r (LowerEq col param) =
     (case row_get r col of CText s \<Rightarrow> sql_lower s = sql_lower param | _ \<Rightarrow> False)"
| "eval_cond r (Eq col param) = (case row_get r col of CText s \<Rightarrow> s = param | _ \<Rightarrow> False)"
| "eval_cond r (IsNotNull col) = (row_get r col \<noteq> CNull)"

text \<open>\<open>ST_AsGeoJSON(g)::json\<close>, as \<open>psycopg2\<close> decodes it into a Python dict.\<close>

definition pt_json :: "int \<times> int \<Rightarrow> pyval" where
  "pt_json p = PList [PInt (fst p), PInt (snd p)]"

definition st_asgeojson :: "geom \<Rightarrow> pyval" where
  "st_asgeojson g =
     PDict [(''type'', PStr (gtype g)),
            (''coordinates'',
               if gtype g = ''Point'' then (case coords g of p # _ \<Rightarrow> pt_json p | [] \<Rightarrow> PList [])
               else if gtype g = ''Polygon'' then PList [PList (map pt_json (coords g))]
               else PList (map pt_json (coords g)))]"

definition st_transform :: "db \<Rightarrow> nat \<Rightarrow> geom \<Rightarrow> exc + geom" where
  "st_transform d target g =
     (if srid g = 0 then Inl (DbError ''Input geometry has unknown (0) SRID'')
      else Inr (g\<lparr>srid := target, coords := map (transform d (srid g) target) (coords g)\<rparr>))"

text \<open>The Python value \<open>psycopg2\<close> returns for a column value.\<close>

definition cell_py :: "db \<Rightarrow> cell \<Rightarrow> pyval" where
  "cell_py d c =
     (case c of CNull \<Rightarrow> PNone | CText s \<Rightarrow> PStr s | CInt i \<Rightarrow> PInt i
      | CGeom g \<Rightarrow> PStr (geom_text d g))"

text \<open>
  One result row as a \<open>RealDictRow\<close>: the \<open>geometry\<close> alias first, then the selected
  columns in order, a repeated name overwriting the earlier value in place.
\<close>

definition result_row :: "db \<Rightarrow> string list \<Rightarrow> pyval \<Rightarrow> row \<Rightarrow> (string \<times> pyval) list" where
  "result_row d props gj r =
     fold (\<lambda>p acc. AList.update p (cell_py d (row_get r p)) acc) props [(''geometry'', gj)]"

text \<open>
  The geometry expression of each selected row: SQL NULL propagates through
  \<open>ST_Transform\<close> and \<open>ST_AsGeoJSON\<close> to Python \<open>None\<close>; a geometry of unknown SRID
  aborts the statement.
\<close>

definition geometry_value :: "db \<Rightarrow> nat \<Rightarrow> cell \<Rightarrow> exc + pyval" where
  "geometry_value d target c =
     (case c of
        CNull \<Rightarrow> Inr PNone
      | CGeom g \<Rightarrow> (case st_transform d target g of Inl e \<Rightarrow> Inl e | Inr g' \<Rightarrow> Inr (st_asgeojson g'))
      | _ \<Rightarrow> Inl (DbError ''function st_transform does not exist''))"

fun transform_rows :: "db \<Rightarrow> select_query \<Rightarrow> row list \<Rightarrow> exc + (string \<times> pyval) list list" where
  "transform_rows d q [] = Inr []"
| "transform_rows d q (r # rs) =
     (case geometry_value d (sq_srid q) (row_get r (sq_geom q)) of
        Inl e \<Rightarrow> Inl e
      | Inr gj \<Rightarrow>
          (case transform_rows d q rs of
             Inl e \<Rightarrow> Inl e
           | Inr out \<Rightarrow> Inr (result_row d (sq_props q) gj r # out)))"

fun cond_ok :: "table \<Rightarrow> cond \<Rightarrow> bool" where
  "cond_ok t (LowerEq col _) = (map_of (schema t) col = Some TText)"
| "cond_ok t (Eq col _) = (map_of (schema t) col = Some TText)"
| "cond_ok t (IsNotNull col) = (map_of (schema t) col \<noteq> None)"

definition columns_ok :: "table \<Rightarrow> select_query \<Rightarrow> bool" where
  "columns_ok t q \<longleftrightarrow>
     map_of (schema t) (sq_geom q) = Some TGeom \<and>
     list_all (\<lambda>p. map_of (schema t) p \<noteq> None) (sq_props q) \<and>
     list_all (cond_ok t) (sq_where q)"

definition run_select :: "db \<Rightarrow> select_query \<Rightarrow> exc + (string \<times> pyval) list list" where
  "run_select d q =
     (case map_of (relations d) (sq_table q) of
        None \<Rightarrow> Inl (DbError (''relation '' @ json_str (sq_table q) @ '' does not exist''))
      | Some t \<Rightarrow>
          if \<not> columns_ok t q then Inl (DbError ''column does not exist'')
          else transform_rows d q (filter (\<lambda>r. list_all (eval_cond r) (sq_where q)) (rows t)))"

section \<open>Connections\<close>

datatype txn_status = TxIdle | TxActive | TxFailed

record conn =
  conn_db :: db
  txn :: txn_status
  closed :: bool

definition aborted_msg :: string where
  "aborted_msg = ''current transaction is aborted, commands ignored until end of transaction block''"

text \<open>\<open>cur.execute(query, params)\<close> followed by \<open>cur.fetchall()\<close>.\<close>

definition execute :: "conn \<Rightarrow> select_query \<Rightarrow> (exc + (string \<times> pyval) list list) \<times> conn" where
  "execute c q =
     (if closed c then (Inl (DbError ''connection already closed''), c)
      else if txn c = TxFailed
      then (Inl (DbError aborted_msg), c)
      else (case run_select (conn_db c) q of
              Inl e \<Rightarrow> (Inl e, c\<lparr>txn := TxFailed\<rparr>)
            | Inr rs \<Rightarrow> (Inr rs, c\<lparr>txn := TxActive\<rparr>)))"

definition conn_close :: "conn \<Rightarrow> conn" where
  "conn_close c = c\<lparr>closed := True, txn := TxIdle\<rparr>"

text \<open>\<open>psycopg2.connect(url)\<close> against the servers reachable from the job.\<close>

definition pg_connect :: "(string \<times> db) list \<Rightarrow> string \<Rightarrow> exc + conn" where
  "pg_connect servers url =
     (case map_of servers url of
        None \<Rightarrow> Inl (DbError ''could not connect to server'')
      | Some d \<Rightarrow> Inr \<lparr>conn_db = d, txn = TxIdle, closed = False\<rparr>)"

section \<open>Lemmas\<close>

lemma execute_TxFailed:
  "\<not> closed c \<Longrightarrow> txn c = TxFailed \<Longrightarrow> execute c q = (Inl (DbError aborted_msg), c)"
  by (simp add: execute_def)

lemma execute_closed: "execute c q = (r, c') \<Longrightarrow> closed c' = closed c"
  by (auto simp: execute_def split: if_splits sum.splits)
lemma execute_error_TxFailed:
  "\<not> closed c \<Longrightarrow> execute c q = (Inl e, c') \<Longrightarrow> txn c' = TxFailed"
  by (auto simp: execute_def split: if_splits sum.splits)
lemma map_of_result_row:
  "map_of (result_row d props gj r) k =
     (if k \<in> set props then Some (cell_py d (row_get r k)) else if k = ''geometry'' then Some gj else None)"
  by (simp add: result_row_def map_of_fold_update)

lemma transform_rows_Inr:
  assumes "transform_rows d q rs = Inr out" and "''geometry'' \<notin> set (sq_props q)"
  shows "list_all2 (\<lambda>r x. \<exists>gj. geometry_value d (sq_srid q) (row_get r (sq_geom q)) = Inr gj \<and>
                          x = result_row d (sq_props q) gj r) rs out"
  using assms
proof (induction rs arbitrary: out)
  case Nil
  then show ?case by simp
next
  case (Cons r rs)
  then show ?case by (auto split: sum.splits)
qed

lemma geometry_value_CGeom:
  "geometry_value d target c = Inr gj \<Longrightarrow> c \<noteq> CNull \<Longrightarrow> \<exists>g. gj = st_asgeojson g \<and> srid g = target"
  by (auto simp: geometry_value_def st_transform_def split: cell.splits sum.splits if_splits)

lemma fst_set_result_row: "fst ` set (result_row d props gj r) = insert ''geometry'' (set props)"
proof (rule set_eqI)
  fix k
  have "k \<in> fst ` set (result_row d props gj r) \<longleftrightarrow> map_of (result_row d props gj r) k \<noteq> None"
    by (simp add: map_of_eq_None_iff)
  then show "k \<in> fst ` set (result_row d props gj r) \<longleftrightarrow> k \<in> insert ''geometry'' (set props)"
    by (simp add: map_of_result_row)
qed

lemma run_select_Inr:
  assumes "run_select d q = Inr out" and "''geometry'' \<notin> set (sq_props q)"
    and "IsNotNull (sq_geom q) \<in> set (sq_where q)"
  shows "\<forall>x\<in>set out. \<exists>g. srid g = sq_srid q \<and> map_of x ''geometry'' = Some (st_asgeojson g) \<and>
            fst ` set x = insert ''geometry'' (set (sq_props q))"
proof
  obtain t :: table where tr: "transform_rows d q (filter (\<lambda>r. list_all (eval_cond r) (sq_where q)) (rows t)) = Inr out"
    using assms(1) by (fastforce simp: run_select_def split: option.splits if_splits)
  let ?rs = "filter (\<lambda>r. list_all (eval_cond r) (sq_where q)) (rows t)"
  have all2: "list_all2 (\<lambda>r x. \<exists>gj. geometry_value d (sq_srid q) (row_get r (sq_geom q)) = Inr gj \<and>
                          x = result_row d (sq_props q) gj r) ?rs out"
    using tr assms(2) by (rule transform_rows_Inr)
  fix x assume "x \<in> set out"
  then obtain i where i: "i < length out" "x = out ! i" by (auto simp: in_set_conv_nth)
  with all2 obtain gj where gj: "geometry_value d (sq_srid q) (row_get (?rs ! i) (sq_geom q)) = Inr gj"
    and x: "x = result_row d (sq_props q) gj (?rs ! i)"
    by (auto simp: list_all2_conv_all_nth)
  have "i < length ?rs" using i all2 by (simp add: list_all2_lengthD)
  then have "?rs ! i \<in> set ?rs" by (rule nth_mem)
  then have "row_get (?rs ! i) (sq_geom q) \<noteq> CNull"
    using assms(3) by (auto simp: list_all_iff)
  with gj obtain g where "gj = st_asgeojson g" "srid g = sq_srid q"
    using geometry_value_CGeom by blast
  then show "\<exists>g. srid g = sq_srid q \<and> map_of x ''geometry'' = Some (st_asgeojson g) \<and>
            fst ` set x = insert ''geometry'' (set (sq_props q))"
    using x assms(2) by (auto simp: map_of_result_row fst_set_result_row)
qed

lemma transform_rows_where:
  "transform_rows d (q\<lparr>sq_where := ws\<rparr>) rs = transform_rows d q rs"
  by (induction rs) (simp_all split: sum.splits)

lemma eval_cond_LowerEq_cong:
  "sql_lower p1 = sql_lower p2 \<Longrightarrow> eval_cond r (LowerEq c p1) = eval_cond r (LowerEq c p2)"
  by (simp split: cell.splits)

end
