(* ===== verification/Clock.thy ===== *)
theory Clock
  imports Prelude
begin

text \<open>
  \<open>datetime.utcnow()\<close> and the three things the jobs do with its result:
  \<open>isoformat()\<close> (timestamps in the GeoJSON metadata and the catalog records),
  \<open>strftime("%Y_%m_%d")\<close> (the export version stamp) and \<open>+ timedelta(days=30)\<close>
  (the catalog expiry).  The clock is external: a sequence of readings, one consumed
  per call, so that two calls in one function may straddle midnight.
\<close>

record datetime =
  year :: nat
  month :: nat
  day :: nat
  hour :: nat
  minute :: nat
  second :: nat
  microsecond :: nat

record clock =
  readings :: "nat \<Rightarrow> datetime"
  tick :: nat

definition utcnow :: "clock \<Rightarrow> datetime \<times> clock" where
  "utcnow c = (readings c (tick c), c\<lparr>tick := Suc (tick c)\<rparr>)"

section \<open>Calendar\<close>

definition leap_year :: "nat \<Rightarrow> bool" where
  "leap_year y \<longleftrightarrow> 4 dvd y \<and> (\<not> 100 dvd y \<or> 400 dvd y)"

definition days_in_month :: "nat \<Rightarrow> nat \<Rightarrow> nat" where
  "days_in_month y m =
     (if m = 2 then (if leap_year y then 29 else 28)
      else if m \<in> {4, 6, 9, 11} then 30 else 31)"

definition valid_date :: "datetime \<Rightarrow> bool" where
  "valid_date t \<longleftrightarrow> 1 \<le> year t \<and> year t \<le> 9999 \<and> 1 \<le> month t \<and> month t \<le> 12 \<and>
     1 \<le> day t \<and> day t \<le> days_in_month (year t) (month t) \<and>
     hour t < 24 \<and> minute t < 60 \<and> second t < 60 \<and> microsecond t < 1000000"

text \<open>One calendar day later, time of day unchanged (what adding \<open>timedelta(days=1)\<close> does).\<close>

definition next_day :: "datetime \<Rightarrow> datetime" where
  "next_day t =
     (if day t < days_in_month (year t) (month t) then t\<lparr>day := Suc (day t)\<rparr>
      else if month t < 12 then t\<lparr>month := Suc (month t), day := 1\<rparr>
      else t\<lparr>year := Suc (year t), month := 1, day := 1\<rparr>)"

definition add_days :: "nat \<Rightarrow> datetime \<Rightarrow> datetime" where
  "add_days n t = (next_day ^^ n) t"

text \<open>\<open>t + timedelta(days=n)\<close>: \<open>OverflowError\<close> past the year 9999.\<close>

definition dt_add_days :: "nat \<Rightarrow> datetime \<Rightarrow> exc + datetime" where
  "dt_add_days n t =
     (let t' = add_days n t
      in if year t' \<le> 9999 then Inr t' else Inl (OverflowError ''date value out of range''))"

section \<open>Formatting\<close>

definition isoformat :: "datetime \<Rightarrow> string" where
  "isoformat t =
     zpad 4 (dec (year t)) @ ''-'' @ zpad 2 (dec (month t)) @ ''-'' @ zpad 2 (dec (day t)) @
     ''T'' @ zpad 2 (dec (hour t)) @ '':'' @ zpad 2 (dec (minute t)) @ '':'' @
     zpad 2 (dec (second t)) @
     (if microsecond t = 0 then [] else ''.'' @ zpad 6 (dec (microsecond t)))"

text \<open>
  \<open>strftime("%Y_%m_%d")\<close>.  \<open>%Y\<close> is passed to the C library; glibc prints the year
  without padding, \<open>%m\<close> and \<open>%d\<close> are two digits.
\<close>

definition version_stamp :: "datetime \<Rightarrow> string" where
  "version_stamp t = dec (year t) @ ''_'' @ zpad 2 (dec (month t)) @ ''_'' @ zpad 2 (dec (day t))"

section \<open>Reading numbers back\<close>

definition digit_val :: "char \<Rightarrow> nat" where
  "digit_val c = of_char c - 48"

definition parse_nat :: "string \<Rightarrow> nat option" where
  "parse_nat s =
     (if s \<noteq> [] \<and> set s \<subseteq> decimal_digits
      then Some (foldl (\<lambda>acc c. 10 * acc + digit_val c) 0 s) else None)"

text \<open>
  The inverse of \<open>version_stamp\<close>, used to state that the stamp determines the date
  it was made from.
\<close>

definition parse_version :: "string \<Rightarrow> (nat \<times> nat \<times> nat) option" where
  "parse_version s =
     (case py_split (CHR ''_'') s of
        [a, b, c] \<Rightarrow>
          (case (parse_nat a, parse_nat b, parse_nat c) of
             (Some y, Some m, Some d) \<Rightarrow> Some (y, m, d)
           | _ \<Rightarrow> None)
      | _ \<Rightarrow> None)"

section \<open>Lemmas\<close>

lemma digit_val_digit_char: "d < 10 \<Longrightarrow> digit_val (digit_char d) = d"
proof -
  assume "d < 10"
  then have "d \<in> {0,1,2,3,4,5,6,7,8,9}" by auto
  then show ?thesis by (auto simp: digit_val_def digit_char_def)
qed
lemma foldl_dec: "foldl (\<lambda>acc c. 10 * acc + digit_val c) a (dec n) = a * 10 ^ length (dec n) + n"
proof (induction n arbitrary: a rule: dec.induct)
  case (1 n)
  show ?case
  proof (cases "n < 10")
    case True
    then show ?thesis by (simp add: dec.simps [of n] digit_val_digit_char)
  next
    case False
    then have "dec n = dec (n div 10) @ [digit_char (n mod 10)]" by (subst dec.simps) simp
    with False "1.IH" show ?thesis by (simp add: digit_val_digit_char algebra_simps)
  qed
qed
lemma zero_digit: "CHR ''0'' \<in> decimal_digits" by (simp add: decimal_digits_def)
lemma parse_nat_zpad_dec: "parse_nat (zpad w (dec n)) = Some n"
proof -
  have z: "foldl (\<lambda>acc c. 10 * acc + digit_val c) 0 (replicate k (CHR ''0'')) = 0" for k
    by (induction k) (simp_all add: digit_val_def)
  have "set (zpad w (dec n)) \<subseteq> decimal_digits"
    using dec_digits zero_digit by (auto simp: zpad_def)
  moreover have "zpad w (dec n) \<noteq> []" by (simp add: zpad_def)
  ultimately show ?thesis by (simp add: parse_nat_def zpad_def z foldl_dec)
qed
lemma parse_nat_dec: "parse_nat (dec n) = Some n"
  using parse_nat_zpad_dec [of 0 n] by (simp add: zpad_def)
lemma underscore_not_digit: "CHR ''_'' \<notin> decimal_digits" by (simp add: decimal_digits_def)
lemma underscore_zpad_dec: "CHR ''_'' \<notin> set (zpad w (dec n))"
  using dec_no_char [OF underscore_not_digit] by (auto simp: zpad_def)
text \<open>
  C6. The export version stamp \<open>strftime("%Y_%m_%d")\<close> determines the calendar day it
  was made from: reading it back gives the year, month and day.
\<close>

theorem parse_version_stamp: "parse_version (version_stamp t) = Some (year t, month t, day t)"
proof -
  have "py_split (CHR ''_'') (version_stamp t) = [dec (year t), zpad 2 (dec (month t)), zpad 2 (dec (day t))]"
    using dec_no_char [OF underscore_not_digit] underscore_zpad_dec [of 2]
    by (simp add: version_stamp_def py_split_append_sep py_split_no_sep)
  then show ?thesis by (simp add: parse_version_def parse_nat_zpad_dec parse_nat_dec)
qed
lemma days_in_month_ge: "28 \<le> days_in_month y m"
  by (simp add: days_in_month_def)
lemma next_day_valid:
  assumes "valid_date t" and "year (next_day t) \<le> 9999"
  shows "valid_date (next_day t)"
  using assms days_in_month_ge [of "year t" "month t"] days_in_month_ge [of "Suc (year t)" 1]
    days_in_month_ge [of "year t" "Suc (month t)"]
  by (auto simp: valid_date_def next_day_def)

lemma year_next_day: "year (next_day t) \<le> Suc (year t)"
  by (simp add: next_day_def)

lemma year_add_days: "year (add_days n t) \<le> year t + n"
proof (induction n)
  case 0
  then show ?case by (simp add: add_days_def)
next
  case (Suc n)
  then show ?case using year_next_day [of "add_days n t"] by (simp add: add_days_def)
qed

lemma length_dec_lt_100: "n < 100 \<Longrightarrow> length (dec n) \<le> 2"
proof -
  assume "n < 100"
  then have "n div 10 < 10" by linarith
  then show ?thesis by (simp add: dec.simps [of n] dec.simps [of "n div 10"])
qed

lemma length_zpad2: "n < 100 \<Longrightarrow> length (zpad 2 (dec n)) = 2"
  using length_dec_lt_100 [of n] by (simp add: length_zpad)

lemma valid_date_small: "valid_date t \<Longrightarrow> month t < 100 \<and> day t < 100"
  using days_in_month_ge [of "year t" "month t"]
  by (auto simp: valid_date_def days_in_month_def split: if_splits)

end
