(* ===== verification/FileSys.thy ===== *)
theory FileSys
  imports Prelude
begin

text \<open>
  The part of the local file system the jobs touch: the export directory the exporter
  creates and writes (\<open>Path.mkdir(parents=True, exist_ok=True)\<close>,
  \<open>open(path, "w")\<close>, \<open>stat().st_size\<close>) and the tile directory the registrar scans
  (\<open>Path.exists\<close>, \<open>Path.rglob("*.pbf")\<close>).  A file system is an association list
  from paths (lists of components, relative to the working directory, which always
  exists) to nodes.  Text files hold their contents; the jobs only write ASCII, so the
  size in bytes is the length.  A directory reports the 4096 bytes of one ext4 block.
\<close>

datatype node = Dir | File string

type_synonym fs = "(path \<times> node) list"

definition is_dir :: "fs \<Rightarrow> path \<Rightarrow> bool" where
  "is_dir f p \<longleftrightarrow> p = [] \<or> map_of f p = Some Dir"

definition path_exists :: "fs \<Rightarrow> path \<Rightarrow> bool" where
  "path_exists f p \<longleftrightarrow> p = [] \<or> map_of f p \<noteq> None"

definition st_size :: "node \<Rightarrow> nat" where
  "st_size n = (case n of File s \<Rightarrow> length s | Dir \<Rightarrow> 4096)"

text \<open>
  \<open>Path / name\<close>: the name is split at \<open>/\<close>, and empty and \<open>.\<close> parts are dropped,
  as \<open>PurePath\<close> parses it.
\<close>

definition path_join :: "path \<Rightarrow> string \<Rightarrow> path" where
  "path_join p name = p @ filter (\<lambda>x. x \<noteq> [] \<and> x \<noteq> ''.'') (py_split (CHR ''/'') name)"

definition path_str :: "path \<Rightarrow> string" where
  "path_str p = (if p = [] then ''.'' else py_join ''/'' p)"

section \<open>Creating directories\<close>

text \<open>
  \<open>mkdir(parents=True, exist_ok=True)\<close>: every missing prefix is created from the top;
  an existing directory is accepted; a prefix that is a file fails with
  \<open>FileExistsError\<close> or \<open>NotADirectoryError\<close> before anything is created below it.
\<close>

fun mkdir_prefixes :: "fs \<Rightarrow> path \<Rightarrow> path \<Rightarrow> exc + fs" where
  "mkdir_prefixes f pre [] = Inr f"
| "mkdir_prefixes f pre (c # cs) =
     (let q = pre @ [c] in
      case map_of f q of
        Some Dir \<Rightarrow> mkdir_prefixes f q cs
      | Some (File _) \<Rightarrow> Inl (OSError (''[Errno 17] File exists: '' @ path_str q))
      | None \<Rightarrow> mkdir_prefixes (AList.update q Dir f) q cs)"

definition mkdir_p :: "fs \<Rightarrow> path \<Rightarrow> exc + fs" where
  "mkdir_p f p = mkdir_prefixes f [] p"

section \<open>Writing a file\<close>

text \<open>
  \<open>open(p, "w")\<close> followed by one write of the whole text: the parent must be a
  directory (\<open>FileNotFoundError\<close>), the path must not be one (\<open>IsADirectoryError\<close>);
  an existing file is truncated and overwritten.
\<close>

definition write_text :: "fs \<Rightarrow> path \<Rightarrow> string \<Rightarrow> exc + fs" where
  "write_text f p s =
     (if p = [] \<or> \<not> is_dir f (butlast p)
      then Inl (OSError (''[Errno 2] No such file or directory: '' @ path_str p))
      else if map_of f p = Some Dir
      then Inl (OSError (''[Errno 21] Is a directory: '' @ path_str p))
      else Inr (AList.update p (File s) f))"

definition stat_size :: "fs \<Rightarrow> path \<Rightarrow> exc + nat" where
  "stat_size f p =
     (case map_of f p of
        Some n \<Rightarrow> Inr (st_size n)
      | None \<Rightarrow> Inl (OSError (''[Errno 2] No such file or directory: '' @ path_str p)))"

section \<open>Scanning a directory tree\<close>

definition ends_with :: "string \<Rightarrow> string \<Rightarrow> bool" where
  "ends_with suffix s \<longleftrightarrow> suffix = drop (length s - length suffix) s \<and> length suffix \<le> length s"

text \<open>
  \<open>d.rglob("*.pbf")\<close>: every entry strictly below \<open>d\<close>, at any depth, whose last
  component matches \<open>*.pbf\<close> (pathlib's \<open>*\<close> also matches names with a leading dot).
\<close>

definition rglob_pbf :: "fs \<Rightarrow> path \<Rightarrow> (path \<times> node) list" where
  "rglob_pbf f d =
     filter (\<lambda>(q, n). take (length d) q = d \<and> length d < length q \<and> ends_with ''.pbf'' (last q)) f"

section \<open>Well-formed file systems\<close>

text \<open>Keys are distinct and every entry hangs below a directory.\<close>

definition fs_wf :: "fs \<Rightarrow> bool" where
  "fs_wf f \<longleftrightarrow> distinct (map fst f) \<and> (\<forall>(p, n)\<in>set f. p \<noteq> [] \<and> is_dir f (butlast p))"

section \<open>Lemmas\<close>

lemma is_dir_update_Dir: "is_dir (AList.update q Dir f) p \<longleftrightarrow> p = q \<or> is_dir f p"
  by (auto simp: is_dir_def update_conv')

lemma is_dir_update_File: "map_of f q \<noteq> Some Dir \<Longrightarrow> is_dir (AList.update q (File s) f) p \<longleftrightarrow> is_dir f p"
  by (auto simp: is_dir_def update_conv')

lemma fs_wf_update:
  assumes "fs_wf f" and "q \<noteq> []" and "is_dir f (butlast q)"
    and "\<And>p. is_dir f p \<Longrightarrow> is_dir (AList.update q n f) p"
  shows "fs_wf (AList.update q n f)"
proof -
  have "distinct (map fst (AList.update q n f))"
    using assms(1) by (simp add: fs_wf_def distinct_update)
  moreover have "\<forall>(p, m)\<in>set (AList.update q n f). p \<noteq> [] \<and> is_dir (AList.update q n f) (butlast p)"
  proof
    fix x assume x: "x \<in> set (AList.update q n f)"
    obtain p m where pm: "x = (p, m)" by (cases x)
    have "p \<in> fst ` set (AList.update q n f)" using x pm by force
    then have "p = q \<or> p \<in> fst ` set f" by (simp add: dom_update)
    then show "case x of (p, m) \<Rightarrow> p \<noteq> [] \<and> is_dir (AList.update q n f) (butlast p)"
      using assms pm by (auto simp: fs_wf_def)
  qed
  ultimately show ?thesis by (simp add: fs_wf_def)
qed

lemma mkdir_prefixes_wf:
  "fs_wf f \<Longrightarrow> is_dir f pre \<Longrightarrow> mkdir_prefixes f pre cs = Inr f' \<Longrightarrow> fs_wf f' \<and> is_dir f' (pre @ cs)"
proof (induction f pre cs rule: mkdir_prefixes.induct)
  case (1 f pre)
  then show ?case by simp
next
  case (2 f pre c cs)
  let ?q = "pre @ [c]"
  show ?case
  proof (cases "map_of f ?q")
    case None
    have "fs_wf (AList.update ?q Dir f)"
      using "2.prems" by (intro fs_wf_update) (auto simp: is_dir_update_Dir)
    moreover have "is_dir (AList.update ?q Dir f) ?q" by (simp add: is_dir_update_Dir)
    ultimately show ?thesis using "2.IH" "2.prems"(3) None by (simp add: Let_def)
  next
    case (Some n)
    then show ?thesis
      using "2.IH" "2.prems" by (cases n) (auto simp: Let_def is_dir_def)
  qed
qed

lemma mkdir_p_wf: "fs_wf f \<Longrightarrow> mkdir_p f p = Inr f' \<Longrightarrow> fs_wf f' \<and> is_dir f' p"
  using mkdir_prefixes_wf [of f "[]" p f'] by (simp add: mkdir_p_def is_dir_def)

lemma write_text_wf: "fs_wf f \<Longrightarrow> write_text f p s = Inr f' \<Longrightarrow> fs_wf f'"
  unfolding write_text_def
  by (auto split: if_splits intro!: fs_wf_update simp: is_dir_update_File)

lemma write_text_content:
  "write_text f p s = Inr f' \<Longrightarrow> map_of f' q = (if q = p then Some (File s) else map_of f q)"
  by (auto simp: write_text_def update_conv' split: if_splits)

lemma mkdir_prefixes_files:
  "mkdir_prefixes f pre cs = Inr f' \<Longrightarrow> (map_of f' p = Some (File s)) = (map_of f p = Some (File s))"
proof (induction f pre cs rule: mkdir_prefixes.induct)
  case (1 f pre)
  then show ?case by simp
next
  case (2 f pre c cs)
  then show ?case
    by (auto simp: Let_def update_conv' split: option.splits node.splits)
qed

lemma mkdir_p_files:
  "mkdir_p f p = Inr f' \<Longrightarrow> (map_of f' q = Some (File s)) = (map_of f q = Some (File s))"
  by (simp add: mkdir_p_def mkdir_prefixes_files)

end
