(* ===== verification/Exporter.thy ===== *)
theory Exporter
  imports Layers Database Clock FileSys
begin

text \<open>
  The Canonical Exporter, \<open>src/etl/jobs/export_canonical.py\<close>.  Each function of the
  script is one definition, with the state it touches passed explicitly: the database
  connection (\<open>conn\<close>), the local file system and the UTC clock (\<open>world\<close>).
  Exceptions are \<open>Inl\<close> values; the \<open>try/except\<close> of \<open>export_all_layers\<close>
  turns them into \<open>{layer, error}\<close> entries and its \<open>finally\<close> closes the connection.
  The progress messages printed to stdout are not modelled.
\<close>

record world =
  files :: fs
  clk :: clock

record export_env =
  db_url :: "string option"
  servers :: "(string \<times> db) list"

record export_result =
  er_layer :: string
  er_jurisdiction :: "string option"
  record_count :: nat
  file_path :: string
  file_size :: nat
  version :: string

datatype layer_outcome = Exported export_result | Failed string string

section \<open>Connection\<close>

definition get_db_connection :: "export_env \<Rightarrow> exc + conn" where
  "get_db_connection env =
     (if \<not> truthy (db_url env)
      then Inl (ValueError ''SUPABASE_DB_URL environment variable is required'')
      else pg_connect (servers env) (case db_url env of Some u \<Rightarrow> u | None \<Rightarrow> []))"

section \<open>Exporting one layer\<close>

definition py_repr_str :: "string \<Rightarrow> string" where
  "py_repr_str s = CHR 0x27 # s @ [CHR 0x27]"

definition unknown_layer_msg :: "string \<Rightarrow> string" where
  "unknown_layer_msg n =
     ''Unknown layer: '' @ n @ ''. Valid options: ['' @ py_join '', '' (map py_repr_str layer_names) @ '']''"

text \<open>The query of lines 151--184: the filter is present exactly when the argument is truthy.\<close>

definition build_query :: "layer_config \<Rightarrow> string option \<Rightarrow> select_query" where
  "build_query cfg j =
     \<lparr>sq_geom = geometry_column cfg, sq_srid = 4326, sq_props = properties cfg, sq_table = table cfg,
      sq_where = (if truthy j then [LowerEq (jurisdiction_column cfg) (case j of Some s \<Rightarrow> s | None \<Rightarrow> [])]
                  else []) @ [IsNotNull (geometry_column cfg)]\<rparr>"

text \<open>\<open>{k: row[k] for k in properties if k in row}\<close>.\<close>

definition feature_properties :: "string list \<Rightarrow> (string \<times> pyval) list \<Rightarrow> (string \<times> pyval) list" where
  "feature_properties props r =
     fold (\<lambda>k acc. case map_of r k of Some v \<Rightarrow> AList.update k v acc | None \<Rightarrow> acc) props []"

definition make_feature :: "string list \<Rightarrow> (string \<times> pyval) list \<Rightarrow> exc + pyval" where
  "make_feature props r =
     (case map_of r ''geometry'' of
        None \<Rightarrow> Inl (KeyError ''geometry'')
      | Some g \<Rightarrow> Inr (PDict [(''type'', PStr ''Feature''), (''geometry'', g),
                              (''properties'', PDict (feature_properties props r))]))"

fun build_features :: "string list \<Rightarrow> (string \<times> pyval) list list \<Rightarrow> exc + pyval list" where
  "build_features props [] = Inr []"
| "build_features props (r # rs) =
     (case make_feature props r of
        Inl e \<Rightarrow> Inl e
      | Inr f \<Rightarrow> (case build_features props rs of Inl e \<Rightarrow> Inl e | Inr fts \<Rightarrow> Inr (f # fts)))"

definition jurisdiction_or_all :: "string option \<Rightarrow> string" where
  "jurisdiction_or_all j = (if truthy j then (case j of Some s \<Rightarrow> s | None \<Rightarrow> []) else ''all'')"

definition layer_geojson ::
  "string \<Rightarrow> string option \<Rightarrow> string \<Rightarrow> string \<Rightarrow> pyval list \<Rightarrow> pyval" where
  "layer_geojson name j exported_at tbl feats =
     PDict [(''type'', PStr ''FeatureCollection''), (''name'', PStr name), (''features'', PList feats),
            (''metadata'', PDict [(''exported_at'', PStr exported_at),
                                 (''jurisdiction'', PStr (jurisdiction_or_all j)),
                                 (''record_count'', PInt (int (length feats))),
                                 (''source_table'', PStr tbl)])]"

definition jurisdiction_suffix :: "string option \<Rightarrow> string" where
  "jurisdiction_suffix j = (if truthy j then CHR ''_'' # (case j of Some s \<Rightarrow> s | None \<Rightarrow> []) else [])"

definition export_filename :: "string \<Rightarrow> string option \<Rightarrow> string \<Rightarrow> string" where
  "export_filename name j v = name @ jurisdiction_suffix j @ ''_'' @ v @ ''.geojson''"

definition export_layer_to_geojson ::
  "conn \<Rightarrow> string \<Rightarrow> string option \<Rightarrow> path \<Rightarrow> world \<Rightarrow> (exc + export_result) \<times> conn \<times> world" where
  "export_layer_to_geojson c name j out w =
     (case lookup_layer name of
        None \<Rightarrow> (Inl (ValueError (unknown_layer_msg name)), c, w)
      | Some cfg \<Rightarrow>
          (case execute c (build_query cfg j) of
             (Inl e, c') \<Rightarrow> (Inl e, c', w)
           | (Inr rs, c') \<Rightarrow>
               (case build_features (properties cfg) rs of
                  Inl e \<Rightarrow> (Inl e, c', w)
                | Inr feats \<Rightarrow>
                    (let (t1, clk1) = utcnow (clk w);
                         doc = layer_geojson name j (isoformat t1) (table cfg) feats
                     in case mkdir_p (files w) out of
                          Inl e \<Rightarrow> (Inl e, c', w\<lparr>clk := clk1\<rparr>)
                        | Inr fs1 \<Rightarrow>
                            (let (t2, clk2) = utcnow clk1;
                                 v = version_stamp t2;
                                 p = path_join out (export_filename name j v)
                             in case write_text fs1 p (json_dumps doc) of
                                  Inl e \<Rightarrow> (Inl e, c', \<lparr>files = fs1, clk = clk2\<rparr>)
                                | Inr fs2 \<Rightarrow>
                                    (case stat_size fs2 p of
                                       Inl e \<Rightarrow> (Inl e, c', \<lparr>files = fs2, clk = clk2\<rparr>)
                                     | Inr sz \<Rightarrow>
                                         (Inr \<lparr>er_layer = name, er_jurisdiction = j,
                                               record_count = length feats, file_path = path_str p,
                                               file_size = sz, version = v\<rparr>,
                                          c', \<lparr>files = fs2, clk = clk2\<rparr>)))))))"

definition is_feature :: "string list \<Rightarrow> (string \<times> pyval) list \<Rightarrow> pyval \<Rightarrow> bool" where
  "is_feature props r f \<longleftrightarrow> (\<exists>g. map_of r ''geometry'' = Some g \<and>
     f = PDict [(''type'', PStr ''Feature''), (''geometry'', g), (''properties'', PDict (feature_properties props r))])"

section \<open>Exporting every layer\<close>

fun export_loop ::
  "conn \<Rightarrow> string list \<Rightarrow> string option \<Rightarrow> path \<Rightarrow> world \<Rightarrow> layer_outcome list \<times> conn \<times> world" where
  "export_loop c [] j out w = ([], c, w)"
| "export_loop c (n # ns) j out w =
     (case export_layer_to_geojson c n j out w of
        (r, c1, w1) \<Rightarrow>
          (let oc = (case r of Inr res \<Rightarrow> Exported res | Inl e \<Rightarrow> Failed n (exc_message e))
           in case export_loop c1 ns j out w1 of (ocs, c2, w2) \<Rightarrow> (oc # ocs, c2, w2)))"

text \<open>
  \<open>export_all_layers\<close>: the connection error of \<open>get_db_connection\<close> propagates;
  otherwise the result is the list of outcomes and the connection that the
  \<open>finally\<close> clause has closed.
\<close>

definition export_all_layers ::
  "export_env \<Rightarrow> string option \<Rightarrow> path \<Rightarrow> world \<Rightarrow> (exc + layer_outcome list) \<times> conn option \<times> world" where
  "export_all_layers env j out w =
     (case get_db_connection env of
        Inl e \<Rightarrow> (Inl e, None, w)
      | Inr c \<Rightarrow>
          (case export_loop c layer_names j out w of
             (ocs, c', w') \<Rightarrow> (Inr ocs, Some (conn_close c'), w')))"

text \<open>The layer an entry of the batch result is about.\<close>

fun outcome_layer :: "layer_outcome \<Rightarrow> string" where
  "outcome_layer (Exported r) = er_layer r"
| "outcome_layer (Failed n m) = n"

section \<open>Lemmas\<close>

lemma export_layer_TxFailed:
  assumes "lookup_layer n \<noteq> None" and "\<not> closed c" and "txn c = TxFailed"
  shows "export_layer_to_geojson c n j out w = (Inl (DbError aborted_msg), c, w)"
  using assms by (auto simp: export_layer_to_geojson_def execute_TxFailed)

lemma export_loop_TxFailed:
  assumes "set ns \<subseteq> set layer_names" and "\<not> closed c" and "txn c = TxFailed"
  shows "export_loop c ns j out w = (map (\<lambda>n. Failed n aborted_msg) ns, c, w)"
  using assms
proof (induction ns)
  case Nil
  then show ?case by simp
next
  case (Cons n ns)
  then have "lookup_layer n \<noteq> None" by (simp add: lookup_layer_names)
  with Cons show ?case by (simp add: export_layer_TxFailed)
qed
lemma map_of_feature_properties:
  "map_of (feature_properties props r) k = (if k \<in> set props then map_of r k else None)"
proof -
  have "map_of (fold (\<lambda>k acc. case map_of r k of Some v \<Rightarrow> AList.update k v acc | None \<Rightarrow> acc) props acc) k =
        (if k \<in> set props then (case map_of r k of Some v \<Rightarrow> Some v | None \<Rightarrow> map_of acc k) else map_of acc k)"
    for acc
    by (induction props arbitrary: acc) (auto simp: update_conv' split: option.splits)
  then show ?thesis by (auto simp: feature_properties_def split: option.splits)
qed

lemma feature_properties_keys: "fst ` set (feature_properties props r) \<subseteq> set props"
proof
  fix k assume "k \<in> fst ` set (feature_properties props r)"
  then have "map_of (feature_properties props r) k \<noteq> None" by (simp add: map_of_eq_None_iff)
  then show "k \<in> set props" by (simp add: map_of_feature_properties split: if_splits)
qed

lemma build_features_Inr:
  "build_features props rs = Inr feats \<Longrightarrow> list_all2 (is_feature props) rs feats"
proof (induction rs arbitrary: feats)
  case Nil
  then show ?case by simp
next
  case (Cons r rs)
  then show ?case
    by (auto simp: make_feature_def is_feature_def split: option.splits sum.splits)
qed

lemma export_layer_success:
  assumes "export_layer_to_geojson c name j out w = (Inr r, c', w')"
  shows "\<exists>cfg rs feats.
    lookup_layer name = Some cfg \<and> \<not> closed c \<and> txn c \<noteq> TxFailed \<and>
    run_select (conn_db c) (build_query cfg j) = Inr rs \<and>
    build_features (properties cfg) rs = Inr feats \<and>
    record_count r = length feats \<and>
    version r = version_stamp (readings (clk w) (Suc (tick (clk w)))) \<and>
    file_path r = path_str (path_join out (export_filename name j (version r))) \<and>
    map_of (files w') (path_join out (export_filename name j (version r))) =
      Some (File (json_dumps (layer_geojson name j (isoformat (readings (clk w) (tick (clk w))))
                                (table cfg) feats))) \<and>
    file_size r = length (json_dumps (layer_geojson name j (isoformat (readings (clk w) (tick (clk w))))
                                (table cfg) feats))"
  using assms
  by (auto simp: export_layer_to_geojson_def execute_def utcnow_def Let_def stat_size_def
                 st_size_def write_text_content
           split: option.splits sum.splits if_splits prod.splits)
lemma build_query_not_null: "IsNotNull (sq_geom (build_query cfg j)) \<in> set (sq_where (build_query cfg j))"
  by (simp add: build_query_def)

text \<open>
  C1. A successful \<open>export_layer_to_geojson\<close> has written, at the path it returns as
  \<open>file_path\<close> (named after the layer, the jurisdiction and its \<open>version\<close>), the serialised FeatureCollection of the layer; its \<open>record_count\<close> is the
  number of features; every feature carries a non-null geometry reprojected to
  EPSG:4326 and properties whose keys are among the layer's declared attributes.
\<close>

theorem export_layer_features:
  assumes "export_layer_to_geojson c name j out w = (Inr r, c', w')"
  shows "\<exists>cfg feats. lookup_layer name = Some cfg \<and> record_count r = length feats \<and>
    file_path r = path_str (path_join out (export_filename name j (version r))) \<and>
    map_of (files w') (path_join out (export_filename name j (version r))) =
      Some (File (json_dumps (layer_geojson name j (isoformat (readings (clk w) (tick (clk w))))
                                (table cfg) feats))) \<and>
    (\<forall>f\<in>set feats. \<exists>g ps. srid g = 4326 \<and> fst ` set ps \<subseteq> set (properties cfg) \<and>
       f = PDict [(''type'', PStr ''Feature''), (''geometry'', st_asgeojson g), (''properties'', PDict ps)])"
proof -
  obtain cfg rs feats where cfg: "lookup_layer name = Some cfg"
    and sel: "run_select (conn_db c) (build_query cfg j) = Inr rs"
    and bf: "build_features (properties cfg) rs = Inr feats"
    and rest: "record_count r = length feats"
      "file_path r = path_str (path_join out (export_filename name j (version r)))"
      "map_of (files w') (path_join out (export_filename name j (version r))) =
         Some (File (json_dumps (layer_geojson name j (isoformat (readings (clk w) (tick (clk w))))
                                (table cfg) feats)))"
    using export_layer_success [OF assms] by blast
  have geo: "''geometry'' \<notin> set (sq_props (build_query cfg j))"
    using lookup_layer_wf [OF cfg] by (simp add: layer_wf_def build_query_def)
  have rows: "\<forall>x\<in>set rs. \<exists>g. srid g = 4326 \<and> map_of x ''geometry'' = Some (st_asgeojson g)"
    using run_select_Inr [OF sel geo build_query_not_null] by (auto simp: build_query_def)
  have "\<forall>f\<in>set feats. \<exists>g ps. srid g = 4326 \<and> fst ` set ps \<subseteq> set (properties cfg) \<and>
       f = PDict [(''type'', PStr ''Feature''), (''geometry'', st_asgeojson g), (''properties'', PDict ps)]"
  proof
    fix f assume "f \<in> set feats"
    then obtain i where i: "i < length feats" "f = feats ! i" by (auto simp: in_set_conv_nth)
    have all2: "list_all2 (is_feature (properties cfg)) rs feats" using bf by (rule build_features_Inr)
    then have "i < length rs" using i by (simp add: list_all2_lengthD)
    then obtain g where "srid g = 4326" "map_of (rs ! i) ''geometry'' = Some (st_asgeojson g)"
      using rows nth_mem by blast
    moreover have "is_feature (properties cfg) (rs ! i) f"
      using all2 i by (simp add: list_all2_conv_all_nth)
    ultimately show "\<exists>g ps. srid g = 4326 \<and> fst ` set ps \<subseteq> set (properties cfg) \<and>
       f = PDict [(''type'', PStr ''Feature''), (''geometry'', st_asgeojson g), (''properties'', PDict ps)]"
      using feature_properties_keys by (auto simp: is_feature_def)
  qed
  with cfg rest show ?thesis by blast
qed

lemma export_layer_frame:
  assumes "export_layer_to_geojson c n j out w = (r, c', w')"
  shows "conn_db c' = conn_db c \<and> closed c' = closed c \<and> (\<forall>res. r = Inr res \<longrightarrow> er_layer res = n)"
  using assms
  by (auto simp: export_layer_to_geojson_def execute_def Let_def
           split: option.splits sum.splits if_splits prod.splits)

lemma export_layer_query_error:
  assumes "lookup_layer n = Some cfg" and "\<not> closed c"
    and "run_select (conn_db c) (build_query cfg j) = Inl e"
    and "export_layer_to_geojson c n j out w = (r, c', w')"
  shows "txn c' = TxFailed"
  using assms by (auto simp: export_layer_to_geojson_def execute_def split: if_splits)

lemma export_loop_frame:
  assumes "export_loop c ns j out w = (ocs, c', w')"
  shows "conn_db c' = conn_db c \<and> closed c' = closed c \<and> map outcome_layer ocs = ns"
  using assms
proof (induction ns arbitrary: c w ocs c' w')
  case Nil
  then show ?case by simp
next
  case (Cons n ns)
  obtain r c1 w1 where e: "export_layer_to_geojson c n j out w = (r, c1, w1)"
    by (cases "export_layer_to_geojson c n j out w") auto
  obtain ocs1 c2 w2 where l: "export_loop c1 ns j out w1 = (ocs1, c2, w2)"
    by (cases "export_loop c1 ns j out w1") auto
  from Cons.prems e l have ocs: "ocs = (case r of Inr res \<Rightarrow> Exported res | Inl e \<Rightarrow> Failed n (exc_message e)) # ocs1"
    and c': "c' = c2"
    by (simp_all add: Let_def)
  from Cons.IH [OF l] export_layer_frame [OF e] show ?case
    by (auto simp: ocs c' split: sum.splits)
qed

lemma export_loop_append:
  "export_loop c (xs @ ys) j out w =
     (case export_loop c xs j out w of
        (o1, c1, w1) \<Rightarrow> (case export_loop c1 ys j out w1 of (o2, c2, w2) \<Rightarrow> (o1 @ o2, c2, w2)))"
  by (induction xs arbitrary: c w) (auto simp: Let_def split: prod.splits)

text \<open>
  C4. In a batch, once the query of one registry layer fails, every later layer of the
  batch fails too, with \<open>InFailedSqlTransaction\<close>: the shared connection is left in
  an aborted transaction and \<open>export_all_layers\<close> never rolls it back.
\<close>

theorem export_loop_query_error_poisons:
  assumes "set (ns1 @ n # ns2) \<subseteq> set layer_names" and "\<not> closed c"
    and "lookup_layer n = Some cfg" and "run_select (conn_db c) (build_query cfg j) = Inl e"
  shows "drop (Suc (length ns1)) (fst (export_loop c (ns1 @ n # ns2) j out w)) =
           map (\<lambda>m. Failed m aborted_msg) ns2"
proof -
  obtain o1 c1 w1 where l1: "export_loop c ns1 j out w = (o1, c1, w1)"
    by (cases "export_loop c ns1 j out w") auto
  obtain r c2 w2 where e: "export_layer_to_geojson c1 n j out w1 = (r, c2, w2)"
    by (cases "export_layer_to_geojson c1 n j out w1") auto
  have f1: "conn_db c1 = conn_db c" "\<not> closed c1" "length o1 = length ns1"
    using export_loop_frame [OF l1] assms(2) by (auto dest: arg_cong [where f = length])
  have "txn c2 = TxFailed"
    using export_layer_query_error [OF assms(3) f1(2) _ e] assms(4) f1(1) by simp
  moreover have "\<not> closed c2" using export_layer_frame [OF e] f1(2) by simp
  moreover have "set ns2 \<subseteq> set layer_names" using assms(1) by simp
  ultimately have "export_loop c2 ns2 j out w2 = (map (\<lambda>m. Failed m aborted_msg) ns2, c2, w2)"
    by (simp add: export_loop_TxFailed)
  then show ?thesis
    using l1 e f1(3) by (simp add: export_loop_append Let_def)
qed

text \<open>
  C5. \<open>export_all_layers\<close> returns one entry per registry layer, in registry order,
  and closes its connection.
\<close>

theorem export_all_layers_outcomes:
  assumes "export_all_layers env j out w = (Inr ocs, co, w')"
  shows "map outcome_layer ocs = layer_names \<and> (\<exists>c. co = Some c \<and> closed c)"
  using assms export_loop_frame
  by (auto simp: export_all_layers_def conn_close_def split: sum.splits prod.splits)

text \<open>
  C2. The jurisdiction filter is applied and is case-insensitive: a row passes the
  query's conditions only if its jurisdiction column lower-cases to the lower-cased
  argument, and two non-empty filters that agree after lower-casing select the same
  rows, hence the same features.
\<close>

theorem export_filter_case_insensitive:
  assumes "sql_lower j1 = sql_lower j2" and "j1 \<noteq> []" and "j2 \<noteq> []"
  shows "run_select d (build_query cfg (Some j1)) = run_select d (build_query cfg (Some j2)) \<and>
         (\<forall>r. list_all (eval_cond r) (sq_where (build_query cfg (Some j1))) \<longrightarrow>
              (case row_get r (jurisdiction_column cfg) of CText s \<Rightarrow> sql_lower s = sql_lower j1 | _ \<Rightarrow> False))"
proof -
  let ?q1 = "build_query cfg (Some j1)" and ?q2 = "build_query cfg (Some j2)"
  have q2: "?q2 = ?q1\<lparr>sq_where := sq_where ?q2\<rparr>" by (simp add: build_query_def assms)
  have tb: "sq_table ?q2 = sq_table ?q1" by (simp add: build_query_def)
  have ok: "columns_ok t ?q2 = columns_ok t ?q1" for t :: table
    by (simp add: columns_ok_def build_query_def assms)
  have flt: "filter (\<lambda>r. list_all (eval_cond r) (sq_where ?q2)) rs =
             filter (\<lambda>r. list_all (eval_cond r) (sq_where ?q1)) rs" for rs
    using eval_cond_LowerEq_cong [OF assms(1)] by (simp add: build_query_def assms)
  have tr: "transform_rows d ?q2 rs = transform_rows d ?q1 rs" for rs
    by (subst q2) (rule transform_rows_where)
  have "run_select d ?q1 = run_select d ?q2"
    by (simp only: run_select_def tb ok flt tr)
  moreover have "\<forall>r. list_all (eval_cond r) (sq_where ?q1) \<longrightarrow>
      (case row_get r (jurisdiction_column cfg) of CText s \<Rightarrow> sql_lower s = sql_lower j1 | _ \<Rightarrow> False)"
    using assms(2) by (simp add: build_query_def)
  ultimately show ?thesis by simp
qed

lemma jurisdiction_suffix_shape:
  "jurisdiction_suffix j = [] \<or> (\<exists>x. jurisdiction_suffix j = CHR ''_'' # x)"
  by (simp add: jurisdiction_suffix_def)

lemma version_tail_inject:
  assumes "valid_date t1" "valid_date t2"
    and eq: "X1 @ CHR ''_'' # version_stamp t1 = X2 @ CHR ''_'' # version_stamp t2"
  shows "X1 = X2 \<and> year t1 = year t2 \<and> month t1 = month t2 \<and> day t1 = day t2"
proof -
  let ?T1 = "CHR ''_'' # zpad 2 (dec (month t1)) @ CHR ''_'' # zpad 2 (dec (day t1))"
  let ?T2 = "CHR ''_'' # zpad 2 (dec (month t2)) @ CHR ''_'' # zpad 2 (dec (day t2))"
  have len: "length ?T1 = length ?T2"
    using valid_date_small [OF assms(1)] valid_date_small [OF assms(2)] by (simp add: length_zpad2)
  have "(X1 @ CHR ''_'' # dec (year t1)) @ ?T1 = (X2 @ CHR ''_'' # dec (year t2)) @ ?T2"
    using eq by (simp add: version_stamp_def)
  then have "X1 @ CHR ''_'' # dec (year t1) = X2 @ CHR ''_'' # dec (year t2) \<and> ?T1 = ?T2"
    by (simp only: append_eq_append_conv [OF disjI2 [OF len]])
  then have head: "X1 @ CHR ''_'' # dec (year t1) = X2 @ CHR ''_'' # dec (year t2)"
    and tail: "zpad 2 (dec (month t1)) @ CHR ''_'' # zpad 2 (dec (day t1)) =
               zpad 2 (dec (month t2)) @ CHR ''_'' # zpad 2 (dec (day t2))" by simp_all
  have lm: "length (zpad 2 (dec (month t1))) = length (zpad 2 (dec (month t2)))"
    using valid_date_small [OF assms(1)] valid_date_small [OF assms(2)] by (simp add: length_zpad2)
  from tail have "zpad 2 (dec (month t1)) = zpad 2 (dec (month t2)) \<and> zpad 2 (dec (day t1)) = zpad 2 (dec (day t2))"
    by (simp only: append_eq_append_conv [OF disjI1 [OF lm]] list.inject)
  then have md: "month t1 = month t2 \<and> day t1 = day t2"
    by (metis option.inject parse_nat_zpad_dec)
  from head have "rev (dec (year t1)) @ CHR ''_'' # rev X1 = rev (dec (year t2)) @ CHR ''_'' # rev X2"
    by (metis rev.simps(2) rev_append rev_rev_ident append.assoc append_Cons append_Nil)
  moreover have "CHR ''_'' \<notin> set (rev (dec n))" for n
    using dec_no_char [OF underscore_not_digit] by simp
  ultimately have "rev (dec (year t1)) = rev (dec (year t2)) \<and> rev X1 = rev X2"
    by (intro append_sep_inject) auto
  then have "year t1 = year t2 \<and> X1 = X2"
    by (metis option.inject parse_nat_dec rev_rev_ident)
  with md show ?thesis by simp
qed

text \<open>
  C3. For registry layers and valid dates, two exports write the same file name exactly
  when they are for the same layer, the same jurisdiction suffix (verbatim, case
  included) and the same UTC calendar day: re-runs on one day overwrite, anything else
  does not.
\<close>

theorem export_filename_inject:
  assumes "n1 \<in> set layer_names" "n2 \<in> set layer_names" "valid_date t1" "valid_date t2"
  shows "export_filename n1 j1 (version_stamp t1) = export_filename n2 j2 (version_stamp t2) \<longleftrightarrow>
         n1 = n2 \<and> jurisdiction_suffix j1 = jurisdiction_suffix j2 \<and>
         year t1 = year t2 \<and> month t1 = month t2 \<and> day t1 = day t2"
proof
  assume eq: "export_filename n1 j1 (version_stamp t1) = export_filename n2 j2 (version_stamp t2)"
  have "((n1 @ jurisdiction_suffix j1) @ CHR ''_'' # version_stamp t1) @ ''.geojson'' =
        ((n2 @ jurisdiction_suffix j2) @ CHR ''_'' # version_stamp t2) @ ''.geojson''"
    using eq by (simp add: export_filename_def)
  then have "(n1 @ jurisdiction_suffix j1) @ CHR ''_'' # version_stamp t1 =
             (n2 @ jurisdiction_suffix j2) @ CHR ''_'' # version_stamp t2"
    by (simp only: append_same_eq)
  from version_tail_inject [OF assms(3,4) this]
  have "n1 @ jurisdiction_suffix j1 = n2 @ jurisdiction_suffix j2"
    and "year t1 = year t2 \<and> month t1 = month t2 \<and> day t1 = day t2" by simp_all
  with name_suffix_inject [OF layer_name_no_underscore [OF assms(1)] layer_name_no_underscore [OF assms(2)]
      jurisdiction_suffix_shape jurisdiction_suffix_shape]
  show "n1 = n2 \<and> jurisdiction_suffix j1 = jurisdiction_suffix j2 \<and>
        year t1 = year t2 \<and> month t1 = month t2 \<and> day t1 = day t2" by blast
next
  assume "n1 = n2 \<and> jurisdiction_suffix j1 = jurisdiction_suffix j2 \<and>
          year t1 = year t2 \<and> month t1 = month t2 \<and> day t1 = day t2"
  then show "export_filename n1 j1 (version_stamp t1) = export_filename n2 j2 (version_stamp t2)"
    by (simp add: export_filename_def version_stamp_def)
qed

end
