(* ===== verification/ExportCli.thy ===== *)
theory ExportCli
  imports Exporter Json
begin

text \<open>
  The export command line, \<open>main\<close> of \<open>src/etl/jobs/export_canonical.py\<close>
  (lines 265--330): one layer or all of them, then \<open>manifest.json\<close> in the output
  directory and the exit code.  The parsed arguments are a record; \<open>argparse\<close>
  rejects a layer outside its \<open>choices\<close> with exit status 2 before anything runs.
  \<open>main\<close> has no \<open>try\<close> of its own: an exception out of it (\<open>Inl\<close>) ends the
  process with a traceback.  The summary printed to stdout is not modelled.
\<close>

record exp_args =
  ea_layer :: string
  ea_jurisdiction :: "string option"
  ea_output_dir :: path

text \<open>The entries of \<open>results\<close> as the dictionaries \<open>json.dump\<close> writes (lines 229--237 and 255--258).\<close>

fun outcome_pyval :: "layer_outcome \<Rightarrow> pyval" where
  "outcome_pyval (Exported r) =
     PDict [(''layer'', PStr (er_layer r)),
            (''jurisdiction'', (case er_jurisdiction r of None \<Rightarrow> PNone | Some s \<Rightarrow> PStr s)),
            (''record_count'', PInt (int (record_count r))), (''file_path'', PStr (file_path r)),
            (''file_size'', PInt (int (file_size r))), (''version'', PStr (version r))]"
| "outcome_pyval (Failed n m) = PDict [(''layer'', PStr n), (''error'', PStr m)]"

fun is_exported :: "layer_outcome \<Rightarrow> bool" where
  "is_exported (Exported r) = True"
| "is_exported (Failed n m) = False"

definition manifest_doc :: "datetime \<Rightarrow> layer_outcome list \<Rightarrow> pyval" where
  "manifest_doc t ocs = PDict [(''exported_at'', PStr (isoformat t)), (''layers'', PList (map outcome_pyval ocs))]"

text \<open>Lines 294--302: the batch, or one layer on a connection closed by \<open>finally\<close>.\<close>

definition export_results ::
  "export_env \<Rightarrow> exp_args \<Rightarrow> world \<Rightarrow> (exc + layer_outcome list) \<times> world" where
  "export_results env a w =
     (if ea_layer a = ''all''
      then (case export_all_layers env (ea_jurisdiction a) (ea_output_dir a) w of (r, co, w1) \<Rightarrow> (r, w1))
      else (case get_db_connection env of
              Inl e \<Rightarrow> (Inl e, w)
            | Inr c \<Rightarrow>
                (case export_layer_to_geojson c (ea_layer a) (ea_jurisdiction a) (ea_output_dir a) w of
                   (Inl e, c1, w1) \<Rightarrow> (Inl e, w1)
                 | (Inr r, c1, w1) \<Rightarrow> (Inr [Exported r], w1))))"

definition export_main :: "export_env \<Rightarrow> exp_args \<Rightarrow> world \<Rightarrow> (exc + int) \<times> world" where
  "export_main env a w =
     (if ea_layer a \<notin> set (layer_names @ [''all'']) then (Inr 2, w)
      else case export_results env a w of
        (Inl e, w1) \<Rightarrow> (Inl e, w1)
      | (Inr ocs, w1) \<Rightarrow>
          (let (t, clk1) = utcnow (clk w1);
               p = path_join (ea_output_dir a) ''manifest.json''
           in case write_text (files w1) p (json_indent 0 (manifest_doc t ocs)) of
                Inl e \<Rightarrow> (Inl e, w1\<lparr>clk := clk1\<rparr>)
              | Inr fs \<Rightarrow> (Inr (if list_all is_exported ocs then 0 else 1), \<lparr>files = fs, clk = clk1\<rparr>)))"

section \<open>Lemmas\<close>

lemma export_main_manifest:
  assumes "export_main env a w = (Inr code, w')" and "ea_layer a \<in> set layer_names \<or> ea_layer a = ''all''"
  shows "\<exists>ocs w1. export_results env a w = (Inr ocs, w1) \<and>
     map_of (files w') (path_join (ea_output_dir a) ''manifest.json'') =
       Some (File (json_indent 0 (manifest_doc (readings (clk w1) (tick (clk w1))) ocs))) \<and>
     (code = 0 \<longleftrightarrow> list_all is_exported ocs) \<and> code \<in> {0, 1}"
  using assms
  by (auto simp: export_main_def Let_def utcnow_def update_conv' write_text_def
      split: prod.splits sum.splits if_splits)

lemma export_results_all:
  "ea_layer a = ''all'' \<Longrightarrow> export_results env a w = (Inr ocs, w1) \<Longrightarrow> map outcome_layer ocs = layer_names"
  using export_loop_frame
  by (auto simp: export_results_def export_all_layers_def split: sum.splits prod.splits)

lemma export_loop_first_query_error:
  assumes "set (n # ns) \<subseteq> set layer_names" and "\<not> closed c" and "txn c \<noteq> TxFailed"
    and "lookup_layer n = Some cfg" and "run_select (conn_db c) (build_query cfg j) = Inl e"
  shows "snd (snd (export_loop c (n # ns) j out w)) = w"
proof -
  have "export_layer_to_geojson c n j out w = (Inl e, c\<lparr>txn := TxFailed\<rparr>, w)"
    using assms(2-5) by (simp add: export_layer_to_geojson_def execute_def)
  moreover have "export_loop (c\<lparr>txn := TxFailed\<rparr>) ns j out w = (map (\<lambda>n. Failed n aborted_msg) ns, c\<lparr>txn := TxFailed\<rparr>, w)"
    using assms(1,2) by (intro export_loop_TxFailed) simp_all
  ultimately show ?thesis by (simp add: Let_def)
qed

text \<open>
  C19. \<open>main --layer all\<close> (lines 294--330): when it returns, \<open>manifest.json\<close> in the
  output directory holds the indented JSON of the export time and one entry per registry
  layer in registry order, and the exit code is 0 exactly when every layer was exported,
  1 otherwise.
\<close>

theorem export_main_all_manifest:
  assumes "ea_layer a = ''all''" and "export_main env a w = (Inr code, w')"
  shows "\<exists>ocs t. map outcome_layer ocs = layer_names \<and>
     map_of (files w') (path_join (ea_output_dir a) ''manifest.json'') = Some (File (json_indent 0 (manifest_doc t ocs))) \<and>
     (code = 0 \<longleftrightarrow> list_all is_exported ocs) \<and> (code = 1 \<longleftrightarrow> \<not> list_all is_exported ocs)"
proof -
  obtain ocs w1 where r: "export_results env a w = (Inr ocs, w1)"
    and m: "map_of (files w') (path_join (ea_output_dir a) ''manifest.json'') =
       Some (File (json_indent 0 (manifest_doc (readings (clk w1) (tick (clk w1))) ocs)))"
    and c: "code = 0 \<longleftrightarrow> list_all is_exported ocs" "code \<in> {0, 1}"
    using export_main_manifest [OF assms(2)] assms(1) by blast
  then show ?thesis using export_results_all [OF assms(1) r] by auto
qed

text \<open>
  C20. The manifest write does not create the output directory (lines 321--322).  If
  the first registry layer's query fails, the shared connection is aborted, every layer
  fails before creating the directory, and when the output directory does not exist
  \<open>open(manifest_path, "w")\<close> raises: \<open>main --layer all\<close> ends with an uncaught
  \<open>FileNotFoundError\<close>, writes no manifest and changes no file, instead of returning 1
  with a manifest that lists the failures.
\<close>

theorem export_main_manifest_needs_dir:
  assumes "ea_layer a = ''all''" and "get_db_connection env = Inr c" and "\<not> closed c" and "txn c \<noteq> TxFailed"
    and "lookup_layer (hd layer_names) = Some cfg"
    and "run_select (conn_db c) (build_query cfg (ea_jurisdiction a)) = Inl e"
    and "\<not> is_dir (files w) (ea_output_dir a)"
  shows "\<exists>msg w'. export_main env a w = (Inl (OSError msg), w') \<and> files w' = files w"
proof -
  have ln: "layer_names = hd layer_names # tl layer_names" by (simp add: layer_names_def LAYER_CONFIG_def)
  have "snd (snd (export_loop c layer_names (ea_jurisdiction a) (ea_output_dir a) w)) = w"
    using export_loop_first_query_error [OF _ assms(3,4,5,6)] ln by (metis order_refl)
  then obtain ocs c' where l: "export_loop c layer_names (ea_jurisdiction a) (ea_output_dir a) w = (ocs, c', w)"
    by (metis prod.collapse)
  then have "export_results env a w = (Inr ocs, w)"
    using assms(1,2) by (simp add: export_results_def export_all_layers_def)
  moreover have "butlast (path_join (ea_output_dir a) ''manifest.json'') = ea_output_dir a"
    by (simp add: path_join_def py_split_no_sep)
  ultimately show ?thesis using assms(1,7)
    by (auto simp: export_main_def write_text_def Let_def utcnow_def layer_names_def LAYER_CONFIG_def)
qed

end
