(* ===== verification/Catalog.thy ===== *)
theory Catalog
  imports Json Clock FileSys
begin

text \<open>
  The tileset catalog as the registrar sees it: the PostgREST endpoints
  \<open>/rest/v1/tilesets\<close> and \<open>/rest/v1/tile_jobs\<close> of the Supabase project, reached over
  a network that may fail.  An external collaborator, modelled from the behaviour the
  registrar relies on:
  \<^item> the catalog is a list of rows (a surrogate \<open>id\<close> and the tileset columns) and the
    append-only list of job records; whether the table has a unique constraint on
    \<open>tileset_key\<close> is a parameter (the specification asks for one, the code does not
    rely on it);
  \<^item> each request either gets the server's response, gets a response without body
    (status 204, the request applied), is rejected with an error status and body
    without being applied, or gets no response at all (\<open>requests\<close> raises);
  \<^item> the network's behaviour is a list of outcomes, one consumed per request; when it is
    exhausted every request is delivered.
\<close>

text \<open>The \<open>tileset\<close> dictionary of \<open>register_tileset\<close>, one field per key.\<close>

record tileset =
  ts_key :: string
  ts_name :: string
  ts_category :: string
  ts_jurisdiction :: string
  ts_url :: string
  ts_min_zoom :: nat
  ts_max_zoom :: nat
  ts_record_count :: "int option"
  ts_size_bytes :: "nat option"
  ts_generated_at :: string
  ts_expires_at :: string
  ts_refresh_hours :: nat
  ts_is_active :: bool
  ts_vector_layers :: string
  ts_updated_at :: "string option"

record catalog_row =
  row_id :: nat
  row :: tileset

text \<open>The \<open>job\<close> dictionary of \<open>register_tileset\<close>.\<close>

record tile_job =
  job_id :: string
  job_key :: string
  job_type :: string
  job_status :: string
  started_at :: string
  finished_at :: string
  input_records :: "int option"
  output_tiles :: "nat option"
  duration_ms :: "int option"
  triggered_by :: string

record catalog =
  tilesets :: "catalog_row list"
  tile_jobs :: "tile_job list"
  next_id :: nat
  key_unique :: bool

datatype request =
    GetByKey string
  | PostTileset tileset
  | PatchTileset nat tileset
  | PostJob tile_job
  | GetActiveOthers string string string
  | PatchInactive nat

record response =
  status :: int
  body :: "catalog_row list"
  resp_text :: string

datatype link = Deliver | DeliverEmpty | Reject int string | Unreachable

section \<open>The server\<close>

definition row_text :: "catalog_row list \<Rightarrow> string" where
  "row_text rs = json_dumps (PList (map (\<lambda>r. PDict [(''id'', PInt (int (row_id r))),
                                                 (''tileset_key'', PStr (ts_key (row r)))]) rs))"

definition ok_response :: "int \<Rightarrow> catalog_row list \<Rightarrow> response" where
  "ok_response s rs = \<lparr>status = s, body = rs, resp_text = row_text rs\<rparr>"

text \<open>A \<open>PATCH\<close> sets the columns its body names; \<open>updated_at\<close> is named only when present.\<close>

definition patch_row :: "tileset \<Rightarrow> tileset \<Rightarrow> tileset" where
  "patch_row old new =
     new\<lparr>ts_updated_at := (case ts_updated_at new of None \<Rightarrow> ts_updated_at old | Some u \<Rightarrow> Some u)\<rparr>"

fun serve :: "request \<Rightarrow> catalog \<Rightarrow> response \<times> catalog" where
  "serve (GetByKey k) c = (ok_response 200 (filter (\<lambda>r. ts_key (row r) = k) (tilesets c)), c)"
| "serve (PostTileset t) c =
     (if key_unique c \<and> (\<exists>r\<in>set (tilesets c). ts_key (row r) = ts_key t)
      then (\<lparr>status = 409, body = [], resp_text = ''duplicate key value violates unique constraint''\<rparr>, c)
      else (let r = \<lparr>row_id = next_id c, row = t\<lparr>ts_updated_at := None\<rparr>\<rparr>
            in (ok_response 201 [r], c\<lparr>tilesets := tilesets c @ [r], next_id := Suc (next_id c)\<rparr>)))"
| "serve (PatchTileset i t) c =
     (let rs' = map (\<lambda>r. if row_id r = i then r\<lparr>row := patch_row (row r) t\<rparr> else r) (tilesets c)
      in (ok_response 200 (filter (\<lambda>r. row_id r = i) rs'), c\<lparr>tilesets := rs'\<rparr>))"
| "serve (PostJob j) c = (ok_response 201 [], c\<lparr>tile_jobs := tile_jobs c @ [j]\<rparr>)"
| "serve (GetActiveOthers cat jur k) c =
     (ok_response 200 (filter (\<lambda>r. ts_category (row r) = cat \<and> ts_jurisdiction (row r) = jur \<and>
                                   ts_is_active (row r) \<and> ts_key (row r) \<noteq> k) (tilesets c)), c)"
| "serve (PatchInactive i) c =
     (let rs' = map (\<lambda>r. if row_id r = i then r\<lparr>row := (row r)\<lparr>ts_is_active := False\<rparr>\<rparr> else r) (tilesets c)
      in (ok_response 200 (filter (\<lambda>r. row_id r = i) rs'), c\<lparr>tilesets := rs'\<rparr>))"

section \<open>The registrar's world\<close>

text \<open>
  Everything the registrar reads or changes: the catalog, the network's outcomes, the
  UTC clock, the source of \<open>uuid4()\<close> values and the local tile directory.
\<close>

record rworld =
  cat :: catalog
  net :: "link list"
  rclk :: clock
  uuids :: "nat \<Rightarrow> string"
  uuid_tick :: nat
  tiles :: fs

definition uuid4 :: "rworld \<Rightarrow> string \<times> rworld" where
  "uuid4 w = (uuids w (uuid_tick w), w\<lparr>uuid_tick := Suc (uuid_tick w)\<rparr>)"

definition rnow :: "rworld \<Rightarrow> datetime \<times> rworld" where
  "rnow w = (case utcnow (rclk w) of (t, c) \<Rightarrow> (t, w\<lparr>rclk := c\<rparr>))"

text \<open>One HTTP request through the network: \<open>Inl\<close> when \<open>requests\<close> raises.\<close>

definition send :: "request \<Rightarrow> rworld \<Rightarrow> (exc + response) \<times> rworld" where
  "send rq w =
     (let (l, rest) = (case net w of [] \<Rightarrow> (Deliver, []) | l # ls \<Rightarrow> (l, ls));
          w1 = w\<lparr>net := rest\<rparr>
      in case l of
           Deliver \<Rightarrow> (case serve rq (cat w1) of (r, c') \<Rightarrow> (Inr r, w1\<lparr>cat := c'\<rparr>))
         | DeliverEmpty \<Rightarrow>
             (case serve rq (cat w1) of
                (r, c') \<Rightarrow> (Inr (r\<lparr>status := 204, body := [], resp_text := []\<rparr>), w1\<lparr>cat := c'\<rparr>))
         | Reject s txt \<Rightarrow> (Inr \<lparr>status = s, body = [], resp_text = txt\<rparr>, w1)
         | Unreachable \<Rightarrow> (Inl (ConnectionError ''Max retries exceeded''), w1))"

text \<open>The outcome the next request meets.\<close>

definition link_of :: "link list \<Rightarrow> link" where
  "link_of ls = (case ls of [] \<Rightarrow> Deliver | l # _ \<Rightarrow> l)"

section \<open>Well-formed catalogs\<close>

text \<open>
  Row ids are distinct and below the next id the server hands out, and no two rows
  share a \<open>tileset_key\<close>.  The registrar's upsert keeps this invariant; it is the
  "one record per key" the specification asks of the catalog.
\<close>

definition catalog_wf :: "catalog \<Rightarrow> bool" where
  "catalog_wf c \<longleftrightarrow> distinct (map row_id (tilesets c)) \<and> (\<forall>r\<in>set (tilesets c). row_id r < next_id c) \<and>
     distinct (map (\<lambda>r. ts_key (row r)) (tilesets c))"

section \<open>Lemmas\<close>

lemma link_of_Nil [simp]: "link_of [] = Deliver"
  by (simp add: link_of_def)

lemma send_link:
  "send rq w =
     (case link_of (net w) of
        Deliver \<Rightarrow> (case serve rq (cat w) of (r, c') \<Rightarrow> (Inr r, w\<lparr>net := tl (net w), cat := c'\<rparr>))
      | DeliverEmpty \<Rightarrow>
          (case serve rq (cat w) of
             (r, c') \<Rightarrow> (Inr (r\<lparr>status := 204, body := [], resp_text := []\<rparr>), w\<lparr>net := tl (net w), cat := c'\<rparr>))
      | Reject s txt \<Rightarrow> (Inr \<lparr>status = s, body = [], resp_text = txt\<rparr>, w\<lparr>net := tl (net w)\<rparr>)
      | Unreachable \<Rightarrow> (Inl (ConnectionError ''Max retries exceeded''), w\<lparr>net := tl (net w)\<rparr>))"
  by (cases "net w") (simp_all add: send_def link_of_def Let_def split: link.split)

lemma send_Deliver:
  "link_of (net w) = Deliver \<Longrightarrow>
   send rq w = (case serve rq (cat w) of (r, c') \<Rightarrow> (Inr r, w\<lparr>net := tl (net w), cat := c'\<rparr>))"
  by (simp add: send_link)

lemma send_rclk [simp]: "rclk (snd (send rq w)) = rclk w"
  by (simp add: send_def Let_def split: prod.splits list.splits link.splits)

lemma rnow_readings [simp]: "readings (rclk (snd (rnow w))) = readings (rclk w)"
  by (simp add: rnow_def utcnow_def)

lemma uuid4_rclk [simp]: "rclk (snd (uuid4 w)) = rclk w"
  by (simp add: uuid4_def)

lemma row_text_nonempty [simp]: "row_text rs \<noteq> []"
  by (simp add: row_text_def)

text \<open>Replacing the row with a given id, in a list with distinct ids.\<close>

lemma filter_map_replace:
  assumes "distinct (map row_id rs)" and "x \<in> set rs" and "P (f x)"
    and "\<And>r. r \<in> set rs \<Longrightarrow> row_id r \<noteq> row_id x \<Longrightarrow> \<not> P r"
  shows "filter P (map (\<lambda>r. if row_id r = row_id x then f r else r) rs) = [f x]"
  using assms
proof (induction rs)
  case Nil
  then show ?case by simp
next
  case (Cons y ys)
  show ?case
  proof (cases "row_id y = row_id x")
    case True
    with Cons.prems have "y = x" by (auto simp: image_iff)
    moreover have "filter P (map (\<lambda>r. if row_id r = row_id x then f r else r) ys) = []"
      using Cons.prems True by (auto simp: filter_empty_conv image_iff)
    ultimately show ?thesis using True Cons.prems(3) by simp
  next
    case False
    with Cons show ?thesis by auto
  qed
qed

lemma same_id_eq:
  "distinct (map row_id rs) \<Longrightarrow> x \<in> set rs \<Longrightarrow> r \<in> set rs \<Longrightarrow> row_id r = row_id x \<Longrightarrow> r = x"
  by (metis distinct_map inj_on_eq_iff)

lemma map_replace_id:
  assumes "distinct (map row_id rs)" and "x \<in> set rs" and "g (f x) = g x"
  shows "map g (map (\<lambda>r. if row_id r = row_id x then f r else r) rs) = map g rs"
  using assms same_id_eq [OF assms(1,2)] unfolding map_map by (intro map_cong) auto

lemma filter_map_replace_other:
  assumes "distinct (map row_id rs)" and "x \<in> set rs" and "\<not> P x" and "\<not> P (f x)"
  shows "filter P (map (\<lambda>r. if row_id r = row_id x then f r else r) rs) = filter P rs"
proof -
  have "\<forall>r\<in>set rs. row_id r = row_id x \<longrightarrow> r = x"
    using same_id_eq [OF assms(1,2)] by blast
  then show ?thesis using assms(3,4) by (induction rs) auto
qed

lemma distinct_key_unique:
  "catalog_wf c \<Longrightarrow> x \<in> set (tilesets c) \<Longrightarrow> r \<in> set (tilesets c) \<Longrightarrow>
   ts_key (row r) = ts_key (row x) \<Longrightarrow> r = x"
  unfolding catalog_wf_def by (metis (mono_tags, lifting) distinct_map inj_on_eq_iff)

lemma catalog_wf_jobs [simp]: "catalog_wf (c\<lparr>tile_jobs := js\<rparr>) = catalog_wf c"
  by (simp add: catalog_wf_def)

lemma catalog_wf_insert:
  assumes "catalog_wf c" and "\<forall>r\<in>set (tilesets c). ts_key (row r) \<noteq> ts_key t"
  shows "catalog_wf (c\<lparr>tilesets := tilesets c @ [\<lparr>row_id = next_id c, row = t\<rparr>], next_id := Suc (next_id c)\<rparr>)"
  using assms by (fastforce simp: catalog_wf_def image_iff)

lemma catalog_wf_replace:
  assumes "catalog_wf c" and "x \<in> set (tilesets c)" and "ts_key t = ts_key (row x)"
  shows "catalog_wf (c\<lparr>tilesets := map (\<lambda>r. if row_id r = row_id x then \<lparr>row_id = row_id x, row = t\<rparr> else r) (tilesets c)\<rparr>)"
proof -
  let ?f = "\<lambda>r::catalog_row. \<lparr>row_id = row_id x, row = t\<rparr>"
  have ids: "map row_id (map (\<lambda>r. if row_id r = row_id x then ?f r else r) (tilesets c)) = map row_id (tilesets c)"
    using assms by (intro map_replace_id) (simp_all add: catalog_wf_def)
  have keys: "map (\<lambda>r. ts_key (row r)) (map (\<lambda>r. if row_id r = row_id x then ?f r else r) (tilesets c)) =
              map (\<lambda>r. ts_key (row r)) (tilesets c)"
    using assms by (intro map_replace_id) (simp_all add: catalog_wf_def)
  have "\<forall>r\<in>set (map (\<lambda>r. if row_id r = row_id x then ?f r else r) (tilesets c)). row_id r < next_id c"
  proof
    fix r assume "r \<in> set (map (\<lambda>r. if row_id r = row_id x then ?f r else r) (tilesets c))"
    then have "row_id r \<in> set (map row_id (map (\<lambda>r. if row_id r = row_id x then ?f r else r) (tilesets c)))"
      unfolding set_map by (rule imageI)
    then have "row_id r \<in> set (map row_id (tilesets c))" by (simp only: ids)
    then show "row_id r < next_id c" using assms(1) by (auto simp: catalog_wf_def)
  qed
  moreover have "tilesets (c\<lparr>tilesets := M\<rparr>) = M" "next_id (c\<lparr>tilesets := M\<rparr>) = next_id c" for M
    by simp_all
  ultimately show ?thesis using assms(1) by (simp only: catalog_wf_def ids keys)
qed

end
