(* ===== verification/Registrar.thy ===== *)
theory Registrar
  imports Catalog
begin

text \<open>
  The Tileset Catalog Registrar, \<open>src/etl/jobs/register_tileset.py\<close>.  The
  configuration read from the environment at import time is a record; the catalog,
  the network, the clock, the \<open>uuid4\<close> source and the tile directory are the
  \<open>rworld\<close> of \<open>Catalog\<close>, threaded through every call.  Console output is not
  modelled.
\<close>

record reg_env =
  service_key :: "string option"
  cdn_base :: string

section \<open>Helpers\<close>

definition get_headers :: "reg_env \<Rightarrow> exc + unit" where
  "get_headers env =
     (if truthy (service_key env) then Inr ()
      else Inl (ValueError ''SUPABASE_SERVICE_ROLE_KEY environment variable is required''))"

text \<open>\<open>Path.exists\<close> then \<open>rglob("*.pbf")\<close>: a missing directory counts as zero.\<close>

definition count_tiles :: "fs \<Rightarrow> path \<Rightarrow> nat" where
  "count_tiles f d = (if \<not> path_exists f d then 0 else length (rglob_pbf f d))"

definition get_tiles_size :: "fs \<Rightarrow> path \<Rightarrow> nat" where
  "get_tiles_size f d = (if \<not> path_exists f d then 0 else sum_list (map (\<lambda>e. st_size (snd e)) (rglob_pbf f d)))"

definition tileset_key_of :: "string \<Rightarrow> string \<Rightarrow> string \<Rightarrow> string" where
  "tileset_key_of jur layer v = ''us_'' @ jur @ ''_'' @ layer @ ''_'' @ v"

definition tile_url_template :: "reg_env \<Rightarrow> string \<Rightarrow> string \<Rightarrow> string \<Rightarrow> string" where
  "tile_url_template env jur layer v =
     cdn_base env @ ''/us/'' @ jur @ ''/'' @ layer @ ''/'' @ v @ ''/{z}/{x}/{y}.pbf''"

definition zoom_ranges :: "(string \<times> nat \<times> nat) list" where
  "zoom_ranges = [(''parcels'', 10, 18), (''zoning'', 8, 16), (''utilities'', 12, 18),
                  (''transportation'', 8, 18), (''flood'', 8, 16), (''wetlands'', 10, 16),
                  (''environmental'', 8, 16)]"

definition zoom_range :: "string \<Rightarrow> nat \<times> nat" where
  "zoom_range layer = (case map_of zoom_ranges layer of Some z \<Rightarrow> z | None \<Rightarrow> (8, 18))"

definition vector_layers_json :: "string \<Rightarrow> nat \<Rightarrow> nat \<Rightarrow> string" where
  "vector_layers_json layer mn mx =
     json_dumps (PList [PDict [(''id'', PStr layer), (''description'', PStr (''SiteIntel '' @ layer @ '' layer'')),
                               (''minzoom'', PInt (int mn)), (''maxzoom'', PInt (int mx))]])"

definition tileset_name :: "string \<Rightarrow> string \<Rightarrow> string \<Rightarrow> string" where
  "tileset_name layer jur v = py_title layer @ '' ('' @ py_upper jur @ '') v'' @ v"

text \<open>The \<open>tileset\<close> dictionary of lines 111--132, from the two clock readings it uses.\<close>

definition build_tileset ::
  "reg_env \<Rightarrow> string \<Rightarrow> string \<Rightarrow> string \<Rightarrow> int option \<Rightarrow> nat option \<Rightarrow> datetime \<Rightarrow> datetime \<Rightarrow> tileset" where
  "build_tileset env layer v jur rc sz expires generated =
     (let (mn, mx) = zoom_range layer
      in \<lparr>ts_key = tileset_key_of jur layer v, ts_name = tileset_name layer jur v,
          ts_category = layer, ts_jurisdiction = jur, ts_url = tile_url_template env jur layer v,
          ts_min_zoom = mn, ts_max_zoom = mx, ts_record_count = rc, ts_size_bytes = sz,
          ts_generated_at = isoformat generated, ts_expires_at = isoformat expires,
          ts_refresh_hours = 24, ts_is_active = True, ts_vector_layers = vector_layers_json layer mn mx,
          ts_updated_at = None\<rparr>)"

definition ok_status :: "int \<Rightarrow> int list \<Rightarrow> bool" where
  "ok_status s allowed \<longleftrightarrow> s \<in> set allowed"

text \<open>\<open>result[0] if isinstance(result, list) else result\<close> on a representation body.\<close>

definition first_row :: "response \<Rightarrow> exc + catalog_row" where
  "first_row r = (case body r of [] \<Rightarrow> Inl IndexError | x # _ \<Rightarrow> Inr x)"

section \<open>The upsert\<close>

text \<open>Lines 145--171: \<open>PATCH\<close> the row found by key, adding \<open>updated_at\<close>.\<close>

definition update_existing ::
  "nat \<Rightarrow> tileset \<Rightarrow> rworld \<Rightarrow> (exc + catalog_row) \<times> rworld" where
  "update_existing i t w =
     (let (tu, w1) = rnow w;
          t' = t\<lparr>ts_updated_at := Some (isoformat tu)\<rparr>
      in case send (PatchTileset i t') w1 of
           (Inl e, w2) \<Rightarrow> (Inl e, w2)
         | (Inr r, w2) \<Rightarrow>
             if \<not> ok_status (status r) [200, 204]
             then (Inl (HttpError (''Failed to update tileset: '' @ resp_text r)), w2)
             else if status r = 204 \<or> resp_text r = []
             then (Inr \<lparr>row_id = i, row = t'\<rparr>, w2)
             else (first_row r, w2))"

text \<open>Lines 172--190: \<open>POST\<close> a new row.\<close>

definition insert_new :: "tileset \<Rightarrow> rworld \<Rightarrow> (exc + catalog_row) \<times> rworld" where
  "insert_new t w =
     (case send (PostTileset t) w of
        (Inl e, w1) \<Rightarrow> (Inl e, w1)
      | (Inr r, w1) \<Rightarrow>
          if \<not> ok_status (status r) [200, 201]
          then (Inl (HttpError (''Failed to insert tileset: '' @ resp_text r)), w1)
          else (first_row r, w1))"

text \<open>Lines 193--216: the audit record; its status is only reported.\<close>

definition record_job ::
  "string \<Rightarrow> int option \<Rightarrow> nat option \<Rightarrow> int option \<Rightarrow> rworld \<Rightarrow> (exc + unit) \<times> rworld" where
  "record_job k rc tc dur w =
     (let (jid, w1) = uuid4 w;
          (ts, w2) = rnow w1;
          (tf, w3) = rnow w2;
          j = \<lparr>job_id = jid, job_key = k, job_type = ''full'', job_status = ''complete'',
               started_at = isoformat ts, finished_at = isoformat tf, input_records = rc,
               output_tiles = tc, duration_ms = dur, triggered_by = ''github_actions''\<rparr>
      in case send (PostJob j) w3 of
           (Inl e, w4) \<Rightarrow> (Inl e, w4)
         | (Inr r, w4) \<Rightarrow> (Inr (), w4))"

definition register_tileset ::
  "reg_env \<Rightarrow> string \<Rightarrow> string \<Rightarrow> string \<Rightarrow> int option \<Rightarrow> path option \<Rightarrow> int option \<Rightarrow> rworld \<Rightarrow>
   (exc + catalog_row) \<times> rworld" where
  "register_tileset env layer v jur rc tdir dur w =
     (let key = tileset_key_of jur layer v;
          tc = map_option (count_tiles (tiles w)) tdir;
          sz = map_option (get_tiles_size (tiles w)) tdir;
          (te, w1) = rnow w
      in case dt_add_days 30 te of
           Inl e \<Rightarrow> (Inl e, w1)
         | Inr expires \<Rightarrow>
             (let (tg, w2) = rnow w1;
                  t = build_tileset env layer v jur rc sz expires tg
              in case get_headers env of
                   Inl e \<Rightarrow> (Inl e, w2)
                 | Inr _ \<Rightarrow>
                     (case send (GetByKey key) w2 of
                        (Inl e, w3) \<Rightarrow> (Inl e, w3)
                      | (Inr chk, w3) \<Rightarrow>
                          (let existing = (if status chk = 200 then body chk else [])
                           in case (case existing of
                                      x # _ \<Rightarrow> update_existing (row_id x) t w3
                                    | [] \<Rightarrow> insert_new t w3) of
                                (Inl e, w4) \<Rightarrow> (Inl e, w4)
                              | (Inr rec, w4) \<Rightarrow>
                                  (case record_job key rc tc dur w4 of
                                     (Inl e, w5) \<Rightarrow> (Inl e, w5)
                                   | (Inr _, w5) \<Rightarrow> (Inr rec, w5))))))"

section \<open>Deactivating superseded versions\<close>

fun deactivate_loop :: "reg_env \<Rightarrow> catalog_row list \<Rightarrow> rworld \<Rightarrow> (exc + unit) \<times> rworld" where
  "deactivate_loop env [] w = (Inr (), w)"
| "deactivate_loop env (x # xs) w =
     (case get_headers env of
        Inl e \<Rightarrow> (Inl e, w)
      | Inr _ \<Rightarrow>
          (case send (PatchInactive (row_id x)) w of
             (Inl e, w1) \<Rightarrow> (Inl e, w1)
           | (Inr r, w1) \<Rightarrow> deactivate_loop env xs w1))"

definition deactivate_old_versions ::
  "reg_env \<Rightarrow> string \<Rightarrow> string \<Rightarrow> string \<Rightarrow> rworld \<Rightarrow> (exc + unit) \<times> rworld" where
  "deactivate_old_versions env layer jur v w =
     (let current_key = tileset_key_of jur layer v
      in case get_headers env of
           Inl e \<Rightarrow> (Inl e, w)
         | Inr _ \<Rightarrow>
             (case send (GetActiveOthers layer jur current_key) w of
                (Inl e, w1) \<Rightarrow> (Inl e, w1)
              | (Inr r, w1) \<Rightarrow>
                  if status r \<noteq> 200 then (Inr (), w1) else deactivate_loop env (body r) w1))"

section \<open>Lemmas\<close>

lemma build_tileset_fields [simp]:
  "ts_key (build_tileset env layer v jur rc sz ex g) = tileset_key_of jur layer v"
  "ts_category (build_tileset env layer v jur rc sz ex g) = layer"
  "ts_jurisdiction (build_tileset env layer v jur rc sz ex g) = jur"
  "ts_is_active (build_tileset env layer v jur rc sz ex g)"
  "ts_min_zoom (build_tileset env layer v jur rc sz ex g) = fst (zoom_range layer)"
  "ts_max_zoom (build_tileset env layer v jur rc sz ex g) = snd (zoom_range layer)"
  "ts_record_count (build_tileset env layer v jur rc sz ex g) = rc"
  "ts_size_bytes (build_tileset env layer v jur rc sz ex g) = sz"
  by (simp_all add: build_tileset_def split_def Let_def)

lemma update_existing_Deliver:
  assumes "link_of (net w) = Deliver" and "distinct (map row_id (tilesets (cat w)))"
    and "x \<in> set (tilesets (cat w))"
  shows "\<exists>u w'. update_existing (row_id x) t w =
           (Inr \<lparr>row_id = row_id x, row = t\<lparr>ts_updated_at := Some u\<rparr>\<rparr>, w') \<and>
         cat w' = (cat w)\<lparr>tilesets := map (\<lambda>r. if row_id r = row_id x
                     then \<lparr>row_id = row_id x, row = t\<lparr>ts_updated_at := Some u\<rparr>\<rparr> else r) (tilesets (cat w))\<rparr> \<and>
         net w' = tl (net w) \<and> tiles w' = tiles w"
proof -
  let ?u = "isoformat (readings (rclk w) (tick (rclk w)))"
  let ?t' = "t\<lparr>ts_updated_at := Some ?u\<rparr>"
  let ?new = "\<lparr>row_id = row_id x, row = ?t'\<rparr>"
  let ?rs' = "map (\<lambda>r. if row_id r = row_id x then ?new else r) (tilesets (cat w))"
  define w1 where "w1 = w\<lparr>rclk := \<lparr>readings = readings (rclk w), tick = Suc (tick (rclk w))\<rparr>\<rparr>"
  have r: "rnow w = (readings (rclk w) (tick (rclk w)), w1)"
    by (simp add: rnow_def utcnow_def w1_def)
  have m: "map (\<lambda>r. if row_id r = row_id x then r\<lparr>row := patch_row (row r) ?t'\<rparr> else r) (tilesets (cat w)) = ?rs'"
    by (simp add: patch_row_def)
  have flt: "filter (\<lambda>r. row_id r = row_id x) ?rs' = [?new]"
    using assms(2,3) by (rule filter_map_replace) auto
  have s: "send (PatchTileset (row_id x) ?t') w1 =
             (Inr (ok_response 200 [?new]), w1\<lparr>net := tl (net w), cat := (cat w)\<lparr>tilesets := ?rs'\<rparr>\<rparr>)"
  proof -
    have "link_of (net w1) = Deliver" "cat w1 = cat w" "net w1 = net w" using assms(1) by (simp_all add: w1_def)
    then have "send (PatchTileset (row_id x) ?t') w1 =
               (Inr (ok_response 200 (filter (\<lambda>r. row_id r = row_id x) ?rs')),
                w1\<lparr>net := tl (net w), cat := (cat w)\<lparr>tilesets := ?rs'\<rparr>\<rparr>)"
      by (simp only: send_Deliver serve.simps Let_def m prod.case)
    then show ?thesis by (simp only: flt)
  qed
  have "update_existing (row_id x) t w = (Inr ?new, w1\<lparr>net := tl (net w), cat := (cat w)\<lparr>tilesets := ?rs'\<rparr>\<rparr>)"
    by (simp add: update_existing_def r s ok_status_def ok_response_def first_row_def Let_def)
  then show ?thesis by (auto simp: w1_def)
qed

lemma insert_new_Deliver:
  assumes "link_of (net w) = Deliver" and "\<forall>r\<in>set (tilesets (cat w)). ts_key (row r) \<noteq> ts_key t"
  shows "insert_new t w =
     (Inr \<lparr>row_id = next_id (cat w), row = t\<lparr>ts_updated_at := None\<rparr>\<rparr>,
      w\<lparr>net := tl (net w),
        cat := (cat w)\<lparr>tilesets := tilesets (cat w) @ [\<lparr>row_id = next_id (cat w), row = t\<lparr>ts_updated_at := None\<rparr>\<rparr>],
                       next_id := Suc (next_id (cat w))\<rparr>\<rparr>)"
  using assms
  by (auto simp: insert_new_def send_Deliver ok_status_def ok_response_def first_row_def Let_def)

text \<open>The audit record is appended when the request is delivered; only a lost connection is an error.\<close>

lemma record_job_link:
  "\<exists>j w'. record_job k rc tc dur w =
       (if link_of (net w) = Unreachable then Inl (ConnectionError ''Max retries exceeded'') else Inr (), w') \<and>
     cat w' = (if link_of (net w) \<in> {Deliver, DeliverEmpty}
               then (cat w)\<lparr>tile_jobs := tile_jobs (cat w) @ [j]\<rparr> else cat w) \<and>
     job_key j = k \<and> input_records j = rc \<and> output_tiles j = tc \<and>
     net w' = tl (net w) \<and> tiles w' = tiles w"
proof -
  let ?j = "\<lparr>job_id = [], job_key = k, job_type = [], job_status = [], started_at = [], finished_at = [],
             input_records = rc, output_tiles = tc, duration_ms = None, triggered_by = []\<rparr>"
  show ?thesis
    by (cases "link_of (net w)")
       (auto simp: record_job_def uuid4_def rnow_def utcnow_def send_link Let_def intro: exI [of _ ?j])
qed

lemma register_tileset_Deliver:
  assumes "link_of (net w) = Deliver" and "truthy (service_key env)"
    and "dt_add_days 30 (readings (rclk w) (tick (rclk w))) = Inr ex"
  shows "register_tileset env layer v jur rc tdir dur w =
    (let w2 = w\<lparr>rclk := (rclk w)\<lparr>tick := Suc (Suc (tick (rclk w)))\<rparr>, net := tl (net w)\<rparr>;
         t = build_tileset env layer v jur rc (map_option (get_tiles_size (tiles w)) tdir) ex
               (readings (rclk w) (Suc (tick (rclk w))));
         key = tileset_key_of jur layer v
     in case (case filter (\<lambda>r. ts_key (row r) = key) (tilesets (cat w)) of
                x # _ \<Rightarrow> update_existing (row_id x) t w2
              | [] \<Rightarrow> insert_new t w2) of
          (Inl e, w4) \<Rightarrow> (Inl e, w4)
        | (Inr rec, w4) \<Rightarrow>
            (case record_job key rc (map_option (count_tiles (tiles w)) tdir) dur w4 of
               (Inl e, w5) \<Rightarrow> (Inl e, w5)
             | (Inr _, w5) \<Rightarrow> (Inr rec, w5)))"
  using assms
  by (simp add: register_tileset_def rnow_def utcnow_def get_headers_def send_Deliver ok_response_def Let_def
      cong: list.case_cong)

lemma update_existing_readings: "readings (rclk (snd (update_existing i t w))) = readings (rclk w)"
  using send_rclk [of _ "snd (rnow w)"]
  by (simp add: update_existing_def split_def Let_def split: sum.splits)

lemma insert_new_readings: "readings (rclk (snd (insert_new t w))) = readings (rclk w)"
  using send_rclk [of "PostTileset t" w]
  by (simp add: insert_new_def split_def split: sum.splits)

lemma record_job_readings: "readings (rclk (snd (record_job k rc tc dur w))) = readings (rclk w)"
  by (simp add: record_job_def split_def Let_def rnow_def utcnow_def uuid4_def split: sum.splits)

lemma register_tileset_readings:
  "readings (rclk (snd (register_tileset env layer v jur rc tdir dur w))) = readings (rclk w)"
  using update_existing_readings insert_new_readings record_job_readings
  by (simp add: register_tileset_def split_def Let_def rnow_def utcnow_def
      split: sum.splits list.splits)

lemma register_tileset_links:
  fixes layer v jur :: string
  assumes d1: "link_of (net w) = Deliver" and d2: "link_of (tl (net w)) = Deliver"
    and key: "truthy (service_key env)" and wf: "catalog_wf (cat w)"
    and clk: "year (add_days 30 (readings (rclk w) (tick (rclk w)))) \<le> 9999"
  defines "k \<equiv> tileset_key_of jur layer v" and "l \<equiv> link_of (tl (tl (net w)))"
  shows "\<exists>rec w'. register_tileset env layer v jur rc tdir dur w =
       (if l = Unreachable then Inl (ConnectionError ''Max retries exceeded'') else Inr rec, w') \<and>
     row_id rec = (case filter (\<lambda>r. ts_key (row r) = k) (tilesets (cat w)) of
                     x # _ \<Rightarrow> row_id x | [] \<Rightarrow> next_id (cat w)) \<and>
     filter (\<lambda>r. ts_key (row r) = k) (tilesets (cat w')) = [rec] \<and>
     ts_category (row rec) = layer \<and> ts_jurisdiction (row rec) = jur \<and> ts_is_active (row rec) \<and>
     ts_record_count (row rec) = rc \<and> ts_size_bytes (row rec) = map_option (get_tiles_size (tiles w)) tdir \<and>
     filter (\<lambda>r. ts_key (row r) \<noteq> k) (tilesets (cat w')) = filter (\<lambda>r. ts_key (row r) \<noteq> k) (tilesets (cat w)) \<and>
     map row_id (tilesets (cat w')) =
       map row_id (tilesets (cat w)) @ (if \<exists>r\<in>set (tilesets (cat w)). ts_key (row r) = k then [] else [next_id (cat w)]) \<and>
     (\<exists>j. tile_jobs (cat w') = tile_jobs (cat w) @ (if l \<in> {Deliver, DeliverEmpty} then [j] else []) \<and> job_key j = k \<and>
          input_records j = rc \<and> output_tiles j = map_option (count_tiles (tiles w)) tdir) \<and>
     catalog_wf (cat w') \<and> net w' = tl (tl (tl (net w))) \<and> tiles w' = tiles w"
proof -
  obtain ex where ex: "dt_add_days 30 (readings (rclk w) (tick (rclk w))) = Inr ex"
    using clk by (simp add: dt_add_days_def Let_def)
  define w2 where "w2 = w\<lparr>rclk := (rclk w)\<lparr>tick := Suc (Suc (tick (rclk w)))\<rparr>, net := tl (net w)\<rparr>"
  define t where "t = build_tileset env layer v jur rc (map_option (get_tiles_size (tiles w)) tdir) ex
               (readings (rclk w) (Suc (tick (rclk w))))"
  define tc where "tc = map_option (count_tiles (tiles w)) tdir"
  let ?rs = "tilesets (cat w)"
  have w2: "link_of (net w2) = Deliver" "cat w2 = cat w" "tiles w2 = tiles w" "net w2 = tl (net w)"
    using d2 by (simp_all add: w2_def)
  have tk: "ts_key t = k" by (simp add: t_def k_def)
  have tf: "ts_category t = layer" "ts_jurisdiction t = jur" "ts_is_active t"
    "ts_record_count t = rc" "ts_size_bytes t = map_option (get_tiles_size (tiles w)) tdir" by (simp_all add: t_def)
  have reg: "register_tileset env layer v jur rc tdir dur w =
     (case (case filter (\<lambda>r. ts_key (row r) = k) ?rs of x # _ \<Rightarrow> update_existing (row_id x) t w2
                                                 | [] \<Rightarrow> insert_new t w2) of
          (Inl e, w4) \<Rightarrow> (Inl e, w4)
        | (Inr rec, w4) \<Rightarrow>
            (case record_job k rc tc dur w4 of
               (Inl e, w5) \<Rightarrow> (Inl e, w5)
             | (Inr _, w5) \<Rightarrow> (Inr rec, w5)))"
    unfolding register_tileset_Deliver [OF d1 key ex] Let_def w2_def t_def k_def tc_def by (rule refl)
  have job: "(case (if l = Unreachable then Inl (ConnectionError ''Max retries exceeded'') else Inr (), w5) of
                (Inl e, w5) \<Rightarrow> (Inl e, w5) | (Inr _, w5) \<Rightarrow> (Inr rec, w5)) =
             (if l = Unreachable then Inl (ConnectionError ''Max retries exceeded'') else Inr rec, w5)"
    for rec :: catalog_row and w5 by simp
  show ?thesis
  proof (cases "filter (\<lambda>r. ts_key (row r) = k) ?rs")
    case Nil
    then have none: "\<forall>r\<in>set ?rs. ts_key (row r) \<noteq> ts_key t" by (simp add: tk filter_empty_conv)
    let ?new = "\<lparr>row_id = next_id (cat w), row = t\<lparr>ts_updated_at := None\<rparr>\<rparr>"
    let ?c = "(cat w)\<lparr>tilesets := ?rs @ [?new], next_id := Suc (next_id (cat w))\<rparr>"
    let ?w4 = "w2\<lparr>net := tl (tl (net w)), cat := ?c\<rparr>"
    have ins: "insert_new t w2 = (Inr ?new, ?w4)"
      using insert_new_Deliver [of w2 t] w2 none by simp
    obtain j w5 where rj0: "record_job k rc tc dur ?w4 =
           (if link_of (net ?w4) = Unreachable then Inl (ConnectionError ''Max retries exceeded'') else Inr (), w5)"
      and c50: "cat w5 = (if link_of (net ?w4) \<in> {Deliver, DeliverEmpty}
                          then (cat ?w4)\<lparr>tile_jobs := tile_jobs (cat ?w4) @ [j]\<rparr> else cat ?w4)"
      and j: "job_key j = k" "input_records j = rc" "output_tiles j = tc" and n50: "net w5 = tl (net ?w4)" "tiles w5 = tiles ?w4"
      using record_job_link [of k rc tc dur ?w4] by blast
    have n4: "link_of (net ?w4) = l" "net ?w4 = tl (tl (net w))" "cat ?w4 = ?c" "tiles ?w4 = tiles w"
      using w2 by (simp_all add: l_def)
    have rj: "record_job k rc tc dur ?w4 =
           (if l = Unreachable then Inl (ConnectionError ''Max retries exceeded'') else Inr (), w5)"
      using rj0 by (simp only: n4(1))
    have c5: "cat w5 = (if l \<in> {Deliver, DeliverEmpty} then ?c\<lparr>tile_jobs := tile_jobs (cat w) @ [j]\<rparr> else ?c)"
      and n5: "net w5 = tl (tl (tl (net w)))" "tiles w5 = tiles w"
      using c50 n50 by (simp_all only: n4) (simp_all add: l_def)
    have "catalog_wf ?c" using catalog_wf_insert [of "cat w" "t\<lparr>ts_updated_at := None\<rparr>"] wf none by simp
    then show ?thesis using Nil none tk tf j n5
      by (simp only: reg Nil list.case ins prod.case sum.case rj job) (simp add: c5 tc_def, blast)
  next
    case (Cons x xs)
    then have "x \<in> set (filter (\<lambda>r. ts_key (row r) = k) ?rs)" by simp
    then have x: "x \<in> set ?rs" "ts_key (row x) = k" by simp_all
    obtain u w4 where ue: "update_existing (row_id x) t w2 =
           (Inr \<lparr>row_id = row_id x, row = t\<lparr>ts_updated_at := Some u\<rparr>\<rparr>, w4)"
      and c4: "cat w4 = (cat w)\<lparr>tilesets := map (\<lambda>r. if row_id r = row_id x
                     then \<lparr>row_id = row_id x, row = t\<lparr>ts_updated_at := Some u\<rparr>\<rparr> else r) ?rs\<rparr>"
      and n4: "net w4 = tl (tl (net w))" "tiles w4 = tiles w"
      using update_existing_Deliver [of w2 x t] w2 wf x(1) by (auto simp: catalog_wf_def)
    obtain j w5 where rj0: "record_job k rc tc dur w4 =
           (if link_of (net w4) = Unreachable then Inl (ConnectionError ''Max retries exceeded'') else Inr (), w5)"
      and c50: "cat w5 = (if link_of (net w4) \<in> {Deliver, DeliverEmpty}
                          then (cat w4)\<lparr>tile_jobs := tile_jobs (cat w4) @ [j]\<rparr> else cat w4)"
      and j: "job_key j = k" "input_records j = rc" "output_tiles j = tc" and n50: "net w5 = tl (net w4)" "tiles w5 = tiles w4"
      using record_job_link [of k rc tc dur w4] by blast
    have l4: "link_of (net w4) = l" using n4 by (simp add: l_def)
    have rj: "record_job k rc tc dur w4 =
           (if l = Unreachable then Inl (ConnectionError ''Max retries exceeded'') else Inr (), w5)"
      using rj0 by (simp only: l4)
    have c5: "cat w5 = (if l \<in> {Deliver, DeliverEmpty} then (cat w4)\<lparr>tile_jobs := tile_jobs (cat w4) @ [j]\<rparr> else cat w4)"
      and n5: "net w5 = tl (tl (tl (net w)))" "tiles w5 = tiles w"
      using c50 n50 n4 by (simp_all only: l4) (simp_all add: l_def)
    let ?new = "\<lparr>row_id = row_id x, row = t\<lparr>ts_updated_at := Some u\<rparr>\<rparr>"
    let ?rs' = "map (\<lambda>r. if row_id r = row_id x then ?new else r) ?rs"
    have ids: "distinct (map row_id ?rs)" using wf by (simp add: catalog_wf_def)
    have f1: "filter (\<lambda>r. ts_key (row r) = k) ?rs' = [?new]"
      using ids x(1) by (rule filter_map_replace) (auto simp: tk dest: distinct_key_unique [OF wf x(1)] simp: x(2))
    have f2: "filter (\<lambda>r. ts_key (row r) \<noteq> k) ?rs' = filter (\<lambda>r. ts_key (row r) \<noteq> k) ?rs"
      using ids x by (intro filter_map_replace_other) (simp_all add: tk)
    have f3: "map row_id ?rs' = map row_id ?rs"
      using ids x(1) by (rule map_replace_id) simp
    have "catalog_wf (cat w4)"
      unfolding c4 using wf x by (intro catalog_wf_replace) (simp_all add: tk)
    moreover have "\<exists>r\<in>set ?rs. ts_key (row r) = k" using x by blast
    ultimately show ?thesis using j n5 tf
      by (simp only: reg Cons list.case ue prod.case sum.case rj job) (simp add: c5 c4 f1 f2 f3 tc_def, blast)
  qed
qed

lemma register_tileset_fault_free:
  assumes net: "net w = []" and key: "truthy (service_key env)" and wf: "catalog_wf (cat w)"
    and clk: "year (add_days 30 (readings (rclk w) (tick (rclk w)))) \<le> 9999"
  shows "\<exists>rec w'. register_tileset env layer v jur rc tdir dur w = (Inr rec, w') \<and>
     row_id rec = (case filter (\<lambda>r. ts_key (row r) = tileset_key_of jur layer v) (tilesets (cat w)) of
                     x # _ \<Rightarrow> row_id x | [] \<Rightarrow> next_id (cat w)) \<and>
     filter (\<lambda>r. ts_key (row r) = tileset_key_of jur layer v) (tilesets (cat w')) = [rec] \<and>
     ts_category (row rec) = layer \<and> ts_jurisdiction (row rec) = jur \<and> ts_is_active (row rec) \<and>
     filter (\<lambda>r. ts_key (row r) \<noteq> tileset_key_of jur layer v) (tilesets (cat w')) =
       filter (\<lambda>r. ts_key (row r) \<noteq> tileset_key_of jur layer v) (tilesets (cat w)) \<and>
     map row_id (tilesets (cat w')) =
       map row_id (tilesets (cat w)) @
       (if \<exists>r\<in>set (tilesets (cat w)). ts_key (row r) = tileset_key_of jur layer v then [] else [next_id (cat w)]) \<and>
     (\<exists>j. tile_jobs (cat w') = tile_jobs (cat w) @ [j] \<and> job_key j = tileset_key_of jur layer v) \<and>
     catalog_wf (cat w') \<and> net w' = [] \<and> tiles w' = tiles w"
  using register_tileset_links [where w = w and env = env and layer = layer and v = v and jur = jur
      and rc = rc and tdir = tdir and dur = dur, OF _ _ key wf clk] net
  by simp fastforce

text \<open>
  C7. Upsert (specification 8.5).  When every request reaches the catalog, the service
  key is configured, the catalog is well formed and the expiry date does not overflow,
  \<open>register_tileset\<close> succeeds and afterwards exactly one catalog row carries the
  tileset key: the row it returns.  It updates the row found by key in place (same id)
  or appends one new row with the next id; rows of other keys are untouched; exactly
  one audit job for the key is appended; the catalog stays well formed.
\<close>

theorem register_tileset_upsert:
  assumes net: "net w = []" and key: "truthy (service_key env)" and wf: "catalog_wf (cat w)"
    and clk: "year (add_days 30 (readings (rclk w) (tick (rclk w)))) \<le> 9999"
  shows "\<exists>rec w'. register_tileset env layer v jur rc tdir dur w = (Inr rec, w') \<and>
     row_id rec = (case filter (\<lambda>r. ts_key (row r) = tileset_key_of jur layer v) (tilesets (cat w)) of
                     x # _ \<Rightarrow> row_id x | [] \<Rightarrow> next_id (cat w)) \<and>
     filter (\<lambda>r. ts_key (row r) = tileset_key_of jur layer v) (tilesets (cat w')) = [rec] \<and>
     ts_category (row rec) = layer \<and> ts_jurisdiction (row rec) = jur \<and> ts_is_active (row rec) \<and>
     filter (\<lambda>r. ts_key (row r) \<noteq> tileset_key_of jur layer v) (tilesets (cat w')) = filter (\<lambda>r. ts_key (row r) \<noteq> tileset_key_of jur layer v) (tilesets (cat w)) \<and>
     map row_id (tilesets (cat w')) =
       map row_id (tilesets (cat w)) @ (if \<exists>r\<in>set (tilesets (cat w)). ts_key (row r) = tileset_key_of jur layer v then [] else [next_id (cat w)]) \<and>
     (\<exists>j. tile_jobs (cat w') = tile_jobs (cat w) @ [j] \<and> job_key j = tileset_key_of jur layer v) \<and>
     catalog_wf (cat w') \<and> net w' = [] \<and> tiles w' = tiles w"
  using assms by (rule register_tileset_fault_free)

text \<open>
  C8. Registering the same (layer, version, jurisdiction) twice (specification 8.5): both
  calls succeed, the second updates the row the first created or updated (same id, no
  new row), the key still has exactly one row, and each call appends one audit job.
\<close>

theorem register_tileset_twice:
  assumes "net w = []" and "truthy (service_key env)" and "catalog_wf (cat w)"
    and "\<forall>i. year (add_days 30 (readings (rclk w) i)) \<le> 9999"
  shows "\<exists>r1 w1 r2 w2.
     register_tileset env layer v jur rc tdir dur w = (Inr r1, w1) \<and>
     register_tileset env layer v jur rc' tdir' dur' w1 = (Inr r2, w2) \<and>
     row_id r2 = row_id r1 \<and> map row_id (tilesets (cat w2)) = map row_id (tilesets (cat w1)) \<and>
     filter (\<lambda>r. ts_key (row r) = tileset_key_of jur layer v) (tilesets (cat w2)) = [r2] \<and>
     length (tile_jobs (cat w2)) = length (tile_jobs (cat w)) + 2"
proof -
  obtain r1 w1 where reg1: "register_tileset env layer v jur rc tdir dur w = (Inr r1, w1)"
    and f1: "filter (\<lambda>r. ts_key (row r) = tileset_key_of jur layer v) (tilesets (cat w1)) = [r1]"
    and j1: "length (tile_jobs (cat w1)) = Suc (length (tile_jobs (cat w)))"
    and wf1: "catalog_wf (cat w1)" and n1: "net w1 = []"
    using register_tileset_fault_free [of w env layer v jur rc tdir dur] assms by fastforce
  have "readings (rclk w1) = readings (rclk w)"
    using register_tileset_readings [of env layer v jur rc tdir dur w] reg1 by simp
  then have clk1: "year (add_days 30 (readings (rclk w1) (tick (rclk w1)))) \<le> 9999" using assms(4) by simp
  have "r1 \<in> set (filter (\<lambda>r. ts_key (row r) = tileset_key_of jur layer v) (tilesets (cat w1)))"
    using f1 by simp
  then have ex1: "\<exists>r\<in>set (tilesets (cat w1)). ts_key (row r) = tileset_key_of jur layer v" by auto
  obtain r2 w2 where reg2: "register_tileset env layer v jur rc' tdir' dur' w1 = (Inr r2, w2)"
    and i2: "row_id r2 = row_id r1"
    and f2: "filter (\<lambda>r. ts_key (row r) = tileset_key_of jur layer v) (tilesets (cat w2)) = [r2]"
    and m2: "map row_id (tilesets (cat w2)) = map row_id (tilesets (cat w1))"
    and j2: "length (tile_jobs (cat w2)) = Suc (length (tile_jobs (cat w1)))"
    using register_tileset_fault_free [where w = w1 and env = env and layer = layer and v = v and jur = jur
        and rc = rc' and tdir = tdir' and dur = dur', OF n1 assms(2) wf1 clk1, unfolded f1 list.case]
    by (auto simp: ex1)
  show ?thesis using reg1 reg2 i2 f2 m2 j1 j2 by auto
qed

lemma register_tileset_lookup_rejected:
  assumes "net w = [Reject s txt]" and "s \<noteq> 200" and "truthy (service_key env)"
    and "dt_add_days 30 (readings (rclk w) (tick (rclk w))) = Inr ex"
  shows "register_tileset env layer v jur rc tdir dur w =
    (let w2 = w\<lparr>rclk := (rclk w)\<lparr>tick := Suc (Suc (tick (rclk w)))\<rparr>, net := []\<rparr>;
         t = build_tileset env layer v jur rc (map_option (get_tiles_size (tiles w)) tdir) ex
               (readings (rclk w) (Suc (tick (rclk w))))
     in case insert_new t w2 of
          (Inl e, w4) \<Rightarrow> (Inl e, w4)
        | (Inr rec, w4) \<Rightarrow>
            (case record_job (tileset_key_of jur layer v) rc (map_option (count_tiles (tiles w)) tdir) dur w4 of
               (Inl e, w5) \<Rightarrow> (Inl e, w5)
             | (Inr _, w5) \<Rightarrow> (Inr rec, w5)))"
  using assms
  by (simp add: register_tileset_def rnow_def utcnow_def get_headers_def send_link link_of_def Let_def)

text \<open>
  C13. A failed lookup is taken for absence (lines 137--145).  When the \<open>GET\<close> by key
  is answered with an error status, \<open>existing\<close> is \<open>[]\<close> and the registrar inserts
  although a row with the key exists: without a unique constraint on the key the
  catalog then holds two rows for it and is no longer well formed; with one, the
  insert is rejected and registration fails with the duplicate-key error.
\<close>

theorem register_lookup_failure_duplicates:
  assumes "net w = [Reject s txt]" and "s \<noteq> 200" and "truthy (service_key env)"
    and "year (add_days 30 (readings (rclk w) (tick (rclk w)))) \<le> 9999"
    and "\<exists>r\<in>set (tilesets (cat w)). ts_key (row r) = tileset_key_of jur layer v"
  shows "if key_unique (cat w)
         then fst (register_tileset env layer v jur rc tdir dur w) =
                Inl (HttpError ''Failed to insert tileset: duplicate key value violates unique constraint'')
         else (\<exists>rec w'. register_tileset env layer v jur rc tdir dur w = (Inr rec, w') \<and>
                 length (filter (\<lambda>r. ts_key (row r) = tileset_key_of jur layer v) (tilesets (cat w'))) =
                 Suc (length (filter (\<lambda>r. ts_key (row r) = tileset_key_of jur layer v) (tilesets (cat w)))) \<and>
                 \<not> catalog_wf (cat w'))"
proof -
  obtain ex where ex: "dt_add_days 30 (readings (rclk w) (tick (rclk w))) = Inr ex"
    using assms(4) by (simp add: dt_add_days_def Let_def)
  define w2 where "w2 = w\<lparr>rclk := (rclk w)\<lparr>tick := Suc (Suc (tick (rclk w)))\<rparr>, net := []\<rparr>"
  define t where "t = build_tileset env layer v jur rc (map_option (get_tiles_size (tiles w)) tdir) ex
               (readings (rclk w) (Suc (tick (rclk w))))"
  have reg: "register_tileset env layer v jur rc tdir dur w =
     (case insert_new t w2 of
          (Inl e, w4) \<Rightarrow> (Inl e, w4)
        | (Inr rec, w4) \<Rightarrow>
            (case record_job (tileset_key_of jur layer v) rc (map_option (count_tiles (tiles w)) tdir) dur w4 of
               (Inl e, w5) \<Rightarrow> (Inl e, w5)
             | (Inr _, w5) \<Rightarrow> (Inr rec, w5)))"
    unfolding register_tileset_lookup_rejected [OF assms(1-3) ex] Let_def w2_def t_def by (rule refl)
  have dup: "\<exists>r\<in>set (tilesets (cat w2)). ts_key (row r) = ts_key t" using assms(5) by (simp add: w2_def t_def)
  show ?thesis
  proof (cases "key_unique (cat w)")
    case True
    then have "insert_new t w2 = (Inl (HttpError ''Failed to insert tileset: duplicate key value violates unique constraint''), w2)"
      using dup by (simp add: insert_new_def send_link w2_def ok_status_def)
    then show ?thesis using True by (simp add: reg)
  next
    case False
    let ?new = "\<lparr>row_id = next_id (cat w), row = t\<lparr>ts_updated_at := None\<rparr>\<rparr>"
    let ?c = "(cat w)\<lparr>tilesets := tilesets (cat w) @ [?new], next_id := Suc (next_id (cat w))\<rparr>"
    have ins: "insert_new t w2 = (Inr ?new, w2\<lparr>cat := ?c\<rparr>)"
      using False by (simp add: insert_new_def send_link w2_def ok_status_def ok_response_def first_row_def Let_def)
    obtain j w5 where rj: "record_job (tileset_key_of jur layer v) rc (map_option (count_tiles (tiles w)) tdir) dur
                             (w2\<lparr>cat := ?c\<rparr>) = (Inr (), w5)"
      and c5: "cat w5 = ?c\<lparr>tile_jobs := tile_jobs (cat w) @ [j]\<rparr>"
      using record_job_link [of "tileset_key_of jur layer v" rc "map_option (count_tiles (tiles w)) tdir" dur
          "w2\<lparr>cat := ?c\<rparr>"] by (auto simp: w2_def)
    have k: "ts_key (row ?new) = tileset_key_of jur layer v" by (simp add: t_def)
    obtain r where r: "r \<in> set (tilesets (cat w))" "ts_key (row r) = tileset_key_of jur layer v"
      using assms(5) by blast
    have "\<not> distinct (map (\<lambda>r. ts_key (row r)) (tilesets (cat w) @ [?new]))"
      using r k by (auto simp: image_iff) (metis r(2))
    then have "\<not> catalog_wf (cat w5)" by (simp add: c5 catalog_wf_def)
    then show ?thesis using False k by (simp add: reg ins rj c5)
  qed
qed

text \<open>
  C14. The audit record is not isolated from the upsert (lines 193--216).  With the lookup
  and the upsert delivered, the tileset row is written whatever happens to the
  \<open>tile_jobs\<close> request; an error status there is only reported, but a lost
  connection raises out of \<open>register_tileset\<close>, which then fails although the
  catalog already holds the new row.
\<close>

theorem register_audit_not_isolated:
  assumes "net w = [Deliver, Deliver, l]" and "truthy (service_key env)" and "catalog_wf (cat w)"
    and "year (add_days 30 (readings (rclk w) (tick (rclk w)))) \<le> 9999"
  shows "\<exists>rec w'. register_tileset env layer v jur rc tdir dur w =
       (if l = Unreachable then Inl (ConnectionError ''Max retries exceeded'') else Inr rec, w') \<and>
     filter (\<lambda>r. ts_key (row r) = tileset_key_of jur layer v) (tilesets (cat w')) = [rec] \<and>
     length (tile_jobs (cat w')) = length (tile_jobs (cat w)) + (if l \<in> {Deliver, DeliverEmpty} then 1 else 0)"
  using register_tileset_links [where w = w and env = env and layer = layer and v = v and jur = jur
      and rc = rc and tdir = tdir and dur = dur, OF _ _ assms(2-4)] assms(1)
  by (simp add: link_of_def) fastforce

text \<open>
  C15. Tile statistics (specification 8.8, lines 53--64 and 93--94).  Without a tile
  directory the row's \<open>size_bytes\<close> and the job's \<open>output_tiles\<close> are absent;
  with one they are the total size and the number of \<open>.pbf\<close> files below it, and
  when the directory does not exist they are zero, not absent.
\<close>

theorem register_tile_statistics:
  assumes "net w = []" and "truthy (service_key env)" and "catalog_wf (cat w)"
    and "year (add_days 30 (readings (rclk w) (tick (rclk w)))) \<le> 9999"
  shows "\<exists>rec w' j. register_tileset env layer v jur rc tdir dur w = (Inr rec, w') \<and>
     tile_jobs (cat w') = tile_jobs (cat w) @ [j] \<and> input_records j = rc \<and> ts_record_count (row rec) = rc \<and>
     ts_size_bytes (row rec) = (case tdir of None \<Rightarrow> None | Some d \<Rightarrow>
        Some (if path_exists (tiles w) d then sum_list (map (\<lambda>e. st_size (snd e)) (rglob_pbf (tiles w) d)) else 0)) \<and>
     output_tiles j = (case tdir of None \<Rightarrow> None | Some d \<Rightarrow>
        Some (if path_exists (tiles w) d then length (rglob_pbf (tiles w) d) else 0))"
proof -
  have "map_option (get_tiles_size (tiles w)) tdir = (case tdir of None \<Rightarrow> None | Some d \<Rightarrow>
        Some (if path_exists (tiles w) d then sum_list (map (\<lambda>e. st_size (snd e)) (rglob_pbf (tiles w) d)) else 0))"
       "map_option (count_tiles (tiles w)) tdir = (case tdir of None \<Rightarrow> None | Some d \<Rightarrow>
        Some (if path_exists (tiles w) d then length (rglob_pbf (tiles w) d) else 0))"
    by (simp_all add: get_tiles_size_def count_tiles_def split: option.split)
  with register_tileset_links [where w = w and env = env and layer = layer and v = v and jur = jur
      and rc = rc and tdir = tdir and dur = dur, OF _ _ assms(2-4)] assms(1)
  show ?thesis by simp fastforce
qed

text \<open>
  C16. Zoom policy (specification 8.6, lines 97--106): \<open>parcels\<close> gets (10, 18), a layer
  not in the table gets (8, 18), and every registered tileset has
  8 \<open>\<le>\<close> min_zoom \<open>\<le>\<close> max_zoom \<open>\<le>\<close> 18.
\<close>

theorem build_tileset_zoom:
  "zoom_range ''parcels'' = (10, 18) \<and> (layer \<notin> set (map fst zoom_ranges) \<longrightarrow> zoom_range layer = (8, 18)) \<and>
   8 \<le> ts_min_zoom (build_tileset env layer v jur rc sz ex g) \<and>
   ts_min_zoom (build_tileset env layer v jur rc sz ex g) \<le> ts_max_zoom (build_tileset env layer v jur rc sz ex g) \<and>
   ts_max_zoom (build_tileset env layer v jur rc sz ex g) \<le> 18"
proof -
  have "map_of zoom_ranges layer = Some z \<Longrightarrow> 8 \<le> fst z \<and> fst z \<le> snd z \<and> snd z \<le> 18" for z
    by (auto simp: zoom_ranges_def split: if_splits)
  then show ?thesis
    by (auto simp: zoom_range_def zoom_ranges_def map_of_eq_None_iff split: option.split)
qed

text \<open>
  C17. The tileset key \<open>us_{jurisdiction}_{layer}_{version}\<close> (line 89) determines the
  jurisdiction, layer and version when neither the jurisdiction nor the layer
  contains an underscore.
\<close>

theorem tileset_key_inject:
  assumes "CHR ''_'' \<notin> set jur" and "CHR ''_'' \<notin> set layer" and "CHR ''_'' \<notin> set jur'" and "CHR ''_'' \<notin> set layer'"
  shows "tileset_key_of jur layer v = tileset_key_of jur' layer' v' \<longleftrightarrow> jur = jur' \<and> layer = layer' \<and> v = v'"
proof
  assume "tileset_key_of jur layer v = tileset_key_of jur' layer' v'"
  then have "jur @ CHR ''_'' # layer @ CHR ''_'' # v = jur' @ CHR ''_'' # layer' @ CHR ''_'' # v'"
    by (simp add: tileset_key_of_def)
  from append_sep_inject [OF this assms(1,3)] have "jur = jur'"
    and "layer @ CHR ''_'' # v = layer' @ CHR ''_'' # v'" by simp_all
  with append_sep_inject [OF this(2) assms(2,4)] show "jur = jur' \<and> layer = layer' \<and> v = v'" by simp
qed simp

end
