(* ===== verification/Deactivation.thy ===== *)
theory Deactivation
  imports Registrar
begin

text \<open>
  Properties of \<open>deactivate_old_versions\<close> (\<open>src/etl/jobs/register_tileset.py\<close>,
  lines 221--255) and of its composition with \<open>register_tileset\<close> as \<open>main\<close>
  runs them: the effect of one \<open>PATCH\<close> for every network outcome, the fault-free
  effect of the whole call, and what an error status and a lost connection do to the
  remaining deactivations.
\<close>

text \<open>
  The ids of the rows whose \<open>PATCH\<close> reaches the server and is applied, given the
  network outcomes the loop meets in turn (a specification helper, not code).
\<close>

fun patched_ids :: "catalog_row list \<Rightarrow> link list \<Rightarrow> nat list" where
  "patched_ids [] ls = []"
| "patched_ids (x # xs) ls =
     (if link_of ls \<in> {Deliver, DeliverEmpty} then [row_id x] else []) @ patched_ids xs (tl ls)"

lemma deactivate_loop_Cons:
  assumes "truthy (service_key env)"
  shows "deactivate_loop env (x # xs) w =
    (if link_of (net w) = Unreachable then (Inl (ConnectionError ''Max retries exceeded''), w\<lparr>net := tl (net w)\<rparr>)
     else deactivate_loop env xs
            (w\<lparr>net := tl (net w),
               cat := if link_of (net w) \<in> {Deliver, DeliverEmpty}
                      then (cat w)\<lparr>tilesets := map (\<lambda>r. if row_id r = row_id x
                             then r\<lparr>row := (row r)\<lparr>ts_is_active := False\<rparr>\<rparr> else r) (tilesets (cat w))\<rparr>
                      else cat w\<rparr>))"
  using assms by (cases "link_of (net w)") (simp_all add: get_headers_def send_link Let_def)

lemma deactivate_loop_Deliver:
  assumes "net w = []" and "truthy (service_key env)"
  shows "deactivate_loop env xs w =
    (Inr (), w\<lparr>cat := (cat w)\<lparr>tilesets := map (\<lambda>r. if row_id r \<in> set (map row_id xs)
        then r\<lparr>row := (row r)\<lparr>ts_is_active := False\<rparr>\<rparr> else r) (tilesets (cat w))\<rparr>\<rparr>)"
  using assms(1)
proof (induction xs arbitrary: w)
  case Nil
  then show ?case by simp
next
  case (Cons x xs)
  then show ?case by (simp only: deactivate_loop_Cons [OF assms(2)]) (simp add: Cons.IH)
qed

lemma map_deactivate_compose:
  "map (\<lambda>r. if row_id r \<in> S then r\<lparr>row := (row r)\<lparr>ts_is_active := False\<rparr>\<rparr> else r)
     (map (\<lambda>r. if row_id r = i then r\<lparr>row := (row r)\<lparr>ts_is_active := False\<rparr>\<rparr> else r) rs) =
   map (\<lambda>r. if row_id r \<in> insert i S then r\<lparr>row := (row r)\<lparr>ts_is_active := False\<rparr>\<rparr> else r) rs"
  by (induction rs) simp_all

lemma map_if_ids:
  assumes "distinct (map row_id rs)"
  shows "map (\<lambda>r. if row_id r \<in> row_id ` {x \<in> set rs. P x} then g r else r) rs =
         map (\<lambda>r. if P r then g r else r) rs"
proof (intro map_cong refl)
  fix r assume r: "r \<in> set rs"
  have "row_id r \<in> row_id ` {x \<in> set rs. P x} \<longleftrightarrow> P r"
    using r same_id_eq [OF assms] by auto
  then show "(if row_id r \<in> row_id ` {x \<in> set rs. P x} then g r else r) = (if P r then g r else r)"
    by simp
qed

lemma deactivate_old_versions_Deliver:
  assumes "net w = []" and "truthy (service_key env)" and "distinct (map row_id (tilesets (cat w)))"
  shows "deactivate_old_versions env layer jur v w =
    (Inr (), w\<lparr>cat := (cat w)\<lparr>tilesets := map (\<lambda>r.
        if ts_category (row r) = layer \<and> ts_jurisdiction (row r) = jur \<and> ts_is_active (row r) \<and>
           ts_key (row r) \<noteq> tileset_key_of jur layer v
        then r\<lparr>row := (row r)\<lparr>ts_is_active := False\<rparr>\<rparr> else r) (tilesets (cat w))\<rparr>\<rparr>)"
  using assms
  by (simp add: deactivate_old_versions_def get_headers_def send_Deliver ok_response_def
      deactivate_loop_Deliver map_if_ids)

lemma filter_map_if_drop:
  "(\<And>r. \<not> P (g r)) \<Longrightarrow> filter P (map (\<lambda>r. if S r then g r else r) rs) = filter (\<lambda>r. P r \<and> \<not> S r) rs"
  by (induction rs) auto

text \<open>
  C9. Registration followed by \<open>--deactivate-old\<close> (lines 307--319), every request
  delivered: afterwards the row just registered is the only active tileset of its
  (layer, jurisdiction), the invariant specification 4.2 assigns to deactivation.
\<close>

theorem register_then_deactivate:
  assumes "net w = []" and "truthy (service_key env)" and "catalog_wf (cat w)"
    and "year (add_days 30 (readings (rclk w) (tick (rclk w)))) \<le> 9999"
  shows "\<exists>rec w1 w2. register_tileset env layer v jur rc tdir dur w = (Inr rec, w1) \<and>
     deactivate_old_versions env layer jur v w1 = (Inr (), w2) \<and>
     filter (\<lambda>r. ts_category (row r) = layer \<and> ts_jurisdiction (row r) = jur \<and> ts_is_active (row r))
       (tilesets (cat w2)) = [rec]"
proof -
  let ?k = "tileset_key_of jur layer v"
  obtain rec w1 where reg: "register_tileset env layer v jur rc tdir dur w = (Inr rec, w1)"
    and f1: "filter (\<lambda>r. ts_key (row r) = ?k) (tilesets (cat w1)) = [rec]"
    and p: "ts_category (row rec) = layer" "ts_jurisdiction (row rec) = jur" "ts_is_active (row rec)"
    and wf1: "catalog_wf (cat w1)" and n1: "net w1 = []"
    using register_tileset_fault_free [OF assms] by blast
  let ?P = "\<lambda>r. ts_category (row r) = layer \<and> ts_jurisdiction (row r) = jur \<and> ts_is_active (row r)"
  have "filter (\<lambda>r. ?P r \<and> \<not> (?P r \<and> ts_key (row r) \<noteq> ?k)) (tilesets (cat w1)) =
        filter ?P (filter (\<lambda>r. ts_key (row r) = ?k) (tilesets (cat w1)))"
    by (simp add: filter_filter) (metis (no_types, lifting))
  also have "\<dots> = [rec]" using f1 p by simp
  finally have "filter ?P (map (\<lambda>r. if ?P r \<and> ts_key (row r) \<noteq> ?k
          then r\<lparr>row := (row r)\<lparr>ts_is_active := False\<rparr>\<rparr> else r) (tilesets (cat w1))) = [rec]"
    by (subst filter_map_if_drop) simp_all
  moreover have "distinct (map row_id (tilesets (cat w1)))" using wf1 by (simp add: catalog_wf_def)
  ultimately show ?thesis
    using reg deactivate_old_versions_Deliver [OF n1 assms(2)] by (simp add: conj_assoc)
qed

text \<open>
  C11. Deactivations are isolated from error statuses (lines 243--255): as long as every
  request reaches the server, the loop goes through all old versions and returns
  normally, and afterwards exactly the rows whose \<open>PATCH\<close> was applied are inactive;
  a rejected \<open>PATCH\<close> leaves only its own row active.
\<close>

theorem deactivate_loop_rejections_isolated:
  assumes "truthy (service_key env)" and "\<forall>i<length xs. link_of (drop i (net w)) \<noteq> Unreachable"
  shows "\<exists>w'. deactivate_loop env xs w = (Inr (), w') \<and>
     tilesets (cat w') = map (\<lambda>r. if row_id r \<in> set (patched_ids xs (net w))
                               then r\<lparr>row := (row r)\<lparr>ts_is_active := False\<rparr>\<rparr> else r) (tilesets (cat w))"
  using assms(2)
proof (induction xs arbitrary: w)
  case Nil
  then show ?case by simp
next
  case (Cons x xs)
  have h: "link_of (net w) \<noteq> Unreachable" using Cons.prems by (metis drop0 length_Cons zero_less_Suc)
  let ?d = "link_of (net w) \<in> {Deliver, DeliverEmpty}"
  let ?g = "\<lambda>r::catalog_row. r\<lparr>row := (row r)\<lparr>ts_is_active := False\<rparr>\<rparr>"
  let ?w1 = "w\<lparr>net := tl (net w),
               cat := if ?d then (cat w)\<lparr>tilesets := map (\<lambda>r. if row_id r = row_id x then ?g r else r)
                                                     (tilesets (cat w))\<rparr>
                      else cat w\<rparr>"
  have n1: "net ?w1 = tl (net w)" by simp
  have "\<forall>i<length xs. link_of (drop i (net ?w1)) \<noteq> Unreachable"
    using Cons.prems by (simp add: drop_Suc [symmetric])
  from Cons.IH [OF this] obtain w' where l: "deactivate_loop env xs ?w1 = (Inr (), w')"
    and t0: "tilesets (cat w') = map (\<lambda>r. if row_id r \<in> set (patched_ids xs (net ?w1)) then ?g r else r)
                                   (tilesets (cat ?w1))"
    by blast
  have "tilesets (cat w') = map (\<lambda>r. if row_id r \<in> set (patched_ids (x # xs) (net w)) then ?g r else r)
                             (tilesets (cat w))"
  proof (cases ?d)
    case True
    then show ?thesis using t0 by (simp only: n1) (simp add: map_deactivate_compose)
  next
    case False
    then show ?thesis using t0 by (simp only: n1) simp
  qed
  then show ?case using h l by (simp only: deactivate_loop_Cons [OF assms(1)]) simp
qed

text \<open>
  C12. A lost connection is not isolated: when the \<open>i\<close>-th \<open>PATCH\<close> of the loop gets no
  response, the loop raises and the old versions after it keep their rows untouched,
  contrary to "failure to deactivate one old record does not block the others".
\<close>

theorem deactivate_loop_connection_error:
  assumes "truthy (service_key env)" and "i < length xs" and "link_of (drop i (net w)) = Unreachable"
    and "\<forall>j<i. link_of (drop j (net w)) \<noteq> Unreachable"
  shows "\<exists>w'. deactivate_loop env xs w = (Inl (ConnectionError ''Max retries exceeded''), w') \<and>
           (\<forall>r\<in>set (tilesets (cat w)). row_id r \<notin> set (map row_id (take i xs)) \<longrightarrow> r \<in> set (tilesets (cat w')))"
  using assms(2-4)
proof (induction xs arbitrary: i w)
  case Nil
  then show ?case by simp
next
  case (Cons x xs)
  show ?case
  proof (cases i)
    case 0
    then show ?thesis using Cons.prems by (simp only: deactivate_loop_Cons [OF assms(1)]) simp
  next
    case (Suc i')
    have h: "link_of (net w) \<noteq> Unreachable" using Cons.prems(3) Suc by (metis drop0 zero_less_Suc)
    let ?w1 = "w\<lparr>net := tl (net w),
               cat := if link_of (net w) \<in> {Deliver, DeliverEmpty}
                      then (cat w)\<lparr>tilesets := map (\<lambda>r. if row_id r = row_id x
                             then r\<lparr>row := (row r)\<lparr>ts_is_active := False\<rparr>\<rparr> else r) (tilesets (cat w))\<rparr>
                      else cat w\<rparr>"
    have "\<exists>w'. deactivate_loop env xs ?w1 = (Inl (ConnectionError ''Max retries exceeded''), w') \<and>
           (\<forall>r\<in>set (tilesets (cat ?w1)). row_id r \<notin> set (map row_id (take i' xs)) \<longrightarrow> r \<in> set (tilesets (cat w')))"
      using Cons.prems Suc by (intro Cons.IH) (auto simp: drop_Suc [symmetric])
    then obtain w' where d: "deactivate_loop env xs ?w1 = (Inl (ConnectionError ''Max retries exceeded''), w')"
      and k: "\<forall>r\<in>set (tilesets (cat ?w1)). row_id r \<notin> set (map row_id (take i' xs)) \<longrightarrow> r \<in> set (tilesets (cat w'))"
      by blast
    have "\<forall>r\<in>set (tilesets (cat w)). row_id r \<notin> set (map row_id (take i (x # xs))) \<longrightarrow> r \<in> set (tilesets (cat w'))"
    proof (intro ballI impI)
      fix r assume r: "r \<in> set (tilesets (cat w))" and n: "row_id r \<notin> set (map row_id (take i (x # xs)))"
      then have "r \<in> set (tilesets (cat ?w1))" using Suc by (auto simp: image_iff)
      then show "r \<in> set (tilesets (cat w'))" using k n Suc by simp
    qed
    then show ?thesis using d h by (simp only: deactivate_loop_Cons [OF assms(1)]) simp
  qed
qed

text \<open>
  C10. \<open>deactivate_old_versions\<close> (specification 8.7, lines 221--255), every request
  delivered and row ids distinct: every active record of the (layer, jurisdiction) with
  another key is deactivated, the record with the current key is untouched, no row is
  added or removed, and exactly the matching records stop being active.
\<close>

theorem deactivate_old_versions_spec:
  assumes "net w = []" and "truthy (service_key env)" and "distinct (map row_id (tilesets (cat w)))"
  shows "\<exists>w'. deactivate_old_versions env layer jur v w = (Inr (), w') \<and>
     (\<forall>r\<in>set (tilesets (cat w')). ts_category (row r) = layer \<and> ts_jurisdiction (row r) = jur \<and>
        ts_is_active (row r) \<longrightarrow> ts_key (row r) = tileset_key_of jur layer v) \<and>
     filter (\<lambda>r. ts_key (row r) = tileset_key_of jur layer v) (tilesets (cat w')) =
       filter (\<lambda>r. ts_key (row r) = tileset_key_of jur layer v) (tilesets (cat w)) \<and>
     map row_id (tilesets (cat w')) = map row_id (tilesets (cat w)) \<and>
     length (filter (\<lambda>r. ts_is_active (row r)) (tilesets (cat w'))) =
       length (filter (\<lambda>r. ts_is_active (row r)) (tilesets (cat w))) -
       length (filter (\<lambda>r. ts_category (row r) = layer \<and> ts_jurisdiction (row r) = jur \<and> ts_is_active (row r) \<and>
                            ts_key (row r) \<noteq> tileset_key_of jur layer v) (tilesets (cat w)))"
proof -
  let ?S = "\<lambda>r. ts_category (row r) = layer \<and> ts_jurisdiction (row r) = jur \<and> ts_is_active (row r) \<and>
                 ts_key (row r) \<noteq> tileset_key_of jur layer v"
  let ?g = "\<lambda>r::catalog_row. r\<lparr>row := (row r)\<lparr>ts_is_active := False\<rparr>\<rparr>"
  have a0: "length (filter (\<lambda>r. ts_is_active (row r)) rs) =
        length (filter (\<lambda>r. ts_is_active (row r)) (map (\<lambda>r. if ?S r then ?g r else r) rs)) + length (filter ?S rs)" for rs
    by (induction rs) simp_all
  have a: "length (filter (\<lambda>r. ts_is_active (row r)) (map (\<lambda>r. if ?S r then ?g r else r) rs)) =
        length (filter (\<lambda>r. ts_is_active (row r)) rs) - length (filter ?S rs)" for rs
    using a0 [of rs] by simp
  have k: "filter (\<lambda>r. ts_key (row r) = tileset_key_of jur layer v) (map (\<lambda>r. if ?S r then ?g r else r) rs) =
           filter (\<lambda>r. ts_key (row r) = tileset_key_of jur layer v) rs" for rs
    by (induction rs) auto
  have f: "\<forall>r\<in>set (map (\<lambda>r. if ?S r then ?g r else r) rs). ts_category (row r) = layer \<and>
          ts_jurisdiction (row r) = jur \<and> ts_is_active (row r) \<longrightarrow> ts_key (row r) = tileset_key_of jur layer v" for rs
  proof
    fix r' assume "r' \<in> set (map (\<lambda>r. if ?S r then ?g r else r) rs)"
    then obtain r where r': "r' = (if ?S r then ?g r else r)" unfolding set_map by blast
    show "ts_category (row r') = layer \<and> ts_jurisdiction (row r') = jur \<and> ts_is_active (row r') \<longrightarrow>
          ts_key (row r') = tileset_key_of jur layer v"
    proof (cases "?S r")
      case True
      then have "\<not> ts_is_active (row r')" by (simp add: r')
      then show ?thesis by blast
    next
      case False
      then show ?thesis by (simp only: r' if_False) blast
    qed
  qed
  have i: "map row_id (map (\<lambda>r. if ?S r then ?g r else r) rs) = map row_id rs" for rs
    by (induction rs) auto
  let ?w' = "w\<lparr>cat := (cat w)\<lparr>tilesets := map (\<lambda>r. if ?S r then ?g r else r) (tilesets (cat w))\<rparr>\<rparr>"
  have d: "deactivate_old_versions env layer jur v w = (Inr (), ?w')"
    by (rule deactivate_old_versions_Deliver [OF assms])
  show ?thesis
  proof -
    have t: "tilesets (cat ?w') = map (\<lambda>r. if ?S r then ?g r else r) (tilesets (cat w))" by simp
    show ?thesis by (rule exI [of _ ?w'], simp only: d t) (simp only: i k a simp_thms, rule f)
  qed
qed

end
