(* ===== verification/RegisterCli.thy ===== *)
theory RegisterCli
  imports Deactivation
begin

text \<open>
  The registration command line, \<open>main\<close> of \<open>src/etl/jobs/register_tileset.py\<close>
  (lines 258--330).  The parsed \<open>argparse\<close> namespace is a record (parsing itself,
  and the defaults it fills in, belong to the library); console output is not
  modelled.  Every exception raised by \<open>register_tileset\<close> or
  \<open>deactivate_old_versions\<close> is caught by \<open>except Exception\<close> and turned into exit
  code 1.
\<close>

record reg_args =
  arg_layer :: string
  arg_version :: string
  arg_jurisdiction :: string
  arg_record_count :: "int option"
  arg_tiles_dir :: "path option"
  arg_duration_ms :: "int option"
  arg_deactivate_old :: bool

definition register_main :: "reg_env \<Rightarrow> reg_args \<Rightarrow> rworld \<Rightarrow> int \<times> rworld" where
  "register_main env a w =
     (case register_tileset env (arg_layer a) (arg_version a) (arg_jurisdiction a) (arg_record_count a)
             (arg_tiles_dir a) (arg_duration_ms a) w of
        (Inl e, w1) \<Rightarrow> (1, w1)
      | (Inr t, w1) \<Rightarrow>
          if arg_deactivate_old a
          then (case deactivate_old_versions env (arg_layer a) (arg_jurisdiction a) (arg_version a) w1 of
                  (Inl e, w2) \<Rightarrow> (1, w2)
                | (Inr _, w2) \<Rightarrow> (0, w2))
          else (0, w1))"

section \<open>Lemmas\<close>

lemma deactivate_old_versions_Unreachable:
  "link_of (net w) = Unreachable \<Longrightarrow> truthy (service_key env) \<Longrightarrow>
   fst (deactivate_old_versions env layer jur v w) = Inl (ConnectionError ''Max retries exceeded'')"
  by (simp add: deactivate_old_versions_def get_headers_def send_link)

lemma deactivate_old_versions_cat:
  "link_of (net w) = Unreachable \<Longrightarrow> truthy (service_key env) \<Longrightarrow>
   cat (snd (deactivate_old_versions env layer jur v w)) = cat w"
  by (simp add: deactivate_old_versions_def get_headers_def send_link)

text \<open>
  C18. The exit code does not say whether the tileset was registered (lines 306--330):
  when registration succeeds but the connection drops while \<open>--deactivate-old\<close>
  looks up the old versions, \<open>main\<close> exits with 1 although the catalog holds the
  row for the new key.
\<close>

theorem register_main_deactivation_failure:
  assumes "net w = [Deliver, Deliver, Deliver, Unreachable]" and "truthy (service_key env)"
    and "catalog_wf (cat w)" and "year (add_days 30 (readings (rclk w) (tick (rclk w)))) \<le> 9999"
    and "arg_deactivate_old a"
  shows "\<exists>rec w'. register_main env a w = (1, w') \<and>
     filter (\<lambda>r. ts_key (row r) = tileset_key_of (arg_jurisdiction a) (arg_layer a) (arg_version a))
       (tilesets (cat w')) = [rec]"
proof -
  obtain rec w1 where reg: "register_tileset env (arg_layer a) (arg_version a) (arg_jurisdiction a) (arg_record_count a)
             (arg_tiles_dir a) (arg_duration_ms a) w = (Inr rec, w1)"
    and f: "filter (\<lambda>r. ts_key (row r) = tileset_key_of (arg_jurisdiction a) (arg_layer a) (arg_version a))
       (tilesets (cat w1)) = [rec]"
    and n: "net w1 = [Unreachable]"
    using register_tileset_links [where w = w and env = env and layer = "arg_layer a" and v = "arg_version a"
        and jur = "arg_jurisdiction a" and rc = "arg_record_count a" and tdir = "arg_tiles_dir a"
        and dur = "arg_duration_ms a", OF _ _ assms(2-4)] assms(1)
    by (simp add: link_of_def) blast
  obtain r2 w2 where d: "deactivate_old_versions env (arg_layer a) (arg_jurisdiction a) (arg_version a) w1 = (r2, w2)"
    by (cases "deactivate_old_versions env (arg_layer a) (arg_jurisdiction a) (arg_version a) w1")
  have "fst (deactivate_old_versions env (arg_layer a) (arg_jurisdiction a) (arg_version a) w1) =
          Inl (ConnectionError ''Max retries exceeded'')"
       "cat (snd (deactivate_old_versions env (arg_layer a) (arg_jurisdiction a) (arg_version a) w1)) = cat w1"
    using deactivate_old_versions_Unreachable [of w1 env] deactivate_old_versions_cat [of w1 env] n assms(2)
    by (simp_all add: link_of_def)
  then have "r2 = Inl (ConnectionError ''Max retries exceeded'')" "cat w2 = cat w1" using d by simp_all
  then show ?thesis using reg d f assms(5) by (simp add: register_main_def)
qed

end
