(* ===== verification/Spec2Isabelle.thy ===== *)
theory Spec2Isabelle
  imports ExportCli RegisterCli
begin

text \<open>
  \<^bold>\<open>Verification model of the SiteIntel tile pipeline.\<close>
  The repository's pipeline has two jobs, \<open>src/etl/jobs/export_canonical.py\<close> (the
  Canonical Exporter) and \<open>src/etl/jobs/register_tileset.py\<close> (the Tileset Catalog
  Registrar).  Between them an external tool (Tippecanoe) cuts the exported GeoJSON into
  vector tiles; the registrar only observes its output directory.  This development is a
  shallow embedding of both scripts: every function is a HOL definition of the same name
  (suffixed where it clashes), its state is passed explicitly, and exceptions are
  \<open>Inl\<close> values of the type \<open>exc\<close> of \<open>Prelude\<close>.  All definitions are executable.

  \<^bold>\<open>Theories.\<close>
  \<^item> \<open>Prelude\<close>: the exception type, Python string helpers (\<open>str.lower\<close>, \<open>upper\<close>,
    \<open>title\<close>, \<open>split\<close>, \<open>join\<close>, truthiness of optional strings) and shared list lemmas.
  \<^item> \<open>Json\<close>: Python values and \<open>json.dumps\<close> (\<open>json_dumps\<close>) and
    \<open>json.dump(indent=2)\<close> (\<open>json_indent\<close>), with the proof that the output is ASCII.
  \<^item> \<open>Clock\<close>: \<open>datetime.utcnow\<close> as a sequence of readings (one consumed per call),
    \<open>isoformat\<close>, \<open>strftime("%Y_%m_%d")\<close> (\<open>version_stamp\<close>), \<open>timedelta(days=30)\<close>.
  \<^item> \<open>FileSys\<close>, \<open>Database\<close>, \<open>Catalog\<close>: the environments the jobs run against, not
    code of the repository: the local file system (\<open>mkdir -p\<close>, write, stat, \<open>rglob\<close>), the
    PostGIS database with psycopg2's transaction states, and the PostgREST catalog
    (\<open>serve\<close>) reached over a network whose outcome for each request is one of
    \<open>Deliver\<close>, \<open>DeliverEmpty\<close> (204), \<open>Reject\<close> (an error status) or \<open>Unreachable\<close>.
  \<^item> \<open>Layers\<close>: \<open>LAYER_CONFIG\<close> (lines 24--109) and its well-formedness.
  \<^item> \<open>Exporter\<close>: \<open>get_db_connection\<close>, \<open>export_layer_to_geojson\<close> (query, features,
    GeoJSON document, directory, file name, write, stat) and \<open>export_all_layers\<close>
    (\<open>export_loop\<close>: the per-layer \<open>try/except\<close> on one shared connection).
  \<^item> \<open>ExportCli\<close>: \<open>main\<close> of the exporter (\<open>export_main\<close>): one layer or all,
    \<open>manifest.json\<close>, exit code.
  \<^item> \<open>Registrar\<close>: \<open>get_headers\<close>, \<open>count_tiles\<close>, \<open>get_tiles_size\<close>, the zoom table,
    \<open>build_tileset\<close>, the upsert (\<open>update_existing\<close>, \<open>insert_new\<close>), the audit record
    (\<open>record_job\<close>), \<open>register_tileset\<close>, and \<open>deactivate_old_versions\<close> with its loop.
    The world \<open>rworld\<close> holds the catalog, the network outcomes, the clock, the
    \<open>uuid4\<close> source and the tile directory.
  \<^item> \<open>Deactivation\<close>: the effect of \<open>deactivate_old_versions\<close> alone and after a
    registration.  \<open>RegisterCli\<close>: \<open>main\<close> of the registrar (\<open>register_main\<close>).

  \<^bold>\<open>What is proved.\<close>
  Exporter: a successful export writes the FeatureCollection of the layer at the returned
  path with non-null geometries in EPSG:4326 and declared attributes only (C1); the
  jurisdiction filter is applied and case-insensitive (C2); file names are injective in
  layer, verbatim jurisdiction and day (C3) and the day can be read back (C6); one failing
  query aborts the shared transaction and every later layer of the batch fails (C4);
  the batch reports one entry per layer in order and closes its connection (C5); the
  manifest and exit code of \<open>main --layer all\<close> (C19), and that the manifest write
  crashes when no layer created the output directory (C20).
  Registrar: the fault-free upsert keeps exactly one row per key, updates in place or
  appends, and appends one audit job (C7, twice: C8); registration followed by
  deactivation leaves the new row the only active one of its layer and jurisdiction
  (C9); \<open>deactivate_old_versions\<close> alone (C10); error statuses do not stop the
  deactivation loop (C11) but a lost connection does (C12); a failed lookup is taken for
  absence (C13); the audit request is not isolated from connection errors (C14); tile
  statistics (C15), zoom policy (C16), key injectivity (C17) and the exit code of
  \<open>main\<close> (C18).  Each claim is proved in its component theory after a text block
  naming it; the witnesses below apply each claim to the demonstration data.

  \<^bold>\<open>Bounds and termination.\<close>
  Every loop of the two scripts iterates over a finite list (the layers, the query rows,
  the old versions, the \<open>.pbf\<close> entries) and is a structural \<open>fun\<close>; no fuel is needed.
  \<open>timedelta(days=30)\<close> is 30 applications of \<open>next_day\<close>; its \<open>OverflowError\<close> past
  the year 9999 is a branch of \<open>dt_add_days\<close>, and the registrar theorems assume the
  clock is below it.  Integers are unbounded, as in Python.

  \<^bold>\<open>Not modelled.\<close>
  Console output; \<open>argparse\<close> itself (the parsed arguments are records; the exporter's
  \<open>choices\<close> check is modelled as exit status 2); \<open>read_tile_stats\<close> of the registrar,
  which nothing calls; the repeated \<open>get_headers()\<close> calls after the first, which cannot
  fail once the first succeeded; partial writes: \<open>open(path, "w")\<close> followed by
  \<open>json.dump\<close> is one write that either happens or fails before touching the file, so
  no claim is made about the files a failed export leaves behind; non-integer column
  values (\<open>Decimal\<close>, floats) that \<open>json.dump\<close> would reject.
\<close>

definition demo_db :: db where
  "demo_db = \<lparr>relations = [(''wetlands_canonical'',
      \<lparr>schema = [(''geom'', TGeom), (''jurisdiction'', TText), (''attribute_code'', TText),
                  (''wetland_type'', TText), (''acres'', TInt)],
       rows = [[(''geom'', CGeom \<lparr>srid = 2278, gtype = ''Point'', coords = [(3, 4)]\<rparr>),
                (''jurisdiction'', CText ''Harris''), (''attribute_code'', CText ''PEM1''),
                (''acres'', CInt 2)],
               [(''geom'', CNull), (''jurisdiction'', CText ''harris'')]]\<rparr>)],
     transform = (\<lambda>s t p. p), geom_text = (\<lambda>g. [])\<rparr>"

definition demo_conn :: conn where
  "demo_conn = \<lparr>conn_db = demo_db, txn = TxIdle, closed = False\<rparr>"

definition demo_world :: world where
  "demo_world = \<lparr>files = [], clk = \<lparr>readings = (\<lambda>_. \<lparr>year = 2025, month = 1, day = 15, hour = 10,
        minute = 0, second = 0, microsecond = 0\<rparr>), tick = 0\<rparr>\<rparr>"

definition demo_time :: datetime where
  "demo_time = \<lparr>year = 2025, month = 1, day = 15, hour = 10, minute = 0, second = 0, microsecond = 0\<rparr>"

definition demo_env :: export_env where
  "demo_env = \<lparr>db_url = Some ''postgresql://canonical'', servers = [(''postgresql://canonical'', demo_db)]\<rparr>"

definition demo_reg_env :: reg_env where
  "demo_reg_env = \<lparr>service_key = Some ''service-role-key'', cdn_base = ''https://tiles.siteintel.ai''\<rparr>"

definition demo_catalog :: catalog where
  "demo_catalog =
     \<lparr>tilesets = [\<lparr>row_id = 1, row = build_tileset demo_reg_env ''parcels'' ''2025_01_01'' ''tx'' None None demo_time demo_time\<rparr>,
                  \<lparr>row_id = 2, row = build_tileset demo_reg_env ''parcels'' ''2025_01_15'' ''tx'' None None demo_time demo_time\<rparr>,
                  \<lparr>row_id = 3, row = build_tileset demo_reg_env ''zoning'' ''2025_01_01'' ''tx'' None None demo_time demo_time\<rparr>],
      tile_jobs = [], next_id = 4, key_unique = False\<rparr>"

definition demo_rworld :: rworld where
  "demo_rworld = \<lparr>cat = demo_catalog, net = [], rclk = \<lparr>readings = (\<lambda>_. demo_time), tick = 0\<rparr>,
     uuids = (\<lambda>i. ''6f1c2a9e-0000-4000-8000-'' @ zpad 12 (dec i)), uuid_tick = 0, tiles = []\<rparr>"

definition demo_args :: reg_args where
  "demo_args = \<lparr>arg_layer = ''parcels'', arg_version = ''2025_01_20'', arg_jurisdiction = ''tx'',
     arg_record_count = Some 120, arg_tiles_dir = None, arg_duration_ms = Some 5000, arg_deactivate_old = True\<rparr>"

definition demo_export_args :: exp_args where
  "demo_export_args = \<lparr>ea_layer = ''all'', ea_jurisdiction = None, ea_output_dir = [''export'']\<rparr>"

text \<open>C1 witness: a wetlands export filtered by \<open>HARRIS\<close> succeeds on a database with one matching row.\<close>

theorem export_layer_features_witness:
  "\<exists>r c' w'. export_layer_to_geojson demo_conn ''wetlands'' (Some ''HARRIS'') [''export''] demo_world =
     (Inr r, c', w') \<and> (\<exists>cfg (feats :: pyval list). lookup_layer ''wetlands'' = Some cfg \<and> record_count r = length feats)"
proof -
  have "case export_layer_to_geojson demo_conn ''wetlands'' (Some ''HARRIS'') [''export''] demo_world of
          (Inr r, c', w') \<Rightarrow> True | _ \<Rightarrow> False"
    by code_simp
  then obtain r c' w' where e:
    "export_layer_to_geojson demo_conn ''wetlands'' (Some ''HARRIS'') [''export''] demo_world = (Inr r, c', w')"
    by (auto split: prod.splits sum.splits)
  from export_layer_features [OF e] obtain cfg and feats :: "pyval list"
    where "lookup_layer ''wetlands'' = Some cfg" "record_count r = length feats"
    by meson
  with e show ?thesis by blast
qed

text \<open>C2 witness: \<open>Harris\<close> and \<open>harris\<close> select the same rows, on any database and layer.\<close>

theorem export_filter_case_insensitive_witness:
  "\<forall>d cfg. run_select d (build_query cfg (Some ''Harris'')) = run_select d (build_query cfg (Some ''harris''))"
proof (intro allI)
  fix d and cfg :: layer_config
  have "sql_lower ''Harris'' = sql_lower ''harris''"
    by (simp add: sql_lower_def py_lower_def is_upper_def)
  then show "run_select d (build_query cfg (Some ''Harris'')) = run_select d (build_query cfg (Some ''harris''))"
    using export_filter_case_insensitive [OF _ _ _, of "''Harris''" "''harris''" d cfg] by simp
qed

text \<open>
  C3 witness: the same parcels export filtered by \<open>Harris\<close> and by \<open>harris\<close> on the
  same day goes to two different files.
\<close>

theorem export_filename_inject_witness:
  "export_filename ''parcels'' (Some ''Harris'') (version_stamp demo_time) \<noteq>
   export_filename ''parcels'' (Some ''harris'') (version_stamp demo_time)"
proof -
  have h: "''parcels'' \<in> set layer_names" by (simp add: layer_names_def LAYER_CONFIG_def)
  have v: "valid_date demo_time" by (simp add: valid_date_def demo_time_def days_in_month_def)
  show ?thesis
    using export_filename_inject [OF h h v v, of "Some ''Harris''" "Some ''harris''"]
    by (simp add: jurisdiction_suffix_def)
qed

text \<open>
  C4 witness: on a database without \<open>canonical_parcels\<close>, the batch fails for every
  layer after \<open>parcels\<close>, including \<open>wetlands\<close>, whose export on its own succeeds
  (C1 witness).
\<close>

theorem export_loop_query_error_poisons_witness:
  "drop 1 (fst (export_loop demo_conn layer_names None [''export''] demo_world)) =
     map (\<lambda>m. Failed m aborted_msg) (tl layer_names)"
proof -
  let ?cfg = "the (lookup_layer ''parcels'')"
  have names: "layer_names = [] @ ''parcels'' # tl layer_names"
    by (simp add: layer_names_def LAYER_CONFIG_def)
  have cfg: "lookup_layer ''parcels'' = Some ?cfg"
    by (simp add: lookup_layer_def LAYER_CONFIG_def)
  have err: "run_select (conn_db demo_conn) (build_query ?cfg None) =
      Inl (DbError (''relation '' @ json_str ''canonical_parcels'' @ '' does not exist''))"
    by (simp add: run_select_def demo_conn_def demo_db_def build_query_def lookup_layer_def LAYER_CONFIG_def)
  have sub: "set ([] @ ''parcels'' # tl layer_names) \<subseteq> set layer_names"
    using names by simp
  have nc: "\<not> closed demo_conn" by (simp add: demo_conn_def)
  from export_loop_query_error_poisons [OF sub nc cfg err, of "[''export'']" demo_world] names
  show ?thesis by (metis append_Nil length_0_conv list.size(3) One_nat_def)
qed

text \<open>C5 witness run: the whole batch on the demonstration database.\<close>

theorem export_all_layers_outcomes_witness:
  "\<exists>ocs co w'. export_all_layers demo_env None [''export''] demo_world = (Inr ocs, co, w') \<and>
     map outcome_layer ocs = layer_names \<and> (\<exists>c. co = Some c \<and> closed c)"
proof -
  have "case export_all_layers demo_env None [''export''] demo_world of (Inr ocs, co, w') \<Rightarrow> True | _ \<Rightarrow> False"
    by code_simp
  then obtain ocs co w' where e: "export_all_layers demo_env None [''export''] demo_world = (Inr ocs, co, w')"
    by (auto split: prod.splits sum.splits)
  from export_all_layers_outcomes [OF e] e show ?thesis by blast
qed

lemma demo_rworld_ok:
  "net demo_rworld = []" "truthy (service_key demo_reg_env)" "catalog_wf (cat demo_rworld)"
  "year (add_days 30 (readings (rclk demo_rworld) i)) \<le> 9999"
proof -
  show "year (add_days 30 (readings (rclk demo_rworld) i)) \<le> 9999"
    using year_add_days [of 30 demo_time] by (simp add: demo_rworld_def demo_time_def)
qed (simp_all add: demo_rworld_def demo_reg_env_def demo_catalog_def catalog_wf_def tileset_key_of_def)

lemma demo_keys:
  "filter (\<lambda>r. ts_key (row r) = ''us_tx_parcels_2025_01_15'') (tilesets (cat demo_rworld))
     = [\<lparr>row_id = 2, row = build_tileset demo_reg_env ''parcels'' ''2025_01_15'' ''tx'' None None demo_time demo_time\<rparr>]"
  by (simp add: demo_rworld_def demo_catalog_def tileset_key_of_def)

text \<open>Witness for \<open>register_tileset_twice\<close> on the demonstration catalog.\<close>

theorem register_tileset_twice_witness:
  "\<exists>r1 w1 r2 w2.
     register_tileset demo_reg_env ''parcels'' ''2025_01_20'' ''tx'' (Some 120) None None demo_rworld = (Inr r1, w1) \<and>
     register_tileset demo_reg_env ''parcels'' ''2025_01_20'' ''tx'' (Some 121) None None w1 = (Inr r2, w2) \<and>
     row_id r2 = row_id r1 \<and> map row_id (tilesets (cat w2)) = map row_id (tilesets (cat w1)) \<and>
     filter (\<lambda>r. ts_key (row r) = tileset_key_of ''tx'' ''parcels'' ''2025_01_20'') (tilesets (cat w2)) = [r2] \<and>
     length (tile_jobs (cat w2)) = length (tile_jobs (cat demo_rworld)) + 2"
  using register_tileset_twice [OF demo_rworld_ok(1,2,3) allI [OF demo_rworld_ok(4)]] by blast

text \<open>Witness for \<open>register_then_deactivate\<close> on the demonstration catalog.\<close>

theorem register_then_deactivate_witness:
  "\<exists>rec w1 w2. register_tileset demo_reg_env ''parcels'' ''2025_01_20'' ''tx'' None None None demo_rworld = (Inr rec, w1) \<and>
     deactivate_old_versions demo_reg_env ''parcels'' ''tx'' ''2025_01_20'' w1 = (Inr (), w2) \<and>
     filter (\<lambda>r. ts_category (row r) = ''parcels'' \<and> ts_jurisdiction (row r) = ''tx'' \<and> ts_is_active (row r))
       (tilesets (cat w2)) = [rec]"
  using register_then_deactivate [OF demo_rworld_ok(1,2,3,4)] by blast

text \<open>Witness for \<open>deactivate_old_versions_spec\<close> on the demonstration catalog.\<close>

theorem deactivate_old_versions_spec_witness:
  "\<exists>w'. deactivate_old_versions demo_reg_env ''parcels'' ''tx'' ''2025_01_15'' demo_rworld = (Inr (), w') \<and>
     length (filter (\<lambda>r. ts_is_active (row r)) (tilesets (cat w'))) = 2"
proof -
  have d: "distinct (map row_id (tilesets (cat demo_rworld)))" by (simp add: demo_rworld_def demo_catalog_def)
  have "length (filter (\<lambda>r. ts_is_active (row r)) (tilesets (cat demo_rworld))) -
        length (filter (\<lambda>r. ts_category (row r) = ''parcels'' \<and> ts_jurisdiction (row r) = ''tx'' \<and> ts_is_active (row r) \<and>
                            ts_key (row r) \<noteq> tileset_key_of ''tx'' ''parcels'' ''2025_01_15'') (tilesets (cat demo_rworld))) = 2"
    by (simp add: demo_rworld_def demo_catalog_def tileset_key_of_def)
  with deactivate_old_versions_spec [OF demo_rworld_ok(1,2) d, of "''parcels''" "''tx''" "''2025_01_15''"]
  show ?thesis by auto
qed

text \<open>Witness for \<open>register_tileset_upsert\<close> on the demonstration catalog.\<close>

theorem register_tileset_upsert_witness:
  "\<exists>rec w'. register_tileset demo_reg_env ''parcels'' ''2025_01_15'' ''tx'' (Some 120) None (Some 5000) demo_rworld
      = (Inr rec, w') \<and> row_id rec = 2 \<and>
     filter (\<lambda>r. ts_key (row r) = ''us_tx_parcels_2025_01_15'') (tilesets (cat w')) = [rec]"
  using register_tileset_upsert [OF demo_rworld_ok(1,2,3,4), where layer = "''parcels''" and v = "''2025_01_15''"
      and jur = "''tx''" and rc = "Some 120" and tdir = None and dur = "Some 5000"]
  by (auto simp: demo_keys tileset_key_of_def)

text \<open>Witness for \<open>deactivate_loop_rejections_isolated\<close> on the demonstration catalog.\<close>

theorem deactivate_loop_rejections_isolated_witness:
  "\<exists>w'. deactivate_loop demo_reg_env (tilesets demo_catalog)
          (demo_rworld\<lparr>net := [Reject 500 ''error'', Deliver, Reject 401 ''denied'']\<rparr>) = (Inr (), w') \<and>
     tilesets (cat w') = map (\<lambda>r. if row_id r = 2 then r\<lparr>row := (row r)\<lparr>ts_is_active := False\<rparr>\<rparr> else r)
                            (tilesets demo_catalog)"
proof -
  let ?w = "demo_rworld\<lparr>net := [Reject 500 ''error'', Deliver, Reject 401 ''denied'']\<rparr>"
  have h: "\<forall>i<length (tilesets demo_catalog). link_of (drop i (net ?w)) \<noteq> Unreachable"
    by (simp add: demo_catalog_def link_of_def less_Suc_eq)
  have p: "set (patched_ids (tilesets demo_catalog) (net ?w)) = {2}"
    by (simp add: demo_catalog_def link_of_def)
  have c: "cat ?w = demo_catalog" by (simp add: demo_rworld_def)
  from deactivate_loop_rejections_isolated [OF demo_rworld_ok(2) h] show ?thesis
    by (simp only: p c) simp
qed

text \<open>Witness for \<open>deactivate_loop_connection_error\<close> on the demonstration catalog.\<close>

theorem deactivate_loop_connection_error_witness:
  "\<exists>w'. deactivate_loop demo_reg_env (tilesets demo_catalog) (demo_rworld\<lparr>net := [Unreachable]\<rparr>) =
          (Inl (ConnectionError ''Max retries exceeded''), w') \<and>
        set (tilesets demo_catalog) \<subseteq> set (tilesets (cat w'))"
proof -
  have "0 < length (tilesets demo_catalog)" by (simp add: demo_catalog_def)
  moreover have "link_of (drop 0 (net (demo_rworld\<lparr>net := [Unreachable]\<rparr>))) = Unreachable" by (simp add: link_of_def)
  moreover have "\<forall>j<0. link_of (drop j (net (demo_rworld\<lparr>net := [Unreachable]\<rparr>))) \<noteq> Unreachable" by simp
  moreover have c: "cat (demo_rworld\<lparr>net := [Unreachable]\<rparr>) = demo_catalog" by (simp add: demo_rworld_def)
  ultimately show ?thesis
    using deactivate_loop_connection_error [OF demo_rworld_ok(2), of 0 "tilesets demo_catalog"
        "demo_rworld\<lparr>net := [Unreachable]\<rparr>"]
    by (simp add: c subset_eq)
qed

text \<open>Witness for \<open>register_lookup_failure_duplicates\<close> on the demonstration catalog.\<close>

theorem register_lookup_failure_duplicates_witness:
  "\<exists>rec w'. register_tileset demo_reg_env ''parcels'' ''2025_01_15'' ''tx'' None None None
             (demo_rworld\<lparr>net := [Reject 503 ''unavailable'']\<rparr>) = (Inr rec, w') \<and>
     \<not> catalog_wf (cat w')"
proof -
  let ?w = "demo_rworld\<lparr>net := [Reject 503 ''unavailable'']\<rparr>"
  have h: "truthy (service_key demo_reg_env)" "year (add_days 30 (readings (rclk ?w) (tick (rclk ?w)))) \<le> 9999"
    using demo_rworld_ok(2,4) by simp_all
  have e: "\<exists>r\<in>set (tilesets (cat ?w)). ts_key (row r) = tileset_key_of ''tx'' ''parcels'' ''2025_01_15''"
    by (rule bexI [of _ "\<lparr>row_id = 2, row = build_tileset demo_reg_env ''parcels'' ''2025_01_15'' ''tx'' None None demo_time demo_time\<rparr>"])
       (simp_all add: demo_rworld_def demo_catalog_def)
  have u: "\<not> key_unique (cat ?w)" by (simp add: demo_rworld_def demo_catalog_def)
  have n: "net ?w = [Reject 503 ''unavailable'']" "(503::int) \<noteq> 200" by simp_all
  from register_lookup_failure_duplicates [OF n h(1) h(2) e, of None None None] u
  show ?thesis by (simp only: if_False) blast
qed

text \<open>Witness for \<open>register_audit_not_isolated\<close> on the demonstration catalog.\<close>

theorem register_audit_not_isolated_witness:
  "\<exists>rec w'. register_tileset demo_reg_env ''parcels'' ''2025_01_20'' ''tx'' None None None
             (demo_rworld\<lparr>net := [Deliver, Deliver, Unreachable]\<rparr>) =
           (Inl (ConnectionError ''Max retries exceeded''), w') \<and>
     filter (\<lambda>r. ts_key (row r) = tileset_key_of ''tx'' ''parcels'' ''2025_01_20'') (tilesets (cat w')) = [rec]"
proof -
  let ?w = "demo_rworld\<lparr>net := [Deliver, Deliver, Unreachable]\<rparr>"
  have h: "truthy (service_key demo_reg_env)" "catalog_wf (cat ?w)"
    "year (add_days 30 (readings (rclk ?w) (tick (rclk ?w)))) \<le> 9999"
    using demo_rworld_ok(2,3,4) by simp_all
  from register_audit_not_isolated [where w = ?w and l = Unreachable and env = demo_reg_env and layer = "''parcels''"
      and v = "''2025_01_20''" and jur = "''tx''" and rc = None and tdir = None and dur = None, OF _ h]
  show ?thesis by auto
qed

text \<open>Witness for \<open>register_tile_statistics\<close> on the demonstration catalog.\<close>

theorem register_tile_statistics_witness:
  "\<exists>rec w' j. register_tileset demo_reg_env ''parcels'' ''2025_01_20'' ''tx'' (Some 120) (Some [''tiles'']) None demo_rworld
       = (Inr rec, w') \<and> tile_jobs (cat w') = tile_jobs (cat demo_rworld) @ [j] \<and>
     ts_size_bytes (row rec) = Some 0 \<and> output_tiles j = Some 0"
proof -
  have "\<not> path_exists (tiles demo_rworld) [''tiles'']" by (simp add: demo_rworld_def path_exists_def)
  with register_tile_statistics [OF demo_rworld_ok(1,2,3,4), of "''parcels''" "''2025_01_20''" "''tx''" "Some 120"
      "Some [''tiles'']" None]
  show ?thesis by auto
qed

text \<open>Witness for \<open>build_tileset_zoom\<close> on the demonstration catalog.\<close>

theorem build_tileset_zoom_witness:
  "zoom_range ''roads'' = (8, 18) \<and>
   8 \<le> ts_min_zoom (build_tileset demo_reg_env ''wetlands'' ''2025_01_15'' ''tx'' None None demo_time demo_time) \<and>
   ts_max_zoom (build_tileset demo_reg_env ''wetlands'' ''2025_01_15'' ''tx'' None None demo_time demo_time) \<le> 18"
proof -
  have "''roads'' \<notin> set (map fst zoom_ranges)" by (simp add: zoom_ranges_def)
  with build_tileset_zoom [of "''roads''" demo_reg_env "''2025_01_15''" "''tx''" None None demo_time demo_time]
    build_tileset_zoom [of "''wetlands''" demo_reg_env "''2025_01_15''" "''tx''" None None demo_time demo_time]
  show ?thesis by (simp only: simp_thms)
qed

text \<open>Witness for \<open>tileset_key_inject\<close> on the demonstration catalog.\<close>

theorem tileset_key_inject_witness:
  "tileset_key_of ''tx'' ''parcels'' ''2025_01_15'' \<noteq> tileset_key_of ''tx'' ''zoning'' ''2025_01_15''"
proof -
  have "CHR ''_'' \<notin> set ''tx''" "CHR ''_'' \<notin> set ''parcels''" "CHR ''_'' \<notin> set ''zoning''" by simp_all
  with tileset_key_inject [of "''tx''" "''parcels''" "''tx''" "''zoning''" "''2025_01_15''" "''2025_01_15''"]
  show ?thesis by simp
qed

text \<open>Witness for \<open>register_main_deactivation_failure\<close>: the connection drops at the lookup of old versions.\<close>

theorem register_main_deactivation_failure_witness:
  "\<exists>rec w'. register_main demo_reg_env demo_args (demo_rworld\<lparr>net := [Deliver, Deliver, Deliver, Unreachable]\<rparr>) = (1, w') \<and>
     filter (\<lambda>r. ts_key (row r) = ''us_tx_parcels_2025_01_20'') (tilesets (cat w')) = [rec]"
proof -
  let ?w = "demo_rworld\<lparr>net := [Deliver, Deliver, Deliver, Unreachable]\<rparr>"
  have h: "net ?w = [Deliver, Deliver, Deliver, Unreachable]" "truthy (service_key demo_reg_env)" "catalog_wf (cat ?w)"
    "year (add_days 30 (readings (rclk ?w) (tick (rclk ?w)))) \<le> 9999" "arg_deactivate_old demo_args"
    using demo_rworld_ok(2,3,4) by (simp_all add: demo_args_def)
  have k: "tileset_key_of (arg_jurisdiction demo_args) (arg_layer demo_args) (arg_version demo_args) = ''us_tx_parcels_2025_01_20''"
    by (simp add: demo_args_def tileset_key_of_def)
  from register_main_deactivation_failure [OF h] show ?thesis by (simp only: k)
qed

text \<open>Witness for \<open>export_main_all_manifest\<close> on the demonstration database.\<close>

theorem export_main_all_manifest_witness:
  "\<exists>code w' ocs t. export_main demo_env demo_export_args (demo_world\<lparr>files := [([''export''], Dir)]\<rparr>) = (Inr code, w') \<and>
     map outcome_layer ocs = layer_names \<and> (code = 1 \<longleftrightarrow> \<not> list_all is_exported ocs)"
proof -
  have "case export_main demo_env demo_export_args (demo_world\<lparr>files := [([''export''], Dir)]\<rparr>) of
          (Inr code, w') \<Rightarrow> True | _ \<Rightarrow> False"
    by code_simp
  then obtain code w' where e:
    "export_main demo_env demo_export_args (demo_world\<lparr>files := [([''export''], Dir)]\<rparr>) = (Inr code, w')"
    by (auto split: prod.splits sum.splits)
  have a: "ea_layer demo_export_args = ''all''" by (simp add: demo_export_args_def)
  from export_main_all_manifest [OF a e] e show ?thesis by blast
qed

text \<open>Witness for \<open>export_main_manifest_needs_dir\<close> on the demonstration database.\<close>

theorem export_main_manifest_needs_dir_witness:
  "\<exists>msg w'. export_main demo_env demo_export_args demo_world = (Inl (OSError msg), w') \<and> files w' = []"
proof -
  have a: "ea_layer demo_export_args = ''all''" by (simp add: demo_export_args_def)
  have c: "get_db_connection demo_env = Inr demo_conn"
    by (simp add: get_db_connection_def demo_env_def pg_connect_def demo_conn_def)
  have o: "\<not> closed demo_conn" "txn demo_conn \<noteq> TxFailed" by (simp_all add: demo_conn_def)
  let ?cfg = "the (lookup_layer (hd layer_names))"
  have l: "lookup_layer (hd layer_names) = Some ?cfg"
    by (simp add: lookup_layer_def layer_names_def LAYER_CONFIG_def)
  have q: "case run_select (conn_db demo_conn) (build_query ?cfg (ea_jurisdiction demo_export_args)) of
             Inl e \<Rightarrow> True | Inr _ \<Rightarrow> False"
    by code_simp
  then obtain e where q': "run_select (conn_db demo_conn) (build_query ?cfg (ea_jurisdiction demo_export_args)) = Inl e"
    by (auto split: sum.splits)
  have d: "\<not> is_dir (files demo_world) (ea_output_dir demo_export_args)"
    by (simp add: demo_world_def demo_export_args_def is_dir_def)
  from export_main_manifest_needs_dir [OF a c o l q' d] show ?thesis by (simp add: demo_world_def)
qed

end
